theory Spec2Isabelle
  imports Complex_Main "HOL-Library.Multiset"
begin

section \<open>Batched ordinary least squares: \<^verbatim>\<open>fastreg/ols.py\<close>\<close>

text \<open>
  The routine \<^verbatim>\<open>fit(xdata, ydata)\<close> regresses every column of \<^verbatim>\<open>ydata\<close> on the
  shared vector \<^verbatim>\<open>xdata\<close> with numpy array operations. The embedding follows the
  source line by line.

  Numbers: numpy computes in IEEE binary64. Every floating-point operation of the source
  is the exact operation on the reals followed by a rounding, and the rounding is an
  argument \<open>rnd\<close> of every function of the model. Two roundings are defined:
  \<open>binary64\<close>, round to nearest with ties to even on 53 bits, which is what the program
  does, and \<open>exact\<close>, no rounding, which is the arithmetic of the specification's
  formulas. A theorem about \<open>fit rnd\<close> holds of both; a theorem about \<open>fit exact\<close> is a
  statement about the formulas and need not hold of the program.

  The special values of IEEE arithmetic are modelled as results (\<open>npfloat\<close>); the entries
  of the inputs are finite, a float standing for the real number it denotes. Not
  modelled: the sign of zero, the blocked summation of numpy on eight and more entries,
  and whatever the kernels of a particular BLAS or LAPACK build do differently from the
  textbook order of operations (fused multiply-add, multiplication by a reciprocal).
  The exceptions the calls can raise are values of \<open>error\<close>.
\<close>

subsection \<open>Values, errors and arrays\<close>

datatype npfloat = Fin real | PInf | NInf | NaN

datatype error = ValueError | LinAlgError | ZeroDivisionError

type_synonym rounding = "real \<Rightarrow> npfloat"

text \<open>A two-dimensional array of finite floats: its second dimension and its rows.\<close>

record ndarray =
  shape1 :: nat
  data :: "real list list"

definition shape0 :: "ndarray \<Rightarrow> nat" where
  "shape0 A = length (data A)"

definition wf_ndarray :: "ndarray \<Rightarrow> bool" where
  "wf_ndarray A = list_all (\<lambda>r. length r = shape1 A) (data A)"

subsection \<open>The two roundings\<close>

definition exact :: rounding where
  "exact x = Fin x"

text \<open>
  Binary64: a non-zero real \<open>x\<close> with \<open>2\<^sup>e \<le> |x| < 2\<^sup>e\<^sup>+\<^sup>1\<close> is rounded to the nearest multiple
  of \<open>2\<^sup>e\<^sup>-\<^sup>5\<^sup>2\<close> (of \<open>2\<^sup>-\<^sup>1\<^sup>0\<^sup>7\<^sup>4\<close> in the subnormal range), a tie going to the even multiple; a
  result of magnitude \<open>2\<^sup>1\<^sup>0\<^sup>2\<^sup>4\<close> or more overflows to an infinity.
\<close>

definition pow2 :: "int \<Rightarrow> real" where
  "pow2 k = (if 0 \<le> k then 2 ^ nat k else 1 / 2 ^ nat (- k))"

definition rhe :: "real \<Rightarrow> int" where
  "rhe q =
     (let f = \<lfloor>q\<rfloor>; d = q - of_int f
      in if d < 1 / 2 then f else if 1 / 2 < d then f + 1 else if even f then f else f + 1)"

definition ulp_exp :: "real \<Rightarrow> int" where
  "ulp_exp x = max (\<lfloor>log 2 \<bar>x\<bar>\<rfloor> - 52) (- 1074)"

definition round64 :: "real \<Rightarrow> real" where
  "round64 x = (if x = 0 then 0 else of_int (rhe (x / pow2 (ulp_exp x))) * pow2 (ulp_exp x))"

definition binary64 :: rounding where
  "binary64 x =
     (let r = round64 x
      in if 2 ^ 1024 \<le> \<bar>r\<bar> then (if 0 < r then PInf else NInf) else Fin r)"

subsection \<open>numpy arithmetic on floats\<close>

text \<open>Elementwise operations of numpy: they warn and yield a special value, never raise.\<close>

fun np_neg :: "npfloat \<Rightarrow> npfloat" where
  "np_neg (Fin a) = Fin (- a)"
| "np_neg PInf = NInf"
| "np_neg NInf = PInf"
| "np_neg NaN = NaN"

fun np_add :: "rounding \<Rightarrow> npfloat \<Rightarrow> npfloat \<Rightarrow> npfloat" where
  "np_add rnd (Fin a) (Fin b) = rnd (a + b)"
| "np_add rnd NaN _ = NaN"
| "np_add rnd _ NaN = NaN"
| "np_add rnd PInf NInf = NaN"
| "np_add rnd NInf PInf = NaN"
| "np_add rnd PInf _ = PInf"
| "np_add rnd _ PInf = PInf"
| "np_add rnd NInf _ = NInf"
| "np_add rnd _ NInf = NInf"

definition np_sub :: "rounding \<Rightarrow> npfloat \<Rightarrow> npfloat \<Rightarrow> npfloat" where
  "np_sub rnd u v = np_add rnd u (np_neg v)"

text \<open>An infinity with the sign of \<open>a\<close>, and NaN for \<open>a = 0\<close>.\<close>

definition signed_inf :: "real \<Rightarrow> npfloat" where
  "signed_inf a = (if a = 0 then NaN else if 0 < a then PInf else NInf)"

fun np_mul :: "rounding \<Rightarrow> npfloat \<Rightarrow> npfloat \<Rightarrow> npfloat" where
  "np_mul rnd (Fin a) (Fin b) = rnd (a * b)"
| "np_mul rnd NaN _ = NaN"
| "np_mul rnd _ NaN = NaN"
| "np_mul rnd (Fin a) PInf = signed_inf a"
| "np_mul rnd (Fin a) NInf = signed_inf (- a)"
| "np_mul rnd PInf (Fin b) = signed_inf b"
| "np_mul rnd NInf (Fin b) = signed_inf (- b)"
| "np_mul rnd PInf PInf = PInf"
| "np_mul rnd NInf NInf = PInf"
| "np_mul rnd PInf NInf = NInf"
| "np_mul rnd NInf PInf = NInf"

fun np_divide :: "rounding \<Rightarrow> npfloat \<Rightarrow> npfloat \<Rightarrow> npfloat" where
  "np_divide rnd (Fin a) (Fin b) = (if b = 0 then signed_inf a else rnd (a / b))"
| "np_divide rnd NaN _ = NaN"
| "np_divide rnd _ NaN = NaN"
| "np_divide rnd (Fin a) _ = Fin 0"
| "np_divide rnd PInf (Fin b) = (if 0 \<le> b then PInf else NInf)"
| "np_divide rnd NInf (Fin b) = (if 0 \<le> b then NInf else PInf)"
| "np_divide rnd _ _ = NaN"

fun np_sqrt :: "rounding \<Rightarrow> npfloat \<Rightarrow> npfloat" where
  "np_sqrt rnd (Fin a) = (if a < 0 then NaN else rnd (sqrt a))"
| "np_sqrt rnd PInf = PInf"
| "np_sqrt rnd NInf = NaN"
| "np_sqrt rnd NaN = NaN"

fun np_abs :: "npfloat \<Rightarrow> npfloat" where
  "np_abs (Fin a) = Fin \<bar>a\<bar>"
| "np_abs PInf = PInf"
| "np_abs NInf = PInf"
| "np_abs NaN = NaN"

text \<open>\<open>|u| < |v|\<close> as a comparison of floats: false when either side is NaN.\<close>

fun np_abs_less :: "npfloat \<Rightarrow> npfloat \<Rightarrow> bool" where
  "np_abs_less (Fin a) (Fin b) = (\<bar>a\<bar> < \<bar>b\<bar>)"
| "np_abs_less NaN _ = False"
| "np_abs_less _ NaN = False"
| "np_abs_less (Fin a) _ = True"
| "np_abs_less _ _ = False"

text \<open>Python's own float division raises on a zero divisor.\<close>

definition py_div :: "rounding \<Rightarrow> real \<Rightarrow> real \<Rightarrow> error + npfloat" where
  "py_div rnd a b = (if b = 0 then Inl ZeroDivisionError else Inr (rnd (a / b)))"

subsection \<open>Array helpers\<close>

definition column :: "nat \<Rightarrow> 'a list list \<Rightarrow> 'a list" where
  "column j A = map (\<lambda>r. r ! j) A"

text \<open>
  Indexing with a list of indices: \<^verbatim>\<open>v[p]\<close> on a vector or on the rows of an array, and
  \<^verbatim>\<open>A[:, p]\<close> on its columns.
\<close>

definition take_idx :: "nat list \<Rightarrow> 'a list \<Rightarrow> 'a list" where
  "take_idx p v = map (\<lambda>i. v ! i) p"

definition take_columns :: "nat list \<Rightarrow> 'a list list \<Rightarrow> 'a list list" where
  "take_columns p A = map (take_idx p) A"

text \<open>\<^verbatim>\<open>A.T\<close> for an array of \<open>m\<close> columns given by its rows.\<close>

definition transpose_m :: "nat \<Rightarrow> 'a list list \<Rightarrow> 'a list list" where
  "transpose_m m A = map (\<lambda>j. column j A) [0..<m]"

text \<open>
  Sums and dot products accumulate from left to right, starting at 0; every product and
  every partial sum is rounded.
\<close>

definition np_sum :: "rounding \<Rightarrow> npfloat list \<Rightarrow> npfloat" where
  "np_sum rnd v = foldl (np_add rnd) (Fin 0) v"

definition dot :: "rounding \<Rightarrow> npfloat list \<Rightarrow> npfloat list \<Rightarrow> npfloat" where
  "dot rnd u v = np_sum rnd (map2 (np_mul rnd) u v)"

text \<open>\<^verbatim>\<open>np.dot(A, B)\<close> for \<open>A\<close> of shape \<open>k \<times> n\<close> and \<open>B\<close> of shape \<open>n \<times> m\<close>.\<close>

definition matmul ::
  "rounding \<Rightarrow> npfloat list list \<Rightarrow> nat \<Rightarrow> npfloat list list \<Rightarrow> npfloat list list" where
  "matmul rnd A m B = map (\<lambda>a. map (\<lambda>j. dot rnd a (column j B)) [0..<m]) A"

text \<open>
  \<^verbatim>\<open>v.mean(0)\<close> of a vector: the sum divided by the count (NaN for no entries), and
  \<^verbatim>\<open>stats.ss(v)\<close>, which is \<^verbatim>\<open>np.sum(v*v, 0)\<close>; \<^verbatim>\<open>np.sum(v ** 2)\<close> computes the same.
\<close>

definition mean :: "rounding \<Rightarrow> npfloat list \<Rightarrow> npfloat" where
  "mean rnd v = np_divide rnd (np_sum rnd v) (Fin (real (length v)))"

definition ss :: "rounding \<Rightarrow> npfloat list \<Rightarrow> npfloat" where
  "ss rnd v = np_sum rnd (map (\<lambda>a. np_mul rnd a a) v)"

text \<open>
  Modelled from the spec: \<^verbatim>\<open>utils.add_constant\<close>, which is not among the sources. It
  appends a column of ones to the independent vector, giving the \<open>n \<times> 2\<close> design matrix
  \<open>[x | 1]\<close>.
\<close>

definition add_constant :: "npfloat list \<Rightarrow> npfloat list list" where
  "add_constant x = map (\<lambda>v. [v, Fin 1]) x"

subsection \<open>The linear solve\<close>

text \<open>
  \<^verbatim>\<open>np.linalg.solve\<close> hands each system to LAPACK's \<^verbatim>\<open>gesv\<close>: an LU factorisation with
  partial pivoting, then the two triangular solves. A pivot that is exactly zero is
  reported and numpy raises \<^verbatim>\<open>LinAlgError\<close>. \<open>lu_solve\<close> eliminates with the pivot
  row \<open>(p, q | e)\<close> and the other row \<open>(r, s | f)\<close>; the second row becomes the pivot row
  when its first entry is the larger in magnitude.
\<close>

definition lu_solve ::
  "rounding \<Rightarrow> npfloat \<Rightarrow> npfloat \<Rightarrow> npfloat \<Rightarrow> npfloat \<Rightarrow> npfloat \<Rightarrow> npfloat \<Rightarrow> error + npfloat list"
where
  "lu_solve rnd p q r s e f =
     (if p = Fin 0 then Inl LinAlgError
      else let l = np_divide rnd r p; u = np_sub rnd s (np_mul rnd l q)
           in if u = Fin 0 then Inl LinAlgError
              else let x2 = np_divide rnd (np_sub rnd f (np_mul rnd l e)) u;
                       x1 = np_divide rnd (np_sub rnd e (np_mul rnd q x2)) p
                   in Inr [x1, x2])"

definition gesv :: "rounding \<Rightarrow> npfloat list list \<Rightarrow> npfloat list \<Rightarrow> error + npfloat list" where
  "gesv rnd A b =
     (let a00 = A ! 0 ! 0; a01 = A ! 0 ! 1; a10 = A ! 1 ! 0; a11 = A ! 1 ! 1
      in if np_abs_less a00 a10 then lu_solve rnd a10 a11 a00 a01 (b ! 1) (b ! 0)
         else lu_solve rnd a00 a01 a10 a11 (b ! 0) (b ! 1))"

text \<open>
  The call \<^verbatim>\<open>np.linalg.solve(mat1, mat2.T)\<close> has \<^verbatim>\<open>mat1\<close> of shape \<open>(1, 2, 2)\<close> and
  \<^verbatim>\<open>mat2.T\<close> of shape \<open>(m, 2)\<close>: one matrix broadcast over \<open>m\<close> right-hand-side vectors.
\<close>

fun solve ::
  "rounding \<Rightarrow> npfloat list list \<Rightarrow> npfloat list list \<Rightarrow> error + npfloat list list" where
  "solve rnd A [] = Inr []"
| "solve rnd A (b # bs) =
     (case gesv rnd A b of
        Inl e \<Rightarrow> Inl e
      | Inr x \<Rightarrow> (case solve rnd A bs of Inl e \<Rightarrow> Inl e | Inr xs \<Rightarrow> Inr (x # xs)))"

subsection \<open>The stages of \<^verbatim>\<open>fit\<close>\<close>

text \<open>The literal \<^verbatim>\<open>1.0e-20\<close> is the float nearest to \<open>10\<^sup>-\<^sup>2\<^sup>0\<close>.\<close>

definition TINY :: "rounding \<Rightarrow> npfloat" where
  "TINY rnd = rnd (1 / 10 ^ 20)"

text \<open>The rows of \<^verbatim>\<open>ydata\<close> as floats.\<close>

definition fdata :: "ndarray \<Rightarrow> npfloat list list" where
  "fdata ydata = map (map Fin) (data ydata)"

text \<open>Lines 33 to 41: the design matrix, the normal equations and their solution.\<close>

definition mat1 :: "rounding \<Rightarrow> real list \<Rightarrow> npfloat list list" where
  "mat1 rnd xdata =
     (let xdata_plus_const = add_constant (map Fin xdata)
      in matmul rnd (transpose_m 2 xdata_plus_const) 2 xdata_plus_const)"

definition mat2 :: "rounding \<Rightarrow> real list \<Rightarrow> ndarray \<Rightarrow> npfloat list list" where
  "mat2 rnd xdata ydata =
     (let xdata_plus_const = add_constant (map Fin xdata)
      in matmul rnd (transpose_m 2 xdata_plus_const) (shape1 ydata) (fdata ydata))"

definition fit_output :: "rounding \<Rightarrow> real list \<Rightarrow> ndarray \<Rightarrow> error + npfloat list list" where
  "fit_output rnd xdata ydata =
     (if shape0 ydata \<noteq> length xdata then Inl ValueError
      else case solve rnd (mat1 rnd xdata)
                  (transpose_m (shape1 ydata) (mat2 rnd xdata ydata)) of
             Inl e \<Rightarrow> Inl e
           | Inr beta \<Rightarrow> Inr (transpose_m 2 beta))"

text \<open>Line 44: the centred data.\<close>

definition xm :: "rounding \<Rightarrow> real list \<Rightarrow> npfloat list" where
  "xm rnd xdata =
     (let fx = map Fin xdata in map (\<lambda>v. np_sub rnd v (mean rnd fx)) fx)"

definition ym :: "rounding \<Rightarrow> ndarray \<Rightarrow> npfloat list list" where
  "ym rnd ydata =
     (let means = map (mean rnd) (transpose_m (shape1 ydata) (fdata ydata))
      in map (\<lambda>r. map2 (np_sub rnd) r means) (fdata ydata))"

text \<open>Lines 45 to 47: Pearson's correlation coefficient of every column.\<close>

definition r_num :: "rounding \<Rightarrow> real list \<Rightarrow> ndarray \<Rightarrow> npfloat list" where
  "r_num rnd xdata ydata =
     map (dot rnd (xm rnd xdata)) (transpose_m (shape1 ydata) (ym rnd ydata))"

definition r_den :: "rounding \<Rightarrow> real list \<Rightarrow> ndarray \<Rightarrow> npfloat list" where
  "r_den rnd xdata ydata =
     map (\<lambda>c. np_sqrt rnd (np_mul rnd (ss rnd (xm rnd xdata)) (ss rnd c)))
       (transpose_m (shape1 ydata) (ym rnd ydata))"

definition pearson_r :: "rounding \<Rightarrow> real list \<Rightarrow> ndarray \<Rightarrow> npfloat list" where
  "pearson_r rnd xdata ydata =
     map2 (np_divide rnd) (r_num rnd xdata ydata) (r_den rnd xdata ydata)"

text \<open>
  Lines 51 to 54: the t statistic and the two-sided p-value. The small number of the
  source is an argument of \<open>tval\<close>; \<open>fit\<close> passes \<open>TINY\<close>.
\<close>

definition tval :: "rounding \<Rightarrow> npfloat \<Rightarrow> int \<Rightarrow> npfloat \<Rightarrow> npfloat" where
  "tval rnd tiny df r =
     np_mul rnd r (np_sqrt rnd (np_divide rnd (Fin (of_int df))
       (np_mul rnd (np_add rnd (np_sub rnd (Fin 1) r) tiny)
                   (np_add rnd (np_add rnd (Fin 1) r) tiny))))"

text \<open>
  \<^verbatim>\<open>stats.distributions.t.sf\<close> belongs to scipy. The survival function on finite
  arguments and valid degrees of freedom is the parameter \<open>sf\<close>; scipy answers NaN for
  a NaN argument and for degrees of freedom that are not positive.
\<close>

definition t_sf :: "(real \<Rightarrow> int \<Rightarrow> real) \<Rightarrow> npfloat \<Rightarrow> int \<Rightarrow> npfloat" where
  "t_sf sf v df =
     (if df \<le> 0 then NaN
      else case v of Fin t \<Rightarrow> Fin (sf t df) | PInf \<Rightarrow> Fin 0 | NInf \<Rightarrow> Fin 1 | NaN \<Rightarrow> NaN)"

definition pval :: "rounding \<Rightarrow> (real \<Rightarrow> int \<Rightarrow> real) \<Rightarrow> int \<Rightarrow> npfloat \<Rightarrow> npfloat" where
  "pval rnd sf df t = np_mul rnd (t_sf sf (np_abs t) df) (Fin 2)"

text \<open>Lines 57 to 60: the standard error of the slope.\<close>

definition sst :: "rounding \<Rightarrow> ndarray \<Rightarrow> npfloat list" where
  "sst rnd ydata = map (ss rnd) (transpose_m (shape1 ydata) (ym rnd ydata))"

definition ssr :: "rounding \<Rightarrow> real list \<Rightarrow> npfloat list list \<Rightarrow> npfloat list" where
  "ssr rnd xdata output =
     map (\<lambda>b. np_mul rnd (np_mul rnd b b) (ss rnd (xm rnd xdata))) (output ! 0)"

definition se :: "rounding \<Rightarrow> npfloat \<Rightarrow> npfloat list \<Rightarrow> npfloat list \<Rightarrow> npfloat list" where
  "se rnd inv_df st sr = map2 (\<lambda>a b. np_sqrt rnd (np_mul rnd inv_df (np_sub rnd a b))) st sr"

definition stderr :: "rounding \<Rightarrow> real list \<Rightarrow> npfloat list \<Rightarrow> npfloat list" where
  "stderr rnd xdata s =
     map (\<lambda>v. np_divide rnd v (np_sqrt rnd (ss rnd (xm rnd xdata)))) s"

subsection \<open>\<^verbatim>\<open>fit\<close>\<close>

text \<open>
  The function in the order of the source. The two calls that can raise are the solve
  of line 40 and the Python division \<^verbatim>\<open>1. / df\<close> of line 59; \<^verbatim>\<open>np.dot\<close> of line 39 raises
  when \<^verbatim>\<open>ydata\<close> has not as many rows as \<^verbatim>\<open>xdata\<close> has entries. The values that the source
  calls \<^verbatim>\<open>pearson_r\<close>, \<^verbatim>\<open>tval\<close>, \<^verbatim>\<open>pval\<close> and \<^verbatim>\<open>se\<close> are \<open>r\<close>, \<open>t\<close>, \<open>p\<close> and \<open>s\<close> here. Counts
  are below \<open>2\<^sup>5\<^sup>3\<close> and convert to floats exactly.
\<close>

definition fit ::
  "rounding \<Rightarrow> (real \<Rightarrow> int \<Rightarrow> real) \<Rightarrow> real list \<Rightarrow> ndarray \<Rightarrow> error + npfloat list list"
where
  "fit rnd sf xdata ydata =
     (let ntim = length xdata
      in case fit_output rnd xdata ydata of
           Inl e \<Rightarrow> Inl e
         | Inr output \<Rightarrow>
             (let r = pearson_r rnd xdata ydata;
                  df = int ntim - 2;
                  t = map (tval rnd (TINY rnd) df) r;
                  p = map (pval rnd sf df) t
              in (case py_div rnd 1 (of_int df) of
                    Inl e \<Rightarrow> Inl e
                  | Inr inv_df \<Rightarrow>
                      (let s = se rnd inv_df (sst rnd ydata) (ssr rnd xdata output)
                       in Inr (output @ [r, p, stderr rnd xdata s])))))"

subsection \<open>One column at a time\<close>

text \<open>
  The array operations of \<^verbatim>\<open>fit\<close> work on every column of \<^verbatim>\<open>ydata\<close> at once. The
  functions of this section perform the same floating-point operations in the same order
  for a single column \<open>c\<close>; the first theorems below show that \<open>fit\<close> computes exactly
  these values. Whether the factorisation meets a zero pivot depends on the matrix of
  the normal equations only.
\<close>

definition columns_of :: "ndarray \<Rightarrow> real list list" where
  "columns_of Y = transpose_m (shape1 Y) (data Y)"

definition lu_singular :: "rounding \<Rightarrow> npfloat \<Rightarrow> npfloat \<Rightarrow> npfloat \<Rightarrow> npfloat \<Rightarrow> bool" where
  "lu_singular rnd p q r s =
     (p = Fin 0 \<or> np_sub rnd s (np_mul rnd (np_divide rnd r p) q) = Fin 0)"

definition zero_pivot :: "rounding \<Rightarrow> npfloat list list \<Rightarrow> bool" where
  "zero_pivot rnd A =
     (let a00 = A ! 0 ! 0; a01 = A ! 0 ! 1; a10 = A ! 1 ! 0; a11 = A ! 1 ! 1
      in if np_abs_less a00 a10 then lu_singular rnd a10 a11 a00 a01
         else lu_singular rnd a00 a01 a10 a11)"

definition lu_x2 ::
  "rounding \<Rightarrow> npfloat \<Rightarrow> npfloat \<Rightarrow> npfloat \<Rightarrow> npfloat \<Rightarrow> npfloat \<Rightarrow> npfloat \<Rightarrow> npfloat" where
  "lu_x2 rnd p q r s e f =
     (let l = np_divide rnd r p
      in np_divide rnd (np_sub rnd f (np_mul rnd l e)) (np_sub rnd s (np_mul rnd l q)))"

definition lu_x1 ::
  "rounding \<Rightarrow> npfloat \<Rightarrow> npfloat \<Rightarrow> npfloat \<Rightarrow> npfloat \<Rightarrow> npfloat \<Rightarrow> npfloat \<Rightarrow> npfloat" where
  "lu_x1 rnd p q r s e f =
     np_divide rnd (np_sub rnd e (np_mul rnd q (lu_x2 rnd p q r s e f))) p"

definition gesv_x1 :: "rounding \<Rightarrow> npfloat list list \<Rightarrow> npfloat list \<Rightarrow> npfloat" where
  "gesv_x1 rnd A b =
     (let a00 = A ! 0 ! 0; a01 = A ! 0 ! 1; a10 = A ! 1 ! 0; a11 = A ! 1 ! 1
      in if np_abs_less a00 a10 then lu_x1 rnd a10 a11 a00 a01 (b ! 1) (b ! 0)
         else lu_x1 rnd a00 a01 a10 a11 (b ! 0) (b ! 1))"

definition gesv_x2 :: "rounding \<Rightarrow> npfloat list list \<Rightarrow> npfloat list \<Rightarrow> npfloat" where
  "gesv_x2 rnd A b =
     (let a00 = A ! 0 ! 0; a01 = A ! 0 ! 1; a10 = A ! 1 ! 0; a11 = A ! 1 ! 1
      in if np_abs_less a00 a10 then lu_x2 rnd a10 a11 a00 a01 (b ! 1) (b ! 0)
         else lu_x2 rnd a00 a01 a10 a11 (b ! 0) (b ! 1))"

text \<open>The right-hand side of the normal equations for the column \<open>c\<close>.\<close>

definition rhs :: "rounding \<Rightarrow> real list \<Rightarrow> real list \<Rightarrow> npfloat list" where
  "rhs rnd x c =
     [dot rnd (map Fin x) (map Fin c), dot rnd (map (\<lambda>_. Fin 1) x) (map Fin c)]"

definition fit_slope :: "rounding \<Rightarrow> real list \<Rightarrow> real list \<Rightarrow> npfloat" where
  "fit_slope rnd x c = gesv_x1 rnd (mat1 rnd x) (rhs rnd x c)"

definition fit_intercept :: "rounding \<Rightarrow> real list \<Rightarrow> real list \<Rightarrow> npfloat" where
  "fit_intercept rnd x c = gesv_x2 rnd (mat1 rnd x) (rhs rnd x c)"

definition fit_r :: "rounding \<Rightarrow> real list \<Rightarrow> real list \<Rightarrow> npfloat" where
  "fit_r rnd x c =
     np_divide rnd (dot rnd (xm rnd x) (xm rnd c))
       (np_sqrt rnd (np_mul rnd (ss rnd (xm rnd x)) (ss rnd (xm rnd c))))"

definition fit_t :: "rounding \<Rightarrow> real list \<Rightarrow> real list \<Rightarrow> npfloat" where
  "fit_t rnd x c = tval rnd (TINY rnd) (int (length x) - 2) (fit_r rnd x c)"

definition fit_p ::
  "rounding \<Rightarrow> (real \<Rightarrow> int \<Rightarrow> real) \<Rightarrow> real list \<Rightarrow> real list \<Rightarrow> npfloat" where
  "fit_p rnd sf x c = pval rnd sf (int (length x) - 2) (fit_t rnd x c)"

definition fit_se :: "rounding \<Rightarrow> real list \<Rightarrow> real list \<Rightarrow> npfloat" where
  "fit_se rnd x c =
     np_sqrt rnd (np_mul rnd (rnd (1 / (real (length x) - 2)))
       (np_sub rnd (ss rnd (xm rnd c))
          (np_mul rnd (np_mul rnd (fit_slope rnd x c) (fit_slope rnd x c)) (ss rnd (xm rnd x)))))"

definition fit_stderr :: "rounding \<Rightarrow> real list \<Rightarrow> real list \<Rightarrow> npfloat" where
  "fit_stderr rnd x c = np_divide rnd (fit_se rnd x c) (np_sqrt rnd (ss rnd (xm rnd x)))"

subsection \<open>Per-column statistics, as the specification words them\<close>

text \<open>
  The specification describes the result column by column (section 4.1, steps 3 to 7):
  the centred vectors, the closed forms of simple least squares, Pearson's r, the p-value
  and the standard error. These definitions follow its words for one column \<open>y\<close>, as
  formulas over the real numbers; the theorems below compare them with what the array
  code computes.
\<close>

definition inner :: "real list \<Rightarrow> real list \<Rightarrow> real" where
  "inner u v = sum_list (map2 (*) u v)"

definition average :: "real list \<Rightarrow> real" where
  "average v = sum_list v / real (length v)"

definition sumsq :: "real list \<Rightarrow> real" where
  "sumsq v = sum_list (map (\<lambda>a. a * a) v)"

definition centre :: "real list \<Rightarrow> real list" where
  "centre v = map (\<lambda>a. a - average v) v"

definition variance :: "real list \<Rightarrow> real" where
  "variance v = sumsq (centre v) / real (length v)"

definition ols_slope :: "real list \<Rightarrow> real list \<Rightarrow> real" where
  "ols_slope x y = inner (centre x) (centre y) / sumsq (centre x)"

definition ols_intercept :: "real list \<Rightarrow> real list \<Rightarrow> real" where
  "ols_intercept x y = average y - ols_slope x y * average x"

text \<open>The epsilon \<^verbatim>\<open>1e-20\<close> as a real number.\<close>

definition EPS :: real where
  "EPS = 1 / 10 ^ 20"

definition col_pearson :: "real list \<Rightarrow> real list \<Rightarrow> npfloat" where
  "col_pearson x y =
     np_divide exact (Fin (inner (centre x) (centre y)))
       (np_sqrt exact (Fin (sumsq (centre x) * sumsq (centre y))))"

definition col_tval :: "real list \<Rightarrow> real list \<Rightarrow> npfloat" where
  "col_tval x y = tval exact (Fin EPS) (int (length x) - 2) (col_pearson x y)"

definition col_pval :: "(real \<Rightarrow> int \<Rightarrow> real) \<Rightarrow> real list \<Rightarrow> real list \<Rightarrow> npfloat" where
  "col_pval sf x y = pval exact sf (int (length x) - 2) (col_tval x y)"

definition col_stderr :: "real list \<Rightarrow> real list \<Rightarrow> npfloat" where
  "col_stderr x y =
     np_divide exact
       (np_sqrt exact
          (Fin ((sumsq (centre y) - (ols_slope x y) ^ 2 * sumsq (centre x)) / (real (length x) - 2))))
       (np_sqrt exact (Fin (sumsq (centre x))))"

text \<open>Pearson's r of one column as a real number, where both variances are positive.\<close>

definition pearson :: "real list \<Rightarrow> real list \<Rightarrow> real" where
  "pearson x y = inner (centre x) (centre y) / sqrt (sumsq (centre x) * sumsq (centre y))"

text \<open>The determinant of the matrix of the normal equations.\<close>

definition det_x :: "real list \<Rightarrow> real" where
  "det_x x = inner x x * real (length x) - sum_list x * sum_list x"

subsection \<open>Student's t distribution at integer degrees of freedom\<close>

text \<open>
  For a whole number \<open>n\<close> of degrees of freedom the distribution function of Student's t
  is elementary. With \<open>\<theta> = arctan (t / sqrt n)\<close> the probability of \<open>[-t, t]\<close> is
  \<open>student_A \<theta> n\<close>: \<open>2\<theta>/\<pi>\<close> for \<open>n = 1\<close>, \<open>sin \<theta>\<close> for \<open>n = 2\<close>, and each further
  pair of degrees adds one term \<open>c sin \<theta> cos\<^sup>n \<theta>\<close>. It instantiates the parameter
  \<open>sf\<close> of \<open>fit\<close> at concrete inputs.
\<close>

fun student_coef :: "nat \<Rightarrow> real" where
  "student_coef 0 = 1"
| "student_coef (Suc 0) = 2 / pi"
| "student_coef (Suc (Suc n)) = student_coef n * real (n + 1) / real (n + 2)"

fun student_A :: "real \<Rightarrow> nat \<Rightarrow> real" where
  "student_A \<theta> 0 = 0"
| "student_A \<theta> (Suc 0) = 2 * \<theta> / pi"
| "student_A \<theta> (Suc (Suc n)) = student_A \<theta> n + student_coef n * sin \<theta> * cos \<theta> ^ n"

definition student_t_sf :: "real \<Rightarrow> int \<Rightarrow> real" where
  "student_t_sf t df = (1 - student_A (arctan (t / sqrt (of_int df))) (nat df)) / 2"

section \<open>Properties\<close>

subsection \<open>The array code, column by column\<close>

lemma upt_2: "[0..<2] = [0, Suc 0]"
  by (simp add: upt_rec)

lemma length_column [simp]: "length (column j A) = length A"
  by (simp add: column_def)

lemma transpose_add_constant:
  "transpose_m 2 (add_constant x) = [x, map (\<lambda>_. Fin 1) x]"
  by (simp add: upt_2 transpose_m_def column_def add_constant_def comp_def)

lemma transpose_pairs:
  "transpose_m 2 (map (\<lambda>c. [h0 c, h1 c]) cs) = [map h0 cs, map h1 cs]"
  by (simp add: upt_2 transpose_m_def column_def comp_def)

lemma gesv_split:
  "gesv rnd A b =
     (if zero_pivot rnd A then Inl LinAlgError else Inr [gesv_x1 rnd A b, gesv_x2 rnd A b])"
  by (simp add: gesv_def zero_pivot_def gesv_x1_def gesv_x2_def lu_solve_def lu_singular_def
      lu_x1_def lu_x2_def Let_def)

lemma solve_map_ok:
  "(\<And>j. j \<in> set js \<Longrightarrow> gesv rnd A (g j) = Inr (h j)) \<Longrightarrow>
   solve rnd A (map g js) = Inr (map h js)"
  by (induction js) simp_all

lemma solve_map_fail:
  "js \<noteq> [] \<Longrightarrow> (\<And>j. j \<in> set js \<Longrightarrow> gesv rnd A (g j) = Inl e) \<Longrightarrow>
   solve rnd A (map g js) = Inl e"
  by (cases js) simp_all

lemma map2_map_same: "map2 f (map g xs) (map h xs) = map (\<lambda>x. f (g x) (h x)) xs"
  by (induction xs) simp_all

lemma length_columns_of: "c \<in> set (columns_of Y) \<Longrightarrow> length c = shape0 Y"
  by (auto simp: columns_of_def transpose_m_def shape0_def)

lemma length_columns_of_list [simp]: "length (columns_of Y) = shape1 Y"
  by (simp add: columns_of_def transpose_m_def)

lemma nth_columns_of: "j < shape1 Y \<Longrightarrow> columns_of Y ! j = column j (data Y)"
  by (simp add: columns_of_def transpose_m_def)

lemma column_fdata:
  assumes "wf_ndarray Y" "j < shape1 Y"
  shows "column j (fdata Y) = map Fin (column j (data Y))"
proof -
  have "\<And>r. r \<in> set (data Y) \<Longrightarrow> j < length r"
    using assms by (simp add: wf_ndarray_def list_all_iff)
  then show ?thesis by (simp add: column_def fdata_def)
qed

lemma transpose_fdata:
  assumes "wf_ndarray Y"
  shows "transpose_m (shape1 Y) (fdata Y) = map (map Fin) (columns_of Y)"
  using column_fdata[OF assms] by (simp add: transpose_m_def columns_of_def)

lemma transpose_mat2:
  assumes "wf_ndarray Y"
  shows "transpose_m (shape1 Y) (mat2 rnd x Y) = map (rhs rnd x) (columns_of Y)"
proof -
  have m2: "mat2 rnd x Y =
      [map (\<lambda>j. dot rnd (map Fin x) (column j (fdata Y))) [0..<shape1 Y],
       map (\<lambda>j. dot rnd (map (\<lambda>_. Fin 1) x) (column j (fdata Y))) [0..<shape1 Y]]"
    by (simp add: mat2_def Let_def transpose_add_constant matmul_def comp_def)
  show ?thesis
    unfolding m2 using column_fdata[OF assms]
    by (simp add: transpose_m_def column_def[of _ "[_, _]"] comp_def columns_of_def rhs_def)
qed

lemma fit_output_cols:
  assumes "wf_ndarray Y" "shape0 Y = length x"
  shows "fit_output rnd x Y =
     (if shape1 Y \<noteq> 0 \<and> zero_pivot rnd (mat1 rnd x) then Inl LinAlgError
      else Inr [map (fit_slope rnd x) (columns_of Y), map (fit_intercept rnd x) (columns_of Y)])"
proof (cases "shape1 Y \<noteq> 0 \<and> zero_pivot rnd (mat1 rnd x)")
  case True
  then have ne: "columns_of Y \<noteq> []" by (simp add: columns_of_def transpose_m_def)
  have "solve rnd (mat1 rnd x) (map (rhs rnd x) (columns_of Y)) = Inl LinAlgError"
    using ne True by (intro solve_map_fail) (simp_all add: gesv_split)
  then show ?thesis using True assms(2)
    by (simp add: fit_output_def transpose_mat2[OF assms(1)])
next
  case False
  show ?thesis
  proof (cases "shape1 Y = 0")
    case True
    then have "columns_of Y = []" by (simp add: columns_of_def transpose_m_def)
    then show ?thesis using True assms(2) transpose_pairs[of undefined undefined "[]"]
      by (simp add: fit_output_def transpose_m_def[of 0])
  next
    case nz: False
    with False have np: "\<not> zero_pivot rnd (mat1 rnd x)" by simp
    have "solve rnd (mat1 rnd x) (map (rhs rnd x) (columns_of Y)) =
          Inr (map (\<lambda>c. [fit_slope rnd x c, fit_intercept rnd x c]) (columns_of Y))"
      using np by (intro solve_map_ok) (simp add: gesv_split fit_slope_def fit_intercept_def)
    then show ?thesis using False assms(2)
      by (simp add: fit_output_def transpose_mat2[OF assms(1)] transpose_pairs)
  qed
qed

lemma transpose_ym:
  assumes "wf_ndarray Y"
  shows "transpose_m (shape1 Y) (ym rnd Y) = map (xm rnd) (columns_of Y)"
proof -
  let ?m = "shape1 Y" and ?D = "fdata Y"
  let ?means = "map (mean rnd) (transpose_m ?m ?D)"
  have len: "\<And>r. r \<in> set ?D \<Longrightarrow> length r = ?m"
    using assms by (auto simp: wf_ndarray_def list_all_iff fdata_def)
  have "column j (ym rnd Y) = xm rnd (column j (data Y))" if "j < ?m" for j
  proof -
    have "(map2 (np_sub rnd) r ?means) ! j = np_sub rnd (r ! j) (mean rnd (column j ?D))"
      if "r \<in> set ?D" for r
      using len[OF that] \<open>j < ?m\<close> by (simp add: transpose_m_def)
    then have "column j (ym rnd Y) = map (\<lambda>r. np_sub rnd (r ! j) (mean rnd (column j ?D))) ?D"
      by (simp add: column_def ym_def Let_def)
    also have "\<dots> = map (\<lambda>v. np_sub rnd v (mean rnd (column j ?D))) (column j ?D)"
      by (simp add: column_def comp_def)
    finally show ?thesis
      by (simp add: xm_def Let_def column_fdata[OF assms that])
  qed
  then show ?thesis
    by (simp add: transpose_m_def columns_of_def)
qed

lemma pearson_r_cols:
  "wf_ndarray Y \<Longrightarrow> pearson_r rnd x Y = map (fit_r rnd x) (columns_of Y)"
  by (simp add: pearson_r_def r_num_def r_den_def transpose_ym map2_map_same fit_r_def comp_def)

lemma sst_cols: "wf_ndarray Y \<Longrightarrow> sst rnd Y = map (\<lambda>c. ss rnd (xm rnd c)) (columns_of Y)"
  by (simp add: sst_def transpose_ym comp_def)

lemma stderr_cols:
  assumes "wf_ndarray Y"
  shows "stderr rnd x (se rnd (rnd (1 / (real (length x) - 2))) (sst rnd Y)
            (ssr rnd x [map (fit_slope rnd x) (columns_of Y), map (fit_intercept rnd x) (columns_of Y)]))
         = map (fit_stderr rnd x) (columns_of Y)"
  by (simp add: stderr_def se_def ssr_def sst_cols[OF assms] map2_map_same
      fit_stderr_def fit_se_def comp_def)

lemma py_div_zero: "py_div rnd a 0 = Inl ZeroDivisionError"
  by (simp add: py_div_def)

lemma py_div_df:
  "py_div rnd 1 (real n - 2) =
     (if n = 2 then Inl ZeroDivisionError else Inr (rnd (1 / (real n - 2))))"
  by (auto simp: py_div_def)

lemma fit_columns:
  assumes "wf_ndarray Y" "shape0 Y = length x"
  shows "fit rnd sf x Y =
     (if shape1 Y \<noteq> 0 \<and> zero_pivot rnd (mat1 rnd x) then Inl LinAlgError
      else if length x = 2 then Inl ZeroDivisionError
      else Inr [map (fit_slope rnd x) (columns_of Y),
                map (fit_intercept rnd x) (columns_of Y),
                map (fit_r rnd x) (columns_of Y),
                map (fit_p rnd sf x) (columns_of Y),
                map (fit_stderr rnd x) (columns_of Y)])"
  using stderr_cols[OF assms(1), of rnd x]
  by (simp add: fit_def Let_def fit_output_cols[OF assms] py_div_df py_div_zero
      pearson_r_cols[OF assms(1)] fit_p_def fit_t_def comp_def)

lemma fit_value_error: "shape0 Y \<noteq> length x \<Longrightarrow> fit rnd sf x Y = Inl ValueError"
  by (simp add: fit_def fit_output_def)

subsection \<open>Selecting columns\<close>

lemma perm_indices:
  assumes "mset p = mset [0..<m]"
  shows "length p = m" "set p = {..<m}"
proof -
  have "length p = length [0..<m]" by (rule mset_eq_length[OF assms])
  then show "length p = m" by simp
  have "set p = set [0..<m]" by (rule mset_eq_setD[OF assms])
  then show "set p = {..<m}" by (simp add: lessThan_atLeast0)
qed

lemma columns_of_take_columns:
  assumes "wf_ndarray Y" "set p \<subseteq> {..<shape1 Y}"
  shows "columns_of \<lparr>shape1 = length p, data = take_columns p (data Y)\<rparr>
         = map (\<lambda>j. column j (data Y)) p"
proof -
  have "column i (take_columns p (data Y)) = column (p ! i) (data Y)" if "i < length p" for i
    using that by (simp add: column_def take_columns_def take_idx_def)
  then have "map (\<lambda>i. column i (take_columns p (data Y))) [0..<length p]
        = map (\<lambda>i. column (p ! i) (data Y)) [0..<length p]"
    by simp
  also have "\<dots> = map (\<lambda>j. column j (data Y)) (map (\<lambda>i. p ! i) [0..<length p])"
    by (simp add: comp_def)
  also have "map (\<lambda>i. p ! i) [0..<length p] = p" by (rule map_nth)
  finally show ?thesis by (simp add: columns_of_def transpose_m_def)
qed

lemma take_idx_map_columns:
  assumes "set p \<subseteq> {..<shape1 Y}"
  shows "take_idx p (map f (columns_of Y)) = map (\<lambda>j. f (column j (data Y))) p"
  using assms by (auto simp: take_idx_def nth_columns_of)

lemma wf_take_columns:
  "wf_ndarray \<lparr>shape1 = length p, data = take_columns p (data Y)\<rparr>"
  by (simp add: wf_ndarray_def list_all_iff take_columns_def take_idx_def)

lemma fit_take_columns:
  assumes "wf_ndarray Y" "shape0 Y = length x" "set p \<subseteq> {..<shape1 Y}"
    and "p = [] \<longleftrightarrow> shape1 Y = 0"
  shows "fit rnd sf x \<lparr>shape1 = length p, data = take_columns p (data Y)\<rparr>
         = map_sum id (take_columns p) (fit rnd sf x Y)"
proof -
  let ?Y' = "\<lparr>shape1 = length p, data = take_columns p (data Y)\<rparr>"
  have sh: "shape0 ?Y' = length x"
    using assms(2) by (simp add: shape0_def take_columns_def)
  have m: "shape1 ?Y' \<noteq> 0 \<longleftrightarrow> shape1 Y \<noteq> 0" using assms(4) by simp
  note c = columns_of_take_columns[OF assms(1,3)]
  note t = take_idx_map_columns[OF assms(3)]
  have l: "fit rnd sf x ?Y' =
     (if shape1 Y \<noteq> 0 \<and> zero_pivot rnd (mat1 rnd x) then Inl LinAlgError
      else if length x = 2 then Inl ZeroDivisionError
      else Inr [map (\<lambda>j. fit_slope rnd x (column j (data Y))) p,
                map (\<lambda>j. fit_intercept rnd x (column j (data Y))) p,
                map (\<lambda>j. fit_r rnd x (column j (data Y))) p,
                map (\<lambda>j. fit_p rnd sf x (column j (data Y))) p,
                map (\<lambda>j. fit_stderr rnd x (column j (data Y))) p])"
    unfolding fit_columns[OF wf_take_columns sh] c using m by (simp add: comp_def)
  have r: "take_columns p [map (fit_slope rnd x) (columns_of Y),
                map (fit_intercept rnd x) (columns_of Y),
                map (fit_r rnd x) (columns_of Y),
                map (fit_p rnd sf x) (columns_of Y),
                map (fit_stderr rnd x) (columns_of Y)]
       = [map (\<lambda>j. fit_slope rnd x (column j (data Y))) p,
                map (\<lambda>j. fit_intercept rnd x (column j (data Y))) p,
                map (\<lambda>j. fit_r rnd x (column j (data Y))) p,
                map (\<lambda>j. fit_p rnd sf x (column j (data Y))) p,
                map (\<lambda>j. fit_stderr rnd x (column j (data Y))) p]"
    by (simp only: take_columns_def list.map t)
  show ?thesis
    unfolding l fit_columns[OF assms(1,2)]
    by (simp only: r map_sum.simps id_apply if_distrib[of "map_sum id (take_columns p)"])
qed

subsection \<open>Rounding to binary64\<close>

lemma pow2_pos: "0 < pow2 k"
  by (simp add: pow2_def)

lemma pow2_powr: "pow2 k = 2 powr (of_int k)"
  by (simp add: pow2_def powr_real_of_int field_simps)

lemma floor_log2:
  assumes "pow2 n \<le> \<bar>x\<bar>" "\<bar>x\<bar> < pow2 (n + 1)"
  shows "\<lfloor>log 2 \<bar>x\<bar>\<rfloor> = n"
proof (rule floor_unique)
  have pos: "0 < \<bar>x\<bar>" using assms(1) pow2_pos[of n] by linarith
  show "of_int n \<le> log 2 \<bar>x\<bar>"
    using assms(1) pos by (simp add: le_log_iff pow2_powr)
  show "log 2 \<bar>x\<bar> < of_int n + 1"
    using assms(2) pos by (simp add: log_less_iff pow2_powr)
qed

lemma rhe_near:
  assumes "\<bar>q - of_int m\<bar> < 1 / 2"
  shows "rhe q = m"
proof (cases "of_int m \<le> q")
  case True
  then have "\<lfloor>q\<rfloor> = m" using assms by (intro floor_unique) (simp_all add: abs_less_iff)
  then show ?thesis using assms True by (simp add: rhe_def Let_def abs_less_iff)
next
  case False
  then have "\<lfloor>q\<rfloor> = m - 1" using assms by (intro floor_unique) (simp_all add: abs_less_iff)
  then show ?thesis using assms False by (simp add: rhe_def Let_def abs_less_iff)
qed

lemma rhe_tie:
  assumes "q = of_int f + 1 / 2"
  shows "rhe q = (if even f then f else f + 1)"
proof -
  have "\<lfloor>q\<rfloor> = f" unfolding assms by (intro floor_unique) simp_all
  then show ?thesis by (simp add: rhe_def Let_def assms)
qed

lemma round64_eq:
  assumes "pow2 (k + 52) \<le> \<bar>x\<bar>" "\<bar>x\<bar> < pow2 (k + 53)" "- 1074 \<le> k"
    and "\<bar>x - of_int m * pow2 k\<bar> < pow2 k / 2"
  shows "round64 x = of_int m * pow2 k"
proof -
  have nz: "x \<noteq> 0" using assms(1) pow2_pos[of "k + 52"] by auto
  have "\<lfloor>log 2 \<bar>x\<bar>\<rfloor> = k + 52"
    using assms(1,2) by (intro floor_log2) (simp_all add: add.commute add.left_commute)
  then have e: "ulp_exp x = k" using assms(3) by (simp add: ulp_exp_def)
  have "\<bar>x / pow2 k - of_int m\<bar> = \<bar>x - of_int m * pow2 k\<bar> / pow2 k"
    using pow2_pos[of k] by (simp add: field_simps abs_mult abs_divide flip: abs_mult)
  also have "\<dots> < 1 / 2" using assms(4) pow2_pos[of k] by (simp add: field_simps)
  finally have "rhe (x / pow2 k) = m" by (rule rhe_near)
  then show ?thesis using nz e by (simp add: round64_def)
qed

lemma binary64_eq:
  assumes "pow2 (k + 52) \<le> \<bar>x\<bar>" "\<bar>x\<bar> < pow2 (k + 53)" "- 1074 \<le> k"
    and "\<bar>x - c\<bar> < pow2 k / 2" "c = of_int m * pow2 k" "\<bar>c\<bar> < 2 ^ 1024"
  shows "binary64 x = Fin c"
proof -
  have "round64 x = c" using round64_eq[OF assms(1-3), of m] assms(4,5) by simp
  then show ?thesis using assms(6) by (simp add: binary64_def)
qed

lemma binary64_tie:
  assumes "pow2 (k + 52) \<le> \<bar>x\<bar>" "\<bar>x\<bar> < pow2 (k + 53)" "- 1074 \<le> k"
    and "x = (of_int f + 1 / 2) * pow2 k" "c = of_int (if even f then f else f + 1) * pow2 k"
    and "\<bar>c\<bar> < 2 ^ 1024"
  shows "binary64 x = Fin c"
proof -
  have nz: "x \<noteq> 0" using assms(1) pow2_pos[of "k + 52"] by auto
  have "\<lfloor>log 2 \<bar>x\<bar>\<rfloor> = k + 52"
    using assms(1,2) by (intro floor_log2) (simp_all add: add.commute add.left_commute)
  then have e: "ulp_exp x = k" using assms(3) by (simp add: ulp_exp_def)
  have "x / pow2 k = of_int f + 1 / 2"
    using pow2_pos[of k] by (simp add: assms(4))
  then have "rhe (x / pow2 k) = (if even f then f else f + 1)" by (rule rhe_tie)
  then have "round64 x = c" using nz e by (simp add: round64_def assms(5))
  then show ?thesis using assms(6) by (simp add: binary64_def)
qed

lemma binary64_zero: "binary64 0 = Fin 0"
  by (simp add: binary64_def round64_def)

lemma binary64_sqrt_eq:
  assumes "(pow2 (k + 52))\<^sup>2 \<le> a" "a < (pow2 (k + 53))\<^sup>2" "- 1074 \<le> k"
    and "pow2 k / 2 \<le> c" "(c - pow2 k / 2)\<^sup>2 < a" "a < (c + pow2 k / 2)\<^sup>2"
    and "c = of_int m * pow2 k" "\<bar>c\<bar> < 2 ^ 1024"
  shows "binary64 (sqrt a) = Fin c"
proof -
  have a0: "0 \<le> a" using assms(1) zero_le_power2[of "pow2 (k + 52)"] by linarith
  have s0: "0 \<le> sqrt a" using a0 by simp
  have 1: "pow2 (k + 52) \<le> sqrt a"
    using assms(1) pow2_pos[of "k + 52"] by (simp add: real_le_rsqrt)
  have 2: "sqrt a < pow2 (k + 53)"
    using assms(2) pow2_pos[of "k + 53"] a0 by (simp add: real_less_lsqrt)
  have 3: "c - pow2 k / 2 < sqrt a"
    using assms(4,5) by (simp add: real_less_rsqrt)
  have 4: "sqrt a < c + pow2 k / 2"
    using assms(4,6) pow2_pos[of k] a0 by (intro real_less_lsqrt) simp_all
  have 5: "\<bar>sqrt a\<bar> = sqrt a" using s0 by simp
  have 6: "\<bar>sqrt a - c\<bar> < pow2 k / 2" using 3 4 by linarith
  have 7: "pow2 (k + 52) \<le> \<bar>sqrt a\<bar>" "\<bar>sqrt a\<bar> < pow2 (k + 53)"
    using 1 2 by (simp_all only: 5)
  show ?thesis
    by (rule binary64_eq[OF 7 assms(3) 6 assms(7,8)])
qed

subsection \<open>Exact arithmetic: the array code and the real sums\<close>

lemma foldl_add_exact:
  "foldl (np_add exact) (Fin a) (map Fin v) = Fin (a + sum_list v)"
  by (induction v arbitrary: a) (simp_all add: exact_def add.assoc)

lemma np_sum_exact: "np_sum exact (map Fin v) = Fin (sum_list v)"
  using foldl_add_exact[of 0 v] by (simp add: np_sum_def)

lemma map2_mul_exact:
  "map2 (np_mul exact) (map Fin u) (map Fin v) = map Fin (map2 (*) u v)"
proof (induction u arbitrary: v)
  case Nil
  then show ?case by simp
next
  case (Cons a u)
  then show ?case by (cases v) (simp_all add: exact_def)
qed

lemma dot_exact: "dot exact (map Fin u) (map Fin v) = Fin (inner u v)"
  unfolding dot_def inner_def map2_mul_exact by (rule np_sum_exact)

lemma ss_exact: "ss exact (map Fin v) = Fin (sumsq v)"
proof -
  have h: "map (\<lambda>a. np_mul exact a a) (map Fin v) = map Fin (map (\<lambda>a. a * a) v)"
    by (induction v) (simp_all add: exact_def)
  show ?thesis unfolding ss_def sumsq_def h by (rule np_sum_exact)
qed

lemma mean_exact: "v \<noteq> [] \<Longrightarrow> mean exact (map Fin v) = Fin (average v)"
  by (simp add: mean_def np_sum_exact average_def exact_def)

lemma xm_exact: "xm exact x = map Fin (centre x)"
proof (cases "x = []")
  case True
  then show ?thesis by (simp add: xm_def centre_def)
next
  case False
  then show ?thesis
    by (simp add: xm_def Let_def mean_exact centre_def np_sub_def exact_def comp_def)
qed

lemma inner_ones_right: "length u = length v \<Longrightarrow> inner u (map (\<lambda>_. 1) v) = sum_list u"
  by (induction u v rule: list_induct2) (simp_all add: inner_def)

lemma inner_ones_left: "length u = length v \<Longrightarrow> inner (map (\<lambda>_. 1) u) v = sum_list v"
  by (induction u v rule: list_induct2) (simp_all add: inner_def)

lemma inner_ones_ones: "inner (map (\<lambda>_. 1) u) (map (\<lambda>_. 1) u) = real (length u)"
  by (induction u) (simp_all add: inner_def)

lemma ones_Fin: "map (\<lambda>_. Fin 1) x = map Fin (map (\<lambda>_. 1) x)"
  by simp

lemma column_add_constant0: "column 0 (add_constant x) = x"
  by (simp add: column_def add_constant_def comp_def)

lemma column_add_constant1: "column (Suc 0) (add_constant x) = map (\<lambda>_. Fin 1) x"
  by (simp add: column_def add_constant_def comp_def)

lemma mat1_exact:
  "mat1 exact x =
     [[Fin (inner x x), Fin (sum_list x)], [Fin (sum_list x), Fin (real (length x))]]"
proof -
  have "mat1 exact x =
      [[dot exact (map Fin x) (map Fin x), dot exact (map Fin x) (map (\<lambda>_. Fin 1) x)],
       [dot exact (map (\<lambda>_. Fin 1) x) (map Fin x),
        dot exact (map (\<lambda>_. Fin 1) x) (map (\<lambda>_. Fin 1) x)]]"
    by (simp add: mat1_def Let_def transpose_add_constant matmul_def upt_2
        column_add_constant0 column_add_constant1 comp_def)
  then show ?thesis
    by (simp only: ones_Fin dot_exact)
       (simp add: inner_ones_right inner_ones_left inner_ones_ones)
qed

lemma rhs_exact:
  "length c = length x \<Longrightarrow> rhs exact x c = [Fin (inner x c), Fin (sum_list c)]"
  by (simp only: rhs_def ones_Fin dot_exact) (simp add: inner_ones_left)

lemma gesv_exact:
  "gesv exact [[Fin a, Fin b], [Fin c, Fin d]] [Fin e, Fin f] =
     (if a * d - b * c = 0 then Inl LinAlgError
      else Inr [Fin ((e * d - b * f) / (a * d - b * c)), Fin ((a * f - c * e) / (a * d - b * c))])"
proof (cases "\<bar>c\<bar> \<le> \<bar>a\<bar>")
  case True
  show ?thesis
  proof (cases "a = 0")
    case True
    with \<open>\<bar>c\<bar> \<le> \<bar>a\<bar>\<close> have "c = 0" by simp
    with True show ?thesis by (simp add: gesv_def lu_solve_def)
  next
    case False
    have u: "d - c / a * b = (a * d - b * c) / a" using False by (simp add: field_simps)
    show ?thesis
    proof (cases "a * d - b * c = 0")
      case True
      with False u \<open>\<bar>c\<bar> \<le> \<bar>a\<bar>\<close> show ?thesis
        by (simp add: gesv_def lu_solve_def Let_def np_sub_def exact_def)
    next
      case nz: False
      have x2: "(f - c / a * e) / (d - c / a * b) = (a * f - c * e) / (a * d - b * c)"
        using False nz by (simp add: field_simps)
      have x1: "(e - b * ((a * f - c * e) / (a * d - b * c))) / a = (e * d - b * f) / (a * d - b * c)"
        using False nz by (simp add: field_simps)
      from nz False u have "d - c / a * b \<noteq> 0" by simp
      with False nz \<open>\<bar>c\<bar> \<le> \<bar>a\<bar>\<close> x2 x1 show ?thesis
        by (simp add: gesv_def lu_solve_def Let_def np_sub_def exact_def)
    qed
  qed
next
  case False
  then have cnz: "c \<noteq> 0" by auto
  have u: "b - a / c * d = - (a * d - b * c) / c" using cnz by (simp add: field_simps)
  show ?thesis
  proof (cases "a * d - b * c = 0")
    case True
    with False cnz u show ?thesis
      by (simp add: gesv_def lu_solve_def Let_def np_sub_def exact_def)
  next
    case nz: False
    have x2: "(e - a / c * f) / (b - a / c * d) = (a * f - c * e) / (a * d - b * c)"
      using cnz nz by (simp add: field_simps)
    have x1: "(f - d * ((a * f - c * e) / (a * d - b * c))) / c = (e * d - b * f) / (a * d - b * c)"
      using cnz nz by (simp add: field_simps)
    from nz cnz u have "b - a / c * d \<noteq> 0" by simp
    with False cnz nz x2 x1 show ?thesis
      by (simp add: gesv_def lu_solve_def Let_def np_sub_def exact_def)
  qed
qed

lemma zero_pivot_exact:
  "zero_pivot exact [[Fin a, Fin b], [Fin c, Fin d]] \<longleftrightarrow> a * d - b * c = 0"
  using gesv_exact[of a b c d 0 0] gesv_split[of exact "[[Fin a, Fin b], [Fin c, Fin d]]" "[Fin 0, Fin 0]"]
  by (auto split: if_splits)

lemma gesv_x_exact:
  assumes "a * d - b * c \<noteq> 0"
  shows "gesv_x1 exact [[Fin a, Fin b], [Fin c, Fin d]] [Fin e, Fin f]
           = Fin ((e * d - b * f) / (a * d - b * c))"
    and "gesv_x2 exact [[Fin a, Fin b], [Fin c, Fin d]] [Fin e, Fin f]
           = Fin ((a * f - c * e) / (a * d - b * c))"
  using gesv_exact[of a b c d e f] gesv_split[of exact "[[Fin a, Fin b], [Fin c, Fin d]]" "[Fin e, Fin f]"]
    assms
  by (auto split: if_splits)

subsection \<open>Sums of centred data\<close>

declare exact_def [simp]

lemma inner_shift:
  "length x = length y \<Longrightarrow>
   inner (map (\<lambda>a. a - p) x) (map (\<lambda>b. b - q) y) =
   inner x y - q * sum_list x - p * sum_list y + real (length x) * p * q"
  by (induction x y rule: list_induct2) (simp_all add: inner_def algebra_simps)

lemma inner_centre:
  assumes "length x = length y" "x \<noteq> []"
  shows "inner (centre x) (centre y) = inner x y - sum_list x * sum_list y / real (length x)"
proof -
  have n: "real (length x) \<noteq> 0" using assms(2) by simp
  show ?thesis
    unfolding centre_def average_def inner_shift[OF assms(1)] assms(1)[symmetric] using n
    by (simp add: field_simps)
qed

lemma sumsq_inner: "sumsq v = inner v v"
  by (induction v) (simp_all add: sumsq_def inner_def)

lemma sumsq_centre:
  "x \<noteq> [] \<Longrightarrow> sumsq (centre x) = inner x x - sum_list x * sum_list x / real (length x)"
  using inner_centre[of x x] by (simp add: sumsq_inner)

lemma det_x_centre: "det_x x = real (length x) * sumsq (centre x)"
proof (cases "x = []")
  case True
  then show ?thesis by (simp add: det_x_def)
next
  case False
  then show ?thesis by (simp add: det_x_def sumsq_centre field_simps)
qed

lemma sumsq_nonneg: "0 \<le> sumsq v"
  by (induction v) (simp_all add: sumsq_def)

lemma det_x_zero_iff: "det_x x = 0 \<longleftrightarrow> variance x = 0"
  by (auto simp: det_x_centre variance_def)

lemma sum_sq_sumsq: "(\<Sum>v\<leftarrow>c. v ^ 2) = sumsq c"
  by (simp add: sumsq_def power2_eq_square)

lemma slope_closed:
  assumes "length c = length x" "det_x x \<noteq> 0"
  shows "(inner x c * real (length x) - sum_list x * sum_list c) / det_x x = ols_slope x c"
proof -
  have ne: "x \<noteq> []" using assms(2) by (auto simp: det_x_def inner_def)
  then have n: "real (length x) \<noteq> 0" by simp
  have num: "inner x c * real (length x) - sum_list x * sum_list c
             = real (length x) * inner (centre x) (centre c)"
    using n by (simp add: inner_centre[OF assms(1)[symmetric] ne] field_simps)
  show ?thesis
    unfolding num det_x_centre ols_slope_def using n by simp
qed

lemma intercept_closed:
  assumes "length c = length x" "det_x x \<noteq> 0"
  shows "(inner x x * sum_list c - sum_list x * inner x c) / det_x x = ols_intercept x c"
proof -
  have ne: "x \<noteq> []" using assms(2) by (auto simp: det_x_def inner_def)
  then have n: "real (length x) \<noteq> 0" by simp
  have "ols_intercept x c =
        sum_list c / real (length x)
        - (inner x c * real (length x) - sum_list x * sum_list c) / det_x x
          * (sum_list x / real (length x))"
    by (simp add: ols_intercept_def slope_closed[OF assms] average_def assms(1))
  also have "\<dots> = (inner x x * sum_list c - sum_list x * inner x c) / det_x x"
    using n assms(2) by (simp add: det_x_def field_simps)
  finally show ?thesis by simp
qed

lemma sumsq_affine:
  "length u = length v \<Longrightarrow>
   sumsq (map2 (\<lambda>a b. a * t + b) u v) = t ^ 2 * sumsq u + 2 * t * inner u v + sumsq v"
  by (induction u v rule: list_induct2) (simp_all add: sumsq_def inner_def power2_eq_square algebra_simps)

lemma sumsq_zero_inner:
  assumes "sumsq u = 0" "length u = length v"
  shows "inner u v = 0"
  using assms(2,1)
proof (induction u v rule: list_induct2)
  case Nil
  then show ?case by (simp add: inner_def)
next
  case (Cons a u b v)
  have "0 \<le> sumsq u" by (rule sumsq_nonneg)
  moreover have "sumsq (a # u) = a * a + sumsq u" by (simp add: sumsq_def)
  moreover have "0 \<le> a * a" by simp
  ultimately have "a * a = 0" "sumsq u = 0" using Cons.prems by linarith+
  then show ?case using Cons.IH by (simp add: inner_def)
qed

lemma cauchy_schwarz:
  assumes "length u = length v"
  shows "(inner u v) ^ 2 \<le> sumsq u * sumsq v"
proof (cases "sumsq u = 0")
  case True
  then show ?thesis using sumsq_zero_inner[OF True assms] by simp
next
  case False
  then have pos: "0 < sumsq u" using sumsq_nonneg[of u] by simp
  define t where "t = - inner u v / sumsq u"
  have "0 \<le> sumsq (map2 (\<lambda>a b. a * t + b) u v)" by (rule sumsq_nonneg)
  then have "0 \<le> t ^ 2 * sumsq u + 2 * t * inner u v + sumsq v"
    by (simp add: sumsq_affine[OF assms])
  also have "t ^ 2 * sumsq u + 2 * t * inner u v + sumsq v = sumsq v - (inner u v) ^ 2 / sumsq u"
    using False by (simp add: t_def power2_eq_square field_simps)
  finally have "(inner u v) ^ 2 / sumsq u \<le> sumsq v" by simp
  then show ?thesis using pos by (simp add: field_simps)
qed

lemma length_centre [simp]: "length (centre v) = length v"
  by (simp add: centre_def)

lemma variance_short: "length x \<le> Suc 0 \<Longrightarrow> variance x = 0"
proof (cases x)
  case Nil
  then show ?thesis by (simp add: variance_def)
next
  case (Cons a xs)
  assume "length x \<le> Suc 0"
  with Cons have "x = [a]" by simp
  then show ?thesis by (simp add: variance_def centre_def average_def sumsq_def)
qed

lemma variance_nonzero: "variance x \<noteq> 0 \<longleftrightarrow> x \<noteq> [] \<and> 0 < sumsq (centre x)"
  using sumsq_nonneg[of "centre x"] by (auto simp: variance_def)

text \<open>Zero variance means a constant vector (or an empty one).\<close>

lemma variance_zero_iff_constant: "variance x = 0 \<longleftrightarrow> (\<forall>a\<in>set x. a = average x)"
proof (cases "x = []")
  case True
  then show ?thesis by (simp add: variance_def)
next
  case False
  have "sumsq (centre x) = 0 \<longleftrightarrow> (\<forall>a\<in>set x. a = average x)"
    unfolding sumsq_def centre_def
    by (subst sum_list_nonneg_eq_0_iff) (auto simp: comp_def)
  then show ?thesis using False by (simp add: variance_def)
qed

lemma inner_zero_of_sumsq_zero:
  assumes "length u = length v" "sumsq v = 0"
  shows "inner u v = 0"
proof -
  have "(inner u v) ^ 2 \<le> sumsq u * sumsq v" by (rule cauchy_schwarz[OF assms(1)])
  then show ?thesis using assms(2) by simp
qed

lemma col_pearson_nan:
  assumes "length y = length x" "sumsq (centre y) = 0"
  shows "col_pearson x y = NaN"
proof -
  have "inner (centre x) (centre y) = 0"
    using assms by (intro inner_zero_of_sumsq_zero) simp_all
  then show ?thesis using assms(2) by (simp add: col_pearson_def signed_inf_def)
qed

lemma tval_nan: "tval rnd tiny df NaN = NaN"
  by (simp add: tval_def)

lemma pval_nan: "pval rnd sf df NaN = NaN"
  by (simp add: pval_def t_sf_def)

lemma constant_column_stats:
  assumes "length y = length x" "sumsq (centre y) = 0" "0 < sumsq (centre x)"
  shows "ols_slope x y = 0" "col_stderr x y = Fin 0"
proof -
  have d: "inner (centre x) (centre y) = 0"
    using assms by (intro inner_zero_of_sumsq_zero) simp_all
  then show s: "ols_slope x y = 0" by (simp add: ols_slope_def)
  have "sqrt (sumsq (centre x)) \<noteq> 0" using assms(3) by simp
  then show "col_stderr x y = Fin 0"
    using assms(2,3) s by (simp add: col_stderr_def)
qed

subsection \<open>Finite values on columns of non-zero variance\<close>

lemma col_pearson_fin:
  assumes "0 < sumsq (centre x)" "0 < sumsq (centre y)"
  shows "col_pearson x y = Fin (pearson x y)"
proof -
  have "0 < sumsq (centre x) * sumsq (centre y)" using assms by simp
  then show ?thesis using assms by (auto simp: col_pearson_def pearson_def not_less)
qed

lemma pearson_bounds:
  assumes "length y = length x" "0 < sumsq (centre x)" "0 < sumsq (centre y)"
  shows "\<bar>pearson x y\<bar> \<le> 1"
proof -
  let ?d = "inner (centre x) (centre y)" and ?p = "sumsq (centre x) * sumsq (centre y)"
  have pos: "0 < ?p" using assms by simp
  have "?d ^ 2 \<le> ?p" using assms(1) by (intro cauchy_schwarz) simp
  then have "sqrt (?d ^ 2) \<le> sqrt ?p" by (rule real_sqrt_le_mono)
  then have "\<bar>?d\<bar> \<le> sqrt ?p" by simp
  moreover have "0 < sqrt ?p" using pos by simp
  ultimately have "\<bar>?d\<bar> / sqrt ?p \<le> 1" by (simp add: field_simps)
  moreover have "\<bar>sqrt ?p\<bar> = sqrt ?p" using pos by simp
  ultimately show ?thesis by (simp only: pearson_def abs_divide)
qed

lemma tval_fin:
  assumes "0 < 1 - \<rho> + tiny" "0 < 1 + \<rho> + tiny" "0 \<le> df"
  shows "tval exact (Fin tiny) df (Fin \<rho>) =
         Fin (\<rho> * sqrt (of_int df / ((1 - \<rho> + tiny) * (1 + \<rho> + tiny))))"
proof -
  have pos: "0 < (1 - \<rho> + tiny) * (1 + \<rho> + tiny)" using assms by simp
  then have "0 \<le> of_int df / ((1 - \<rho> + tiny) * (1 + \<rho> + tiny))"
    using assms(3) by simp
  then show ?thesis using assms(1,2)
    by (auto simp: tval_def np_sub_def not_less simp del: zero_le_divide_iff)
qed

lemma EPS_pos: "0 < EPS"
  by (simp add: EPS_def)

lemma tval_EPS_fin:
  assumes "\<bar>\<rho>\<bar> \<le> 1" "0 \<le> df"
  shows "tval exact (Fin EPS) df (Fin \<rho>) =
         Fin (\<rho> * sqrt (of_int df / ((1 - \<rho> + EPS) * (1 + \<rho> + EPS))))"
  using assms EPS_pos by (intro tval_fin) linarith+

lemma pval_fin: "0 < df \<Longrightarrow> pval exact sf df (Fin t) = Fin (sf \<bar>t\<bar> df * 2)"
  by (simp add: pval_def t_sf_def)



lemma column_facts:
  assumes "shape0 Y = length x" "variance (column j (data Y)) \<noteq> 0"
  shows "length (column j (data Y)) = length x" "0 < sumsq (centre (column j (data Y)))"
  using assms by (simp_all add: shape0_def variance_nonzero)












subsection \<open>The survival function of Student's t\<close>

text \<open>
  The closed form is a survival function: between 0 and one half on the non-negative
  axis, for every positive whole number of degrees of freedom. At three degrees its tail
  is below the cube of \<open>sqrt 3 / t\<close>.
\<close>

lemma student_coef_nonneg: "0 \<le> student_coef n"
  by (induction n rule: student_coef.induct) simp_all

lemma student_A_nonneg: "0 \<le> \<theta> \<Longrightarrow> \<theta> \<le> pi / 2 \<Longrightarrow> 0 \<le> student_A \<theta> n"
proof (induction \<theta> n rule: student_A.induct)
  case (3 \<theta> n)
  have "0 \<le> sin \<theta>" using 3 by (intro sin_ge_zero) (simp_all add: pi_ge_two)
  moreover have "0 \<le> cos \<theta>" using 3 by (intro cos_ge_zero) simp_all
  ultimately have "0 \<le> student_coef n * sin \<theta> * cos \<theta> ^ n"
    by (simp add: student_coef_nonneg)
  with 3 show ?case by simp
qed simp_all

lemma student_A_deriv:
  "DERIV (\<lambda>\<theta>. student_A \<theta> n) \<theta> :> real n * student_coef n * cos \<theta> ^ (n - 1)"
proof (induction n rule: student_coef.induct)
  case 1
  show ?case by simp
next
  case 2
  show ?case by (auto intro!: derivative_eq_intros)
next
  case (3 n)
  have eq: "real n * student_coef n * cos \<theta> ^ (n - 1)
        + student_coef n * (cos \<theta> * cos \<theta> ^ n + sin \<theta> * (real n * cos \<theta> ^ (n - 1) * (- sin \<theta>)))
        = real (Suc (Suc n)) * student_coef (Suc (Suc n)) * cos \<theta> ^ (Suc (Suc n) - 1)"
  proof -
    have s: "sin \<theta> * sin \<theta> = 1 - cos \<theta> * cos \<theta>"
      using sin_cos_squared_add[of \<theta>] by (simp add: power2_eq_square algebra_simps)
    have "real n * student_coef n * cos \<theta> ^ (n - 1)
        + student_coef n * (cos \<theta> * cos \<theta> ^ n + sin \<theta> * (real n * cos \<theta> ^ (n - 1) * (- sin \<theta>)))
        = student_coef n * (cos \<theta> * cos \<theta> ^ n + real n * cos \<theta> ^ (n - 1) * (1 - sin \<theta> * sin \<theta>))"
      by (simp add: algebra_simps)
    also have "\<dots> = student_coef n * (cos \<theta> * cos \<theta> ^ n + real n * (cos \<theta> ^ (n - 1) * cos \<theta> * cos \<theta>))"
      by (simp add: s)
    also have "real n * (cos \<theta> ^ (n - 1) * cos \<theta> * cos \<theta>) = real n * (cos \<theta> * cos \<theta> ^ n)"
      by (cases n) simp_all
    also have "student_coef n * (cos \<theta> * cos \<theta> ^ n + real n * (cos \<theta> * cos \<theta> ^ n))
        = real (Suc (Suc n)) * student_coef (Suc (Suc n)) * cos \<theta> ^ (Suc (Suc n) - 1)"
      by (simp add: field_simps)
    finally show ?thesis .
  qed
  have gen: "real n * student_coef n * cos \<theta> ^ (n - 1) +
      ((0 * sin \<theta> + cos \<theta> * 1 * student_coef n) * cos \<theta> ^ n +
       real n * (- sin \<theta> * 1 * cos \<theta> ^ (n - Suc 0)) * (student_coef n * sin \<theta>))
      = real (Suc (Suc n)) * student_coef (Suc (Suc n)) * cos \<theta> ^ (Suc (Suc n) - 1)"
    unfolding eq[symmetric] by (simp add: algebra_simps)
  show ?case
    unfolding student_A.simps
    by (rule derivative_eq_intros 3 refl | rule gen)+
qed

lemma student_A_half_pi: "0 < n \<Longrightarrow> student_A (pi / 2) n = 1"
proof (induction n rule: student_coef.induct)
  case (3 n)
  show ?case
  proof (cases "n = 0")
    case True
    then show ?thesis by simp
  next
    case False
    then have "student_A (pi / 2) n = 1" using 3 by simp
    with False show ?thesis by simp
  qed
qed simp_all

lemma student_A_le_one:
  assumes "0 \<le> \<theta>" "\<theta> \<le> pi / 2" "0 < n"
  shows "student_A \<theta> n \<le> 1"
proof -
  have "student_A \<theta> n \<le> student_A (pi / 2) n"
  proof (rule DERIV_nonneg_imp_nondecreasing[OF assms(2)])
    fix u assume u: "\<theta> \<le> u" "u \<le> pi / 2"
    have "0 \<le> cos u" using u assms(1) by (intro cos_ge_zero) simp_all
    then have "0 \<le> real n * student_coef n * cos u ^ (n - 1)"
      by (simp add: student_coef_nonneg)
    then show "\<exists>y. DERIV (\<lambda>\<theta>. student_A \<theta> n) u :> y \<and> 0 \<le> y"
      using student_A_deriv by blast
  qed
  then show ?thesis by (simp add: student_A_half_pi[OF assms(3)])
qed

lemma student_t_sf_range:
  assumes "0 < df" "0 \<le> t"
  shows "0 \<le> student_t_sf t df" "student_t_sf t df \<le> 1 / 2"
proof -
  let ?\<theta> = "arctan (t / sqrt (of_int df))"
  have "0 \<le> t / sqrt (of_int df)" using assms by simp
  then have lo: "0 \<le> ?\<theta>" by simp
  have hi: "?\<theta> \<le> pi / 2" using arctan_ubound[of "t / sqrt (of_int df)"] by simp
  have n: "0 < nat df" using assms(1) by simp
  show "0 \<le> student_t_sf t df"
    using student_A_le_one[OF lo hi n] by (simp add: student_t_sf_def)
  show "student_t_sf t df \<le> 1 / 2"
    using student_A_nonneg[OF lo hi, of "nat df"] by (simp add: student_t_sf_def)
qed



















subsection \<open>Exact arithmetic: the result, column by column\<close>

lemma zero_pivot_mat1_exact: "zero_pivot exact (mat1 exact x) \<longleftrightarrow> variance x = 0"
  by (simp only: mat1_exact zero_pivot_exact det_x_zero_iff[symmetric] det_x_def)

lemma fit_slope_exact:
  assumes "length c = length x" "variance x \<noteq> 0"
  shows "fit_slope exact x c = Fin (ols_slope x c)"
proof -
  have d: "det_x x \<noteq> 0" using assms(2) by (simp add: det_x_zero_iff)
  then have "inner x x * real (length x) - sum_list x * sum_list x \<noteq> 0"
    by (simp add: det_x_def)
  then have "fit_slope exact x c =
      Fin ((inner x c * real (length x) - sum_list x * sum_list c) /
           (inner x x * real (length x) - sum_list x * sum_list x))"
    unfolding fit_slope_def mat1_exact rhs_exact[OF assms(1)] by (rule gesv_x_exact(1))
  then show ?thesis using slope_closed[OF assms(1) d] by (simp add: det_x_def)
qed

lemma fit_intercept_exact:
  assumes "length c = length x" "variance x \<noteq> 0"
  shows "fit_intercept exact x c = Fin (ols_intercept x c)"
proof -
  have d: "det_x x \<noteq> 0" using assms(2) by (simp add: det_x_zero_iff)
  then have "inner x x * real (length x) - sum_list x * sum_list x \<noteq> 0"
    by (simp add: det_x_def)
  then have "fit_intercept exact x c =
      Fin ((inner x x * sum_list c - sum_list x * inner x c) /
           (inner x x * real (length x) - sum_list x * sum_list x))"
    unfolding fit_intercept_def mat1_exact rhs_exact[OF assms(1)] by (rule gesv_x_exact(2))
  then show ?thesis using intercept_closed[OF assms(1) d] by (simp add: det_x_def)
qed

lemma TINY_exact: "TINY exact = Fin EPS"
  by (simp add: TINY_def EPS_def)

lemma fit_r_exact: "fit_r exact x c = col_pearson x c"
  by (simp only: fit_r_def xm_exact dot_exact ss_exact col_pearson_def np_mul.simps exact_def)

lemma fit_p_exact: "fit_p exact sf x c = col_pval sf x c"
  by (simp only: fit_p_def fit_t_def fit_r_exact TINY_exact col_pval_def col_tval_def)

lemma fit_stderr_exact:
  assumes "length c = length x" "variance x \<noteq> 0"
  shows "fit_stderr exact x c = col_stderr x c"
proof -
  have "1 / (real (length x) - 2) *
          (sumsq (centre c) - ols_slope x c * ols_slope x c * sumsq (centre x))
        = (sumsq (centre c) - (ols_slope x c)\<^sup>2 * sumsq (centre x)) / (real (length x) - 2)"
    by (simp add: power2_eq_square)
  then show ?thesis
    by (simp add: fit_stderr_def fit_se_def fit_slope_exact[OF assms] xm_exact ss_exact
        col_stderr_def np_sub_def del: times_divide_eq_left)
qed

lemma fit_cols:
  assumes "wf_ndarray Y" "shape0 Y = length x"
  shows "fit exact sf x Y =
     (if variance x = 0 \<and> shape1 Y \<noteq> 0 then Inl LinAlgError
      else if length x = 2 then Inl ZeroDivisionError
      else Inr [map (\<lambda>c. Fin (ols_slope x c)) (columns_of Y),
                map (\<lambda>c. Fin (ols_intercept x c)) (columns_of Y),
                map (col_pearson x) (columns_of Y),
                map (col_pval sf x) (columns_of Y),
                map (col_stderr x) (columns_of Y)])"
proof (cases "shape1 Y = 0")
  case True
  then have "columns_of Y = []" by (simp add: columns_of_def transpose_m_def)
  then show ?thesis using True by (simp add: fit_columns[OF assms])
next
  case m: False
  show ?thesis
  proof (cases "variance x = 0")
    case True
    then show ?thesis using m by (simp add: fit_columns[OF assms] zero_pivot_mat1_exact)
  next
    case False
    have len: "\<And>c. c \<in> set (columns_of Y) \<Longrightarrow> length c = length x"
      using assms(2) by (simp add: length_columns_of)
    have 1: "map (fit_slope exact x) (columns_of Y) = map (\<lambda>c. Fin (ols_slope x c)) (columns_of Y)"
      by (rule map_cong[OF refl]) (simp add: fit_slope_exact len False)
    have 2: "map (fit_intercept exact x) (columns_of Y)
             = map (\<lambda>c. Fin (ols_intercept x c)) (columns_of Y)"
      by (rule map_cong[OF refl]) (simp add: fit_intercept_exact len False)
    have 3: "map (fit_stderr exact x) (columns_of Y) = map (col_stderr x) (columns_of Y)"
      by (rule map_cong[OF refl]) (simp add: fit_stderr_exact len False)
    have 4: "fit_r exact x = col_pearson x" "fit_p exact sf x = col_pval sf x"
      by (simp_all add: fun_eq_iff fit_r_exact fit_p_exact)
    show ?thesis using False
      by (simp only: fit_columns[OF assms] zero_pivot_mat1_exact 1 2 3 4) simp
  qed
qed

subsection \<open>Rounding keeps the unit interval\<close>

lemma rhe_bounds:
  assumes "of_int a \<le> q" "q \<le> of_int b"
  shows "a \<le> rhe q" "rhe q \<le> b"
proof -
  have f: "a \<le> \<lfloor>q\<rfloor>" using assms(1) by (simp add: le_floor_iff)
  have c: "\<lceil>q\<rceil> \<le> b" using assms(2) by (simp add: ceiling_le_iff)
  have r: "rhe q = \<lfloor>q\<rfloor> \<or> (rhe q = \<lfloor>q\<rfloor> + 1 \<and> of_int \<lfloor>q\<rfloor> < q)"
    by (auto simp: rhe_def Let_def)
  show "a \<le> rhe q" using f r by auto
  have u: "\<lfloor>q\<rfloor> + 1 \<le> \<lceil>q\<rceil>" if "of_int \<lfloor>q\<rfloor> < q"
  proof -
    have "\<lfloor>q\<rfloor> < \<lceil>q\<rceil>" using that by (simp add: less_ceiling_iff)
    then show ?thesis by simp
  qed
  have l: "\<lfloor>q\<rfloor> \<le> \<lceil>q\<rceil>" by (rule floor_le_ceiling)
  have fb: "\<lfloor>q\<rfloor> \<le> b" using l c by linarith
  show "rhe q \<le> b" using c r u fb by auto
qed

lemma binary64_unit:
  assumes "0 \<le> v" "v \<le> 1"
  shows "\<exists>w. binary64 v = Fin w \<and> 0 \<le> w \<and> w \<le> 1"
proof (cases "v = 0")
  case True
  then show ?thesis by (simp add: binary64_zero)
next
  case False
  then have pos: "0 < v" using assms(1) by simp
  define k where "k = ulp_exp v"
  have "log 2 v \<le> 0" using pos assms(2) by (simp add: log_le_zero_cancel_iff)
  then have "\<lfloor>log 2 \<bar>v\<bar>\<rfloor> \<le> 0" using pos by (simp add: floor_le_iff)
  then have k0: "k \<le> 0" by (simp add: k_def ulp_exp_def)
  define N :: int where "N = 2 ^ nat (- k)"
  have p: "pow2 k = 1 / of_int N" using k0 by (auto simp: pow2_def N_def)
  have N: "0 < N" by (simp add: N_def)
  have q: "v / pow2 k = v * of_int N" by (simp add: p)
  have "of_int 0 \<le> v * of_int N" using assms(1) N by simp
  moreover have "v * of_int N \<le> of_int N" using assms(2) N by (simp add: mult_le_cancel_right1)
  ultimately have b: "0 \<le> rhe (v * of_int N)" "rhe (v * of_int N) \<le> N"
    by (rule rhe_bounds)+
  have r: "round64 v = of_int (rhe (v * of_int N)) / of_int N"
    using False by (simp add: round64_def k_def[symmetric] q p)
  have r0: "0 \<le> round64 v" unfolding r using b(1) N by simp
  have r1: "round64 v \<le> 1" unfolding r using b(2) N by (simp add: divide_le_eq_1)
  have "\<bar>round64 v\<bar> < 2 ^ 1024"
  proof -
    have "\<bar>round64 v\<bar> \<le> 1" using r0 r1 by simp
    also have "(1 :: real) < 2 ^ 1024" by simp
    finally show ?thesis .
  qed
  then have "binary64 v = Fin (round64 v)" by (simp add: binary64_def Let_def)
  with r0 r1 show ?thesis by blast
qed

lemma pval_binary64_range:
  assumes "0 < df" "\<And>t. 0 \<le> t \<Longrightarrow> 0 \<le> sf t df \<and> sf t df \<le> 1 / 2"
  shows "pval binary64 sf df t = NaN \<or> (\<exists>p. pval binary64 sf df t = Fin p \<and> 0 \<le> p \<and> p \<le> 1)"
proof (cases t)
  case (Fin a)
  have "0 \<le> sf \<bar>a\<bar> df * 2" "sf \<bar>a\<bar> df * 2 \<le> 1"
    using assms(2)[of "\<bar>a\<bar>"] by simp_all
  then have "\<exists>w. binary64 (sf \<bar>a\<bar> df * 2) = Fin w \<and> 0 \<le> w \<and> w \<le> 1"
    by (rule binary64_unit)
  then show ?thesis using assms(1) Fin by (simp add: pval_def t_sf_def)
next
  case PInf
  then show ?thesis using assms(1) by (simp add: pval_def t_sf_def binary64_zero)
next
  case NInf
  then show ?thesis using assms(1) by (simp add: pval_def t_sf_def binary64_zero)
next
  case NaN
  then show ?thesis by (simp add: pval_def t_sf_def)
qed

subsection \<open>A single column, and the propagation of NaN\<close>

lemma fit_single_column:
  assumes "length c = length x"
  shows "fit rnd sf x \<lparr>shape1 = 1, data = map (\<lambda>v. [v]) c\<rparr> =
     (if zero_pivot rnd (mat1 rnd x) then Inl LinAlgError
      else if length x = 2 then Inl ZeroDivisionError
      else Inr [[fit_slope rnd x c], [fit_intercept rnd x c], [fit_r rnd x c],
                [fit_p rnd sf x c], [fit_stderr rnd x c]])"
proof -
  let ?Y = "\<lparr>shape1 = 1, data = map (\<lambda>v. [v]) c\<rparr>"
  have w: "wf_ndarray ?Y" by (simp add: wf_ndarray_def list_all_iff)
  have s: "shape0 ?Y = length x" using assms by (simp add: shape0_def)
  have c: "columns_of ?Y = [c]"
    by (simp add: columns_of_def transpose_m_def column_def comp_def)
  show ?thesis unfolding fit_columns[OF w s] c by simp
qed

lemma fit_p_nan: "fit_r rnd x c = NaN \<Longrightarrow> fit_t rnd x c = NaN \<and> fit_p rnd sf x c = NaN"
  by (simp add: fit_p_def fit_t_def tval_nan pval_nan)

lemma np_sum_zeros:
  assumes "rnd 0 = Fin 0" "\<forall>v\<in>set vs. v = Fin 0 \<or> v = NaN"
  shows "foldl (np_add rnd) (Fin 0) vs = Fin 0 \<or> foldl (np_add rnd) (Fin 0) vs = NaN"
proof -
  have "foldl (np_add rnd) a vs = Fin 0 \<or> foldl (np_add rnd) a vs = NaN"
    if "a = Fin 0 \<or> a = NaN" "\<forall>v\<in>set vs. v = Fin 0 \<or> v = NaN" for a
    using that
  proof (induction vs arbitrary: a)
    case Nil
    then show ?case by simp
  next
    case (Cons v vs)
    have "np_add rnd a v = Fin 0 \<or> np_add rnd a v = NaN"
      using Cons.prems assms(1) by (cases a; cases v) auto
    then show ?case using Cons by simp
  qed
  then show ?thesis using assms(2) by simp
qed

lemma np_mul_nan_right [simp]: "np_mul rnd u NaN = NaN"
  by (cases u) simp_all

lemma np_divide_nan_right [simp]: "np_divide rnd u NaN = NaN"
  by (cases u) simp_all

lemma mul_zero_cases:
  assumes "rnd 0 = Fin 0"
  shows "np_mul rnd u (Fin 0) = Fin 0 \<or> np_mul rnd u (Fin 0) = NaN"
  using assms by (cases u) (simp_all add: signed_inf_def)

lemma fit_r_zero_column:
  assumes "rnd 0 = Fin 0" "\<forall>v\<in>set (xm rnd c). v = Fin 0"
  shows "fit_r rnd x c = NaN"
proof -
  let ?cx = "xm rnd x" and ?cc = "xm rnd c"
  have m: "\<forall>v\<in>set (map2 (np_mul rnd) ?cx ?cc). v = Fin 0 \<or> v = NaN"
  proof
    fix v assume "v \<in> set (map2 (np_mul rnd) ?cx ?cc)"
    then obtain a b where "(a, b) \<in> set (zip ?cx ?cc)" "v = np_mul rnd a b" by auto
    moreover from this have "b \<in> set ?cc" by (auto dest: set_zip_rightD)
    ultimately have "v = np_mul rnd a (Fin 0)" using assms(2) by simp
    then show "v = Fin 0 \<or> v = NaN" using mul_zero_cases[of rnd a, OF assms(1)] by simp
  qed
  have d: "dot rnd ?cx ?cc = Fin 0 \<or> dot rnd ?cx ?cc = NaN"
    unfolding dot_def np_sum_def by (rule np_sum_zeros[where rnd = rnd, OF assms(1) m])
  have "\<forall>v\<in>set (map (\<lambda>a. np_mul rnd a a) ?cc). v = Fin 0 \<or> v = NaN"
    using assms by auto
  then have s: "ss rnd ?cc = Fin 0 \<or> ss rnd ?cc = NaN"
    unfolding ss_def np_sum_def by (rule np_sum_zeros[where rnd = rnd, OF assms(1)])
  have p: "np_mul rnd (ss rnd ?cx) (ss rnd ?cc) = Fin 0 \<or> np_mul rnd (ss rnd ?cx) (ss rnd ?cc) = NaN"
    using s mul_zero_cases[of rnd "ss rnd ?cx", OF assms(1)] by auto
  have q: "np_sqrt rnd (np_mul rnd (ss rnd ?cx) (ss rnd ?cc)) = Fin 0 \<or>
           np_sqrt rnd (np_mul rnd (ss rnd ?cx) (ss rnd ?cc)) = NaN"
    using p assms(1) by auto
  show ?thesis unfolding fit_r_def using d q by (auto simp: signed_inf_def)
qed

lemma xm_constant:
  assumes "rnd 0 = Fin 0" "\<forall>v\<in>set c. v = a" "mean rnd (map Fin c) = Fin a"
  shows "\<forall>v\<in>set (xm rnd c). v = Fin 0"
  using assms by (auto simp: xm_def Let_def np_sub_def)


subsection \<open>The program in binary64 on concrete inputs\<close>

text \<open>
  Every rounding that the program performs on the inputs below, and the values that result.
  A float written in decimal stands for the binary fraction it denotes.
\<close>

text \<open>The input \<open>x = [0, 3, 6]\<close> with the column \<open>[1, 4, 7]\<close>.\<close>

lemma b64_E1:
  "binary64 9 = Fin 9"
  "binary64 36 = Fin 36"
  "binary64 45 = Fin 45"
  "binary64 3 = Fin 3"
  "binary64 6 = Fin 6"
  "binary64 1 = Fin 1"
  "binary64 2 = Fin 2"
  "binary64 (1 / 5) = Fin (3602879701896397 / 18014398509481984)"
  "binary64 (32425917317067573 / 18014398509481984) = Fin (8106479329266893 / 4503599627370496)"
  "binary64 (5404319552844595 / 4503599627370496) = Fin (5404319552844595 / 4503599627370496)"
  "binary64 12 = Fin 12"
  "binary64 42 = Fin 42"
  "binary64 54 = Fin 54"
  "binary64 4 = Fin 4"
  "binary64 7 = Fin 7"
  "binary64 5 = Fin 5"
  "binary64 (97277751951202719 / 9007199254740992) = Fin (3039929748475085 / 281474976710656)"
  "binary64 (337769972052787 / 281474976710656) = Fin (337769972052787 / 281474976710656)"
  "binary64 (5404319552844592 / 5404319552844595) = Fin (9007199254740987 / 9007199254740992)"
  "binary64 (81064793292668883 / 9007199254740992) = Fin (5066549580791805 / 562949953421312)"
  "binary64 (25332747903959043 / 562949953421312) = Fin (6333186975989761 / 140737488355328)"
  "binary64 (6333186975989761 / 6333186975989760) = Fin (4503599627370497 / 4503599627370496)"
  "binary64 (- 3) = Fin (- 3)"
  "binary64 18 = Fin 18"
  "binary64 324 = Fin 324"
  "binary64 (sqrt 324) = Fin 18"
  "binary64 (1 / 100000000000000000000) = Fin (6646139978924579 / 664613997892457936451903530140172288)"
  "binary64 (6646139978924579 / 664613997892457936451903530140172288) = Fin (6646139978924579 / 664613997892457936451903530140172288)"
  "binary64 (1329227995784915872910453200259269155 / 664613997892457936451903530140172288) = Fin 2"
  "binary64 (6646139978924579 / 332306998946228968225951765070086144) = Fin (6646139978924579 / 332306998946228968225951765070086144)"
  "binary64 (332306998946228968225951765070086144 / 6646139978924579) = Fin 50000000000000000000"
  "binary64 (sqrt 50000000000000000000) = Fin (7414552001894653 / 1048576)"
  "binary64 (7414552001894653 / 1048576) = Fin (7414552001894653 / 1048576)"
  "binary64 (20282409603651679431146506027009 / 20282409603651670423947251286016) = Fin (2251799813685249 / 2251799813685248)"
  "binary64 (20266198323167241 / 1125899906842624) = Fin (2533274790395905 / 140737488355328)"
  "binary64 (- (1 / 140737488355328)) = Fin (- (1 / 140737488355328))"
  "binary64 (sqrt 18) = Fin (4776788754394329 / 1125899906842624)"
proof -
  show "binary64 9 = Fin 9"
    by (rule binary64_eq[where k = "- 49" and m = "5066549580791808"]) (simp_all add: pow2_def)
  show "binary64 36 = Fin 36"
    by (rule binary64_eq[where k = "- 47" and m = "5066549580791808"]) (simp_all add: pow2_def)
  show "binary64 45 = Fin 45"
    by (rule binary64_eq[where k = "- 47" and m = "6333186975989760"]) (simp_all add: pow2_def)
  show "binary64 3 = Fin 3"
    by (rule binary64_eq[where k = "- 51" and m = "6755399441055744"]) (simp_all add: pow2_def)
  show "binary64 6 = Fin 6"
    by (rule binary64_eq[where k = "- 50" and m = "6755399441055744"]) (simp_all add: pow2_def)
  show "binary64 1 = Fin 1"
    by (rule binary64_eq[where k = "- 52" and m = "4503599627370496"]) (simp_all add: pow2_def)
  show "binary64 2 = Fin 2"
    by (rule binary64_eq[where k = "- 51" and m = "4503599627370496"]) (simp_all add: pow2_def)
  show "binary64 (1 / 5) = Fin (3602879701896397 / 18014398509481984)"
    by (rule binary64_eq[where k = "- 55" and m = "7205759403792794"]) (simp_all add: pow2_def)
  show "binary64 (32425917317067573 / 18014398509481984) = Fin (8106479329266893 / 4503599627370496)"
    by (rule binary64_eq[where k = "- 52" and m = "8106479329266893"]) (simp_all add: pow2_def)
  show "binary64 (5404319552844595 / 4503599627370496) = Fin (5404319552844595 / 4503599627370496)"
    by (rule binary64_eq[where k = "- 52" and m = "5404319552844595"]) (simp_all add: pow2_def)
  show "binary64 12 = Fin 12"
    by (rule binary64_eq[where k = "- 49" and m = "6755399441055744"]) (simp_all add: pow2_def)
  show "binary64 42 = Fin 42"
    by (rule binary64_eq[where k = "- 47" and m = "5910974510923776"]) (simp_all add: pow2_def)
  show "binary64 54 = Fin 54"
    by (rule binary64_eq[where k = "- 47" and m = "7599824371187712"]) (simp_all add: pow2_def)
  show "binary64 4 = Fin 4"
    by (rule binary64_eq[where k = "- 50" and m = "4503599627370496"]) (simp_all add: pow2_def)
  show "binary64 7 = Fin 7"
    by (rule binary64_eq[where k = "- 50" and m = "7881299347898368"]) (simp_all add: pow2_def)
  show "binary64 5 = Fin 5"
    by (rule binary64_eq[where k = "- 50" and m = "5629499534213120"]) (simp_all add: pow2_def)
  show "binary64 (97277751951202719 / 9007199254740992) = Fin (3039929748475085 / 281474976710656)"
    by (rule binary64_eq[where k = "- 49" and m = "6079859496950170"]) (simp_all add: pow2_def)
  show "binary64 (337769972052787 / 281474976710656) = Fin (337769972052787 / 281474976710656)"
    by (rule binary64_eq[where k = "- 52" and m = "5404319552844592"]) (simp_all add: pow2_def)
  show "binary64 (5404319552844592 / 5404319552844595) = Fin (9007199254740987 / 9007199254740992)"
    by (rule binary64_eq[where k = "- 53" and m = "9007199254740987"]) (simp_all add: pow2_def)
  show "binary64 (81064793292668883 / 9007199254740992) = Fin (5066549580791805 / 562949953421312)"
    by (rule binary64_eq[where k = "- 49" and m = "5066549580791805"]) (simp_all add: pow2_def)
  show "binary64 (25332747903959043 / 562949953421312) = Fin (6333186975989761 / 140737488355328)"
    by (rule binary64_eq[where k = "- 47" and m = "6333186975989761"]) (simp_all add: pow2_def)
  show "binary64 (6333186975989761 / 6333186975989760) = Fin (4503599627370497 / 4503599627370496)"
    by (rule binary64_eq[where k = "- 52" and m = "4503599627370497"]) (simp_all add: pow2_def)
  show "binary64 (- 3) = Fin (- 3)"
    by (rule binary64_eq[where k = "- 51" and m = "- 6755399441055744"]) (simp_all add: pow2_def)
  show "binary64 18 = Fin 18"
    by (rule binary64_eq[where k = "- 48" and m = "5066549580791808"]) (simp_all add: pow2_def)
  show "binary64 324 = Fin 324"
    by (rule binary64_eq[where k = "- 44" and m = "5699868278390784"]) (simp_all add: pow2_def)
  show "binary64 (sqrt 324) = Fin 18"
    by (rule binary64_sqrt_eq[where k = "- 48" and m = "5066549580791808"]) (simp_all add: pow2_def power2_eq_square)
  show "binary64 (1 / 100000000000000000000) = Fin (6646139978924579 / 664613997892457936451903530140172288)"
    by (rule binary64_eq[where k = "- 119" and m = "6646139978924579"]) (simp_all add: pow2_def)
  show "binary64 (6646139978924579 / 664613997892457936451903530140172288) = Fin (6646139978924579 / 664613997892457936451903530140172288)"
    by (rule binary64_eq[where k = "- 119" and m = "6646139978924579"]) (simp_all add: pow2_def)
  show "binary64 (1329227995784915872910453200259269155 / 664613997892457936451903530140172288) = Fin 2"
    by (rule binary64_eq[where k = "- 51" and m = "4503599627370496"]) (simp_all add: pow2_def)
  show "binary64 (6646139978924579 / 332306998946228968225951765070086144) = Fin (6646139978924579 / 332306998946228968225951765070086144)"
    by (rule binary64_eq[where k = "- 118" and m = "6646139978924579"]) (simp_all add: pow2_def)
  show "binary64 (332306998946228968225951765070086144 / 6646139978924579) = Fin 50000000000000000000"
    by (rule binary64_eq[where k = "13" and m = "6103515625000000"]) (simp_all add: pow2_def)
  show "binary64 (sqrt 50000000000000000000) = Fin (7414552001894653 / 1048576)"
    by (rule binary64_sqrt_eq[where k = "- 20" and m = "7414552001894653"]) (simp_all add: pow2_def power2_eq_square)
  show "binary64 (7414552001894653 / 1048576) = Fin (7414552001894653 / 1048576)"
    by (rule binary64_eq[where k = "- 20" and m = "7414552001894653"]) (simp_all add: pow2_def)
  show "binary64 (20282409603651679431146506027009 / 20282409603651670423947251286016) = Fin (2251799813685249 / 2251799813685248)"
    by (rule binary64_eq[where k = "- 52" and m = "4503599627370498"]) (simp_all add: pow2_def)
  show "binary64 (20266198323167241 / 1125899906842624) = Fin (2533274790395905 / 140737488355328)"
    by (rule binary64_eq[where k = "- 48" and m = "5066549580791810"]) (simp_all add: pow2_def)
  show "binary64 (- (1 / 140737488355328)) = Fin (- (1 / 140737488355328))"
    by (rule binary64_eq[where k = "- 99" and m = "- 4503599627370496"]) (simp_all add: pow2_def)
  show "binary64 (sqrt 18) = Fin (4776788754394329 / 1125899906842624)"
    by (rule binary64_sqrt_eq[where k = "- 50" and m = "4776788754394329"]) (simp_all add: pow2_def power2_eq_square)
qed

lemma mat1_E1:
  "mat1 binary64 [0, 3, 6] = [[Fin 45, Fin 9], [Fin 9, Fin 3]]"
  by (simp add: mat1_def Let_def transpose_m_def matmul_def upt_2 column_def
      add_constant_def dot_def np_sum_def binary64_zero b64_E1)

lemma zero_pivot_E1: "\<not> zero_pivot binary64 (mat1 binary64 [0, 3, 6])"
  by (simp add: mat1_E1 zero_pivot_def lu_singular_def np_sub_def binary64_zero b64_E1)

lemma rhs_E1:
  "rhs binary64 [0, 3, 6] [1, 4, 7] = [Fin 54, Fin 12]"
  by (simp add: rhs_def dot_def np_sum_def binary64_zero b64_E1)

lemma slope_E1:
  "fit_slope binary64 [0, 3, 6] [1, 4, 7] = Fin (4503599627370497 / 4503599627370496)"
  by (simp add: fit_slope_def mat1_E1 rhs_E1 gesv_x1_def lu_x1_def lu_x2_def np_sub_def
      binary64_zero b64_E1)

lemma intercept_E1:
  "fit_intercept binary64 [0, 3, 6] [1, 4, 7] = Fin (9007199254740987 / 9007199254740992)"
  by (simp add: fit_intercept_def mat1_E1 rhs_E1 gesv_x2_def lu_x2_def np_sub_def
      binary64_zero b64_E1)

lemma xm_x_E1:
  "xm binary64 [0, 3, 6] = [Fin (- 3), Fin 0, Fin 3]"
  by (simp add: xm_def Let_def mean_def np_sum_def np_sub_def binary64_zero b64_E1)

lemma xm_c_E1:
  "xm binary64 [1, 4, 7] = [Fin (- 3), Fin 0, Fin 3]"
  by (simp add: xm_def Let_def mean_def np_sum_def np_sub_def binary64_zero b64_E1)

lemma r_E1:
  "fit_r binary64 [0, 3, 6] [1, 4, 7] = Fin 1"
  by (simp add: fit_r_def xm_x_E1 xm_c_E1 dot_def ss_def np_sum_def signed_inf_def
      binary64_zero b64_E1)

lemma t_E1:
  "fit_t binary64 [0, 3, 6] [1, 4, 7] = Fin (7414552001894653 / 1048576)"
  by (simp add: fit_t_def r_E1 tval_def TINY_def np_sub_def signed_inf_def binary64_zero b64_E1)

lemma stderr_E1:
  "fit_stderr binary64 [0, 3, 6] [1, 4, 7] = NaN"
  by (simp add: fit_stderr_def fit_se_def slope_E1 xm_x_E1 xm_c_E1 ss_def np_sum_def
      np_sub_def signed_inf_def binary64_zero b64_E1)


lemma fit_E1:
  "fit binary64 sf [0, 3, 6]
     \<lparr>shape1 = 1, data = [[1], [4], [7]]\<rparr> =
   Inr [[Fin (4503599627370497 / 4503599627370496)], [Fin (9007199254740987 / 9007199254740992)],
        [Fin 1], [binary64 (sf (7414552001894653 / 1048576) 1 * 2)],
        [NaN]]"
  using fit_single_column[of "[1, 4, 7]" "[0, 3, 6]" binary64 sf]
  by (simp add: zero_pivot_E1 slope_E1 intercept_E1 r_E1 stderr_E1 fit_p_def t_E1 pval_def
      t_sf_def)

text \<open>The input \<open>x = [1, 2, 3]\<close> with the column \<open>[3602879701896397 / 18014398509481984, 3152519739159347 / 4503599627370496, 5404319552844595 / 4503599627370496]\<close>.\<close>

lemma b64_E2:
  "binary64 1 = Fin 1"
  "binary64 4 = Fin 4"
  "binary64 9 = Fin 9"
  "binary64 5 = Fin 5"
  "binary64 14 = Fin 14"
  "binary64 2 = Fin 2"
  "binary64 3 = Fin 3"
  "binary64 6 = Fin 6"
  "binary64 (3 / 7) = Fin (7720456504063707 / 18014398509481984)"
  "binary64 (23161369512191121 / 9007199254740992) = Fin (1447585594511945 / 562949953421312)"
  "binary64 (241264265751991 / 562949953421312) = Fin (241264265751991 / 562949953421312)"
  "binary64 (3602879701896397 / 18014398509481984) = Fin (3602879701896397 / 18014398509481984)"
  "binary64 (3152519739159347 / 2251799813685248) = Fin (3152519739159347 / 2251799813685248)"
  "binary64 (16212958658533785 / 4503599627370496) = Fin (2026619832316723 / 562949953421312)"
  "binary64 (28823037615171173 / 18014398509481984) = Fin (7205759403792793 / 4503599627370496)"
  "binary64 (23418718062326577 / 4503599627370496) = Fin (1463669878895411 / 281474976710656)"
  "binary64 (3152519739159347 / 4503599627370496) = Fin (3152519739159347 / 4503599627370496)"
  "binary64 (5404319552844595 / 4503599627370496) = Fin (5404319552844595 / 4503599627370496)"
  "binary64 (16212958658533785 / 18014398509481984) = Fin (2026619832316723 / 2251799813685248)"
  "binary64 (9457559217478041 / 4503599627370496) = Fin (1182194902184755 / 562949953421312)"
  "binary64 (11300199636320214207677933948577 / 5070602400912917605986812821504) = Fin (5018296727641409 / 2251799813685248)"
  "binary64 (- (289517118902389 / 2251799813685248)) = Fin (- (289517118902389 / 2251799813685248))"
  "binary64 (- (289517118902389 / 965057063007964)) = Fin (- (5404319552844591 / 18014398509481984))"
  "binary64 (- (16212958658533773 / 9007199254740992)) = Fin (- (4053239664633443 / 2251799813685248))"
  "binary64 (15762598695796731 / 2251799813685248) = Fin (3940649673949183 / 562949953421312)"
  "binary64 (3940649673949183 / 7881299347898368) = Fin (4503599627370495 / 9007199254740992)"
  "binary64 (- 1) = Fin (- 1)"
  "binary64 (1182194902184755 / 1688849860263936) = Fin (6305039478318693 / 9007199254740992)"
  "binary64 (- (9007199254740989 / 18014398509481984)) = Fin (- (9007199254740989 / 18014398509481984))"
  "binary64 (1 / 9007199254740992) = Fin (1 / 9007199254740992)"
  "binary64 (4503599627370497 / 9007199254740992) = Fin (4503599627370497 / 9007199254740992)"
  "binary64 (9007199254740989 / 18014398509481984) = Fin (9007199254740989 / 18014398509481984)"
  "binary64 (18014398509481983 / 18014398509481984) = Fin 1"
  "binary64 (81129638414606627652593476698121 / 324518553658426726783156020576256) = Fin (4503599627370493 / 18014398509481984)"
  "binary64 (1 / 81129638414606681695789005144064) = Fin (1 / 81129638414606681695789005144064)"
  "binary64 (20282409603651679431146506027009 / 81129638414606681695789005144064) = Fin (2251799813685249 / 9007199254740992)"
  "binary64 (4503599627370493 / 18014398509481984) = Fin (4503599627370493 / 18014398509481984)"
  "binary64 (20282409603651656913148369174529 / 81129638414606681695789005144064) = Fin (4503599627370493 / 18014398509481984)"
  "binary64 (9007199254740991 / 18014398509481984) = Fin (9007199254740991 / 18014398509481984)"
  "binary64 (9007199254740991 / 9007199254740992) = Fin (9007199254740991 / 9007199254740992)"
  "binary64 (sqrt (9007199254740991 / 9007199254740992)) = Fin (9007199254740991 / 9007199254740992)"
  "binary64 (9007199254740992 / 9007199254740991) = Fin (4503599627370497 / 4503599627370496)"
  "binary64 (1 / 100000000000000000000) = Fin (6646139978924579 / 664613997892457936451903530140172288)"
  "binary64 (- (1 / 4503599627370496)) = Fin (- (1 / 4503599627370496))"
  "binary64 (- (147567306449697488349 / 664613997892457936451903530140172288)) = Fin (- (9006793606548919 / 40564819207303340847894502572032))"
  "binary64 (9007199254740993 / 4503599627370496) = Fin 2"
  "binary64 (1329227995784915872910453200259269155 / 664613997892457936451903530140172288) = Fin 2"
  "binary64 (- (9006793606548919 / 20282409603651670423947251286016)) = Fin (- (9006793606548919 / 20282409603651670423947251286016))"
  "binary64 (- (20282409603651670423947251286016 / 9006793606548919)) = Fin (- (4503802460601329 / 2))"
  "binary64 (- (1 / 2251799813685248)) = Fin (- (1 / 2251799813685248))"
  "binary64 (- 2251799813685248) = Fin (- 2251799813685248)"
  "binary64 (20282409603651661416747996545025 / 81129638414606681695789005144064) = Fin (2251799813685247 / 9007199254740992)"
  "binary64 (2251799813685247 / 4503599627370496) = Fin (2251799813685247 / 4503599627370496)"
  "binary64 (3 / 18014398509481984) = Fin (3 / 18014398509481984)"
  "binary64 (sqrt (3 / 18014398509481984)) = Fin (3900231685776981 / 302231454903657293676544)"
  "binary64 (sqrt 2) = Fin (6369051672525773 / 4503599627370496)"
  "binary64 (3900231685776981 / 427419822500504636751872) = Fin (2757880273211543 / 302231454903657293676544)"
proof -
  show "binary64 1 = Fin 1"
    by (rule binary64_eq[where k = "- 52" and m = "4503599627370496"]) (simp_all add: pow2_def)
  show "binary64 4 = Fin 4"
    by (rule binary64_eq[where k = "- 50" and m = "4503599627370496"]) (simp_all add: pow2_def)
  show "binary64 9 = Fin 9"
    by (rule binary64_eq[where k = "- 49" and m = "5066549580791808"]) (simp_all add: pow2_def)
  show "binary64 5 = Fin 5"
    by (rule binary64_eq[where k = "- 50" and m = "5629499534213120"]) (simp_all add: pow2_def)
  show "binary64 14 = Fin 14"
    by (rule binary64_eq[where k = "- 49" and m = "7881299347898368"]) (simp_all add: pow2_def)
  show "binary64 2 = Fin 2"
    by (rule binary64_eq[where k = "- 51" and m = "4503599627370496"]) (simp_all add: pow2_def)
  show "binary64 3 = Fin 3"
    by (rule binary64_eq[where k = "- 51" and m = "6755399441055744"]) (simp_all add: pow2_def)
  show "binary64 6 = Fin 6"
    by (rule binary64_eq[where k = "- 50" and m = "6755399441055744"]) (simp_all add: pow2_def)
  show "binary64 (3 / 7) = Fin (7720456504063707 / 18014398509481984)"
    by (rule binary64_eq[where k = "- 54" and m = "7720456504063707"]) (simp_all add: pow2_def)
  show "binary64 (23161369512191121 / 9007199254740992) = Fin (1447585594511945 / 562949953421312)"
    by (rule binary64_eq[where k = "- 51" and m = "5790342378047780"]) (simp_all add: pow2_def)
  show "binary64 (241264265751991 / 562949953421312) = Fin (241264265751991 / 562949953421312)"
    by (rule binary64_eq[where k = "- 54" and m = "7720456504063712"]) (simp_all add: pow2_def)
  show "binary64 (3602879701896397 / 18014398509481984) = Fin (3602879701896397 / 18014398509481984)"
    by (rule binary64_eq[where k = "- 55" and m = "7205759403792794"]) (simp_all add: pow2_def)
  show "binary64 (3152519739159347 / 2251799813685248) = Fin (3152519739159347 / 2251799813685248)"
    by (rule binary64_eq[where k = "- 52" and m = "6305039478318694"]) (simp_all add: pow2_def)
  show "binary64 (16212958658533785 / 4503599627370496) = Fin (2026619832316723 / 562949953421312)"
    by (rule binary64_tie[where k = "- 51" and f = "8106479329266892"]) (simp_all add: pow2_def)
  show "binary64 (28823037615171173 / 18014398509481984) = Fin (7205759403792793 / 4503599627370496)"
    by (rule binary64_eq[where k = "- 52" and m = "7205759403792793"]) (simp_all add: pow2_def)
  show "binary64 (23418718062326577 / 4503599627370496) = Fin (1463669878895411 / 281474976710656)"
    by (rule binary64_eq[where k = "- 50" and m = "5854679515581644"]) (simp_all add: pow2_def)
  show "binary64 (3152519739159347 / 4503599627370496) = Fin (3152519739159347 / 4503599627370496)"
    by (rule binary64_eq[where k = "- 53" and m = "6305039478318694"]) (simp_all add: pow2_def)
  show "binary64 (5404319552844595 / 4503599627370496) = Fin (5404319552844595 / 4503599627370496)"
    by (rule binary64_eq[where k = "- 52" and m = "5404319552844595"]) (simp_all add: pow2_def)
  show "binary64 (16212958658533785 / 18014398509481984) = Fin (2026619832316723 / 2251799813685248)"
    by (rule binary64_tie[where k = "- 53" and f = "8106479329266892"]) (simp_all add: pow2_def)
  show "binary64 (9457559217478041 / 4503599627370496) = Fin (1182194902184755 / 562949953421312)"
    by (rule binary64_tie[where k = "- 51" and f = "4728779608739020"]) (simp_all add: pow2_def)
  show "binary64 (11300199636320214207677933948577 / 5070602400912917605986812821504) = Fin (5018296727641409 / 2251799813685248)"
    by (rule binary64_eq[where k = "- 51" and m = "5018296727641409"]) (simp_all add: pow2_def)
  show "binary64 (- (289517118902389 / 2251799813685248)) = Fin (- (289517118902389 / 2251799813685248))"
    by (rule binary64_eq[where k = "- 55" and m = "- 4632273902438224"]) (simp_all add: pow2_def)
  show "binary64 (- (289517118902389 / 965057063007964)) = Fin (- (5404319552844591 / 18014398509481984))"
    by (rule binary64_eq[where k = "- 54" and m = "- 5404319552844591"]) (simp_all add: pow2_def)
  show "binary64 (- (16212958658533773 / 9007199254740992)) = Fin (- (4053239664633443 / 2251799813685248))"
    by (rule binary64_tie[where k = "- 52" and f = "- 8106479329266887"]) (simp_all add: pow2_def)
  show "binary64 (15762598695796731 / 2251799813685248) = Fin (3940649673949183 / 562949953421312)"
    by (rule binary64_tie[where k = "- 50" and f = "7881299347898365"]) (simp_all add: pow2_def)
  show "binary64 (3940649673949183 / 7881299347898368) = Fin (4503599627370495 / 9007199254740992)"
    by (rule binary64_eq[where k = "- 54" and m = "9007199254740990"]) (simp_all add: pow2_def)
  show "binary64 (- 1) = Fin (- 1)"
    by (rule binary64_eq[where k = "- 52" and m = "- 4503599627370496"]) (simp_all add: pow2_def)
  show "binary64 (1182194902184755 / 1688849860263936) = Fin (6305039478318693 / 9007199254740992)"
    by (rule binary64_eq[where k = "- 53" and m = "6305039478318693"]) (simp_all add: pow2_def)
  show "binary64 (- (9007199254740989 / 18014398509481984)) = Fin (- (9007199254740989 / 18014398509481984))"
    by (rule binary64_eq[where k = "- 54" and m = "- 9007199254740989"]) (simp_all add: pow2_def)
  show "binary64 (1 / 9007199254740992) = Fin (1 / 9007199254740992)"
    by (rule binary64_eq[where k = "- 105" and m = "4503599627370496"]) (simp_all add: pow2_def)
  show "binary64 (4503599627370497 / 9007199254740992) = Fin (4503599627370497 / 9007199254740992)"
    by (rule binary64_eq[where k = "- 53" and m = "4503599627370497"]) (simp_all add: pow2_def)
  show "binary64 (9007199254740989 / 18014398509481984) = Fin (9007199254740989 / 18014398509481984)"
    by (rule binary64_eq[where k = "- 54" and m = "9007199254740989"]) (simp_all add: pow2_def)
  show "binary64 (18014398509481983 / 18014398509481984) = Fin 1"
    by (rule binary64_tie[where k = "- 53" and f = "9007199254740991"]) (simp_all add: pow2_def)
  show "binary64 (81129638414606627652593476698121 / 324518553658426726783156020576256) = Fin (4503599627370493 / 18014398509481984)"
    by (rule binary64_eq[where k = "- 55" and m = "9007199254740986"]) (simp_all add: pow2_def)
  show "binary64 (1 / 81129638414606681695789005144064) = Fin (1 / 81129638414606681695789005144064)"
    by (rule binary64_eq[where k = "- 158" and m = "4503599627370496"]) (simp_all add: pow2_def)
  show "binary64 (20282409603651679431146506027009 / 81129638414606681695789005144064) = Fin (2251799813685249 / 9007199254740992)"
    by (rule binary64_eq[where k = "- 54" and m = "4503599627370498"]) (simp_all add: pow2_def)
  show "binary64 (4503599627370493 / 18014398509481984) = Fin (4503599627370493 / 18014398509481984)"
    by (rule binary64_eq[where k = "- 55" and m = "9007199254740986"]) (simp_all add: pow2_def)
  show "binary64 (20282409603651656913148369174529 / 81129638414606681695789005144064) = Fin (4503599627370493 / 18014398509481984)"
    by (rule binary64_eq[where k = "- 55" and m = "9007199254740986"]) (simp_all add: pow2_def)
  show "binary64 (9007199254740991 / 18014398509481984) = Fin (9007199254740991 / 18014398509481984)"
    by (rule binary64_eq[where k = "- 54" and m = "9007199254740991"]) (simp_all add: pow2_def)
  show "binary64 (9007199254740991 / 9007199254740992) = Fin (9007199254740991 / 9007199254740992)"
    by (rule binary64_eq[where k = "- 53" and m = "9007199254740991"]) (simp_all add: pow2_def)
  show "binary64 (sqrt (9007199254740991 / 9007199254740992)) = Fin (9007199254740991 / 9007199254740992)"
    by (rule binary64_sqrt_eq[where k = "- 53" and m = "9007199254740991"]) (simp_all add: pow2_def power2_eq_square)
  show "binary64 (9007199254740992 / 9007199254740991) = Fin (4503599627370497 / 4503599627370496)"
    by (rule binary64_eq[where k = "- 52" and m = "4503599627370497"]) (simp_all add: pow2_def)
  show "binary64 (1 / 100000000000000000000) = Fin (6646139978924579 / 664613997892457936451903530140172288)"
    by (rule binary64_eq[where k = "- 119" and m = "6646139978924579"]) (simp_all add: pow2_def)
  show "binary64 (- (1 / 4503599627370496)) = Fin (- (1 / 4503599627370496))"
    by (rule binary64_eq[where k = "- 104" and m = "- 4503599627370496"]) (simp_all add: pow2_def)
  show "binary64 (- (147567306449697488349 / 664613997892457936451903530140172288)) = Fin (- (9006793606548919 / 40564819207303340847894502572032))"
    by (rule binary64_eq[where k = "- 105" and m = "- 9006793606548919"]) (simp_all add: pow2_def)
  show "binary64 (9007199254740993 / 4503599627370496) = Fin 2"
    by (rule binary64_tie[where k = "- 51" and f = "4503599627370496"]) (simp_all add: pow2_def)
  show "binary64 (1329227995784915872910453200259269155 / 664613997892457936451903530140172288) = Fin 2"
    by (rule binary64_eq[where k = "- 51" and m = "4503599627370496"]) (simp_all add: pow2_def)
  show "binary64 (- (9006793606548919 / 20282409603651670423947251286016)) = Fin (- (9006793606548919 / 20282409603651670423947251286016))"
    by (rule binary64_eq[where k = "- 104" and m = "- 9006793606548919"]) (simp_all add: pow2_def)
  show "binary64 (- (20282409603651670423947251286016 / 9006793606548919)) = Fin (- (4503802460601329 / 2))"
    by (rule binary64_eq[where k = "- 1" and m = "- 4503802460601329"]) (simp_all add: pow2_def)
  show "binary64 (- (1 / 2251799813685248)) = Fin (- (1 / 2251799813685248))"
    by (rule binary64_eq[where k = "- 103" and m = "- 4503599627370496"]) (simp_all add: pow2_def)
  show "binary64 (- 2251799813685248) = Fin (- 2251799813685248)"
    by (rule binary64_eq[where k = "- 1" and m = "- 4503599627370496"]) (simp_all add: pow2_def)
  show "binary64 (20282409603651661416747996545025 / 81129638414606681695789005144064) = Fin (2251799813685247 / 9007199254740992)"
    by (rule binary64_eq[where k = "- 55" and m = "9007199254740988"]) (simp_all add: pow2_def)
  show "binary64 (2251799813685247 / 4503599627370496) = Fin (2251799813685247 / 4503599627370496)"
    by (rule binary64_eq[where k = "- 54" and m = "9007199254740988"]) (simp_all add: pow2_def)
  show "binary64 (3 / 18014398509481984) = Fin (3 / 18014398509481984)"
    by (rule binary64_eq[where k = "- 105" and m = "6755399441055744"]) (simp_all add: pow2_def)
  show "binary64 (sqrt (3 / 18014398509481984)) = Fin (3900231685776981 / 302231454903657293676544)"
    by (rule binary64_sqrt_eq[where k = "- 79" and m = "7800463371553962"]) (simp_all add: pow2_def power2_eq_square)
  show "binary64 (sqrt 2) = Fin (6369051672525773 / 4503599627370496)"
    by (rule binary64_sqrt_eq[where k = "- 52" and m = "6369051672525773"]) (simp_all add: pow2_def power2_eq_square)
  show "binary64 (3900231685776981 / 427419822500504636751872) = Fin (2757880273211543 / 302231454903657293676544)"
    by (rule binary64_eq[where k = "- 79" and m = "5515760546423086"]) (simp_all add: pow2_def)
qed

lemma mat1_E2:
  "mat1 binary64 [1, 2, 3] = [[Fin 14, Fin 6], [Fin 6, Fin 3]]"
  by (simp add: mat1_def Let_def transpose_m_def matmul_def upt_2 column_def
      add_constant_def dot_def np_sum_def binary64_zero b64_E2)

lemma zero_pivot_E2: "\<not> zero_pivot binary64 (mat1 binary64 [1, 2, 3])"
  by (simp add: mat1_E2 zero_pivot_def lu_singular_def np_sub_def binary64_zero b64_E2)

lemma rhs_E2:
  "rhs binary64 [1, 2, 3] [3602879701896397 / 18014398509481984, 3152519739159347 / 4503599627370496, 5404319552844595 / 4503599627370496] = [Fin (1463669878895411 / 281474976710656), Fin (1182194902184755 / 562949953421312)]"
  by (simp add: rhs_def dot_def np_sum_def binary64_zero b64_E2)

lemma slope_E2:
  "fit_slope binary64 [1, 2, 3] [3602879701896397 / 18014398509481984, 3152519739159347 / 4503599627370496, 5404319552844595 / 4503599627370496] = Fin (4503599627370495 / 9007199254740992)"
  by (simp add: fit_slope_def mat1_E2 rhs_E2 gesv_x1_def lu_x1_def lu_x2_def np_sub_def
      binary64_zero b64_E2)

lemma intercept_E2:
  "fit_intercept binary64 [1, 2, 3] [3602879701896397 / 18014398509481984, 3152519739159347 / 4503599627370496, 5404319552844595 / 4503599627370496] = Fin (- (5404319552844591 / 18014398509481984))"
  by (simp add: fit_intercept_def mat1_E2 rhs_E2 gesv_x2_def lu_x2_def np_sub_def
      binary64_zero b64_E2)

lemma xm_x_E2:
  "xm binary64 [1, 2, 3] = [Fin (- 1), Fin 0, Fin 1]"
  by (simp add: xm_def Let_def mean_def np_sum_def np_sub_def binary64_zero b64_E2)

lemma xm_c_E2:
  "xm binary64 [3602879701896397 / 18014398509481984, 3152519739159347 / 4503599627370496, 5404319552844595 / 4503599627370496] = [Fin (- (9007199254740989 / 18014398509481984)), Fin (1 / 9007199254740992), Fin (4503599627370497 / 9007199254740992)]"
  by (simp add: xm_def Let_def mean_def np_sum_def np_sub_def binary64_zero b64_E2)

lemma r_E2:
  "fit_r binary64 [1, 2, 3] [3602879701896397 / 18014398509481984, 3152519739159347 / 4503599627370496, 5404319552844595 / 4503599627370496] = Fin (4503599627370497 / 4503599627370496)"
  by (simp add: fit_r_def xm_x_E2 xm_c_E2 dot_def ss_def np_sum_def signed_inf_def
      binary64_zero b64_E2)

lemma t_E2:
  "fit_t binary64 [1, 2, 3] [3602879701896397 / 18014398509481984, 3152519739159347 / 4503599627370496, 5404319552844595 / 4503599627370496] = NaN"
  by (simp add: fit_t_def r_E2 tval_def TINY_def np_sub_def signed_inf_def binary64_zero b64_E2)


lemma stderr_E2:
  "fit_stderr binary64 [1, 2, 3] [3602879701896397 / 18014398509481984, 3152519739159347 / 4503599627370496, 5404319552844595 / 4503599627370496] = Fin (2757880273211543 / 302231454903657293676544)"
  by (simp add: fit_stderr_def fit_se_def slope_E2 xm_x_E2 xm_c_E2 ss_def np_sum_def
      np_sub_def signed_inf_def binary64_zero b64_E2)

lemma fit_E2:
  "fit binary64 sf [1, 2, 3]
     \<lparr>shape1 = 1, data = [[3602879701896397 / 18014398509481984], [3152519739159347 / 4503599627370496], [5404319552844595 / 4503599627370496]]\<rparr> =
   Inr [[Fin (4503599627370495 / 9007199254740992)], [Fin (- (5404319552844591 / 18014398509481984))],
        [Fin (4503599627370497 / 4503599627370496)], [NaN],
        [Fin (2757880273211543 / 302231454903657293676544)]]"
  using fit_single_column[of "[3602879701896397 / 18014398509481984, 3152519739159347 / 4503599627370496, 5404319552844595 / 4503599627370496]" "[1, 2, 3]" binary64 sf]
  by (simp add: zero_pivot_E2 slope_E2 intercept_E2 r_E2 stderr_E2 fit_p_def t_E2 pval_def
      t_sf_def)








text \<open>The input \<open>x = [1, 1, 1]\<close>.\<close>

lemma b64_E4a:
  "binary64 1 = Fin 1"
  "binary64 2 = Fin 2"
  "binary64 3 = Fin 3"
proof -
  show "binary64 1 = Fin 1"
    by (rule binary64_eq[where k = "- 52" and m = "4503599627370496"]) (simp_all add: pow2_def)
  show "binary64 2 = Fin 2"
    by (rule binary64_eq[where k = "- 51" and m = "4503599627370496"]) (simp_all add: pow2_def)
  show "binary64 3 = Fin 3"
    by (rule binary64_eq[where k = "- 51" and m = "6755399441055744"]) (simp_all add: pow2_def)
qed

lemma mat1_E4a:
  "mat1 binary64 [1, 1, 1] = [[Fin 3, Fin 3], [Fin 3, Fin 3]]"
  by (simp add: mat1_def Let_def transpose_m_def matmul_def upt_2 column_def
      add_constant_def dot_def np_sum_def binary64_zero b64_E4a)

lemma zero_pivot_E4a: "zero_pivot binary64 (mat1 binary64 [1, 1, 1])"
  by (simp add: mat1_E4a zero_pivot_def lu_singular_def np_sub_def binary64_zero b64_E4a)

text \<open>The input \<open>x = [2, 2, 2]\<close>.\<close>

lemma b64_E4b:
  "binary64 4 = Fin 4"
  "binary64 8 = Fin 8"
  "binary64 12 = Fin 12"
  "binary64 2 = Fin 2"
  "binary64 6 = Fin 6"
  "binary64 1 = Fin 1"
  "binary64 3 = Fin 3"
  "binary64 (1 / 2) = Fin (1 / 2)"
proof -
  show "binary64 4 = Fin 4"
    by (rule binary64_eq[where k = "- 50" and m = "4503599627370496"]) (simp_all add: pow2_def)
  show "binary64 8 = Fin 8"
    by (rule binary64_eq[where k = "- 49" and m = "4503599627370496"]) (simp_all add: pow2_def)
  show "binary64 12 = Fin 12"
    by (rule binary64_eq[where k = "- 49" and m = "6755399441055744"]) (simp_all add: pow2_def)
  show "binary64 2 = Fin 2"
    by (rule binary64_eq[where k = "- 51" and m = "4503599627370496"]) (simp_all add: pow2_def)
  show "binary64 6 = Fin 6"
    by (rule binary64_eq[where k = "- 50" and m = "6755399441055744"]) (simp_all add: pow2_def)
  show "binary64 1 = Fin 1"
    by (rule binary64_eq[where k = "- 52" and m = "4503599627370496"]) (simp_all add: pow2_def)
  show "binary64 3 = Fin 3"
    by (rule binary64_eq[where k = "- 51" and m = "6755399441055744"]) (simp_all add: pow2_def)
  show "binary64 (1 / 2) = Fin (1 / 2)"
    by (rule binary64_eq[where k = "- 53" and m = "4503599627370496"]) (simp_all add: pow2_def)
qed

lemma mat1_E4b:
  "mat1 binary64 [2, 2, 2] = [[Fin 12, Fin 6], [Fin 6, Fin 3]]"
  by (simp add: mat1_def Let_def transpose_m_def matmul_def upt_2 column_def
      add_constant_def dot_def np_sum_def binary64_zero b64_E4b)

lemma zero_pivot_E4b: "zero_pivot binary64 (mat1 binary64 [2, 2, 2])"
  by (simp add: mat1_E4b zero_pivot_def lu_singular_def np_sub_def binary64_zero b64_E4b)

text \<open>The input \<open>x = [0, 1]\<close>.\<close>

lemma b64_E4c:
  "binary64 1 = Fin 1"
  "binary64 2 = Fin 2"
proof -
  show "binary64 1 = Fin 1"
    by (rule binary64_eq[where k = "- 52" and m = "4503599627370496"]) (simp_all add: pow2_def)
  show "binary64 2 = Fin 2"
    by (rule binary64_eq[where k = "- 51" and m = "4503599627370496"]) (simp_all add: pow2_def)
qed

lemma mat1_E4c:
  "mat1 binary64 [0, 1] = [[Fin 1, Fin 1], [Fin 1, Fin 2]]"
  by (simp add: mat1_def Let_def transpose_m_def matmul_def upt_2 column_def
      add_constant_def dot_def np_sum_def binary64_zero b64_E4c)

lemma zero_pivot_E4c: "\<not> zero_pivot binary64 (mat1 binary64 [0, 1])"
  by (simp add: mat1_E4c zero_pivot_def lu_singular_def np_sub_def binary64_zero b64_E4c)

text \<open>The input \<open>x = [-1, 0, 1]\<close> with the column \<open>[3, 3, 3]\<close>.\<close>

lemma b64_E5:
  "binary64 1 = Fin 1"
  "binary64 2 = Fin 2"
  "binary64 (- 1) = Fin (- 1)"
  "binary64 3 = Fin 3"
  "binary64 (- 3) = Fin (- 3)"
  "binary64 6 = Fin 6"
  "binary64 9 = Fin 9"
  "binary64 (1 / 100000000000000000000) = Fin (6646139978924579 / 664613997892457936451903530140172288)"
  "binary64 (sqrt 2) = Fin (6369051672525773 / 4503599627370496)"
proof -
  show "binary64 1 = Fin 1"
    by (rule binary64_eq[where k = "- 52" and m = "4503599627370496"]) (simp_all add: pow2_def)
  show "binary64 2 = Fin 2"
    by (rule binary64_eq[where k = "- 51" and m = "4503599627370496"]) (simp_all add: pow2_def)
  show "binary64 (- 1) = Fin (- 1)"
    by (rule binary64_eq[where k = "- 52" and m = "- 4503599627370496"]) (simp_all add: pow2_def)
  show "binary64 3 = Fin 3"
    by (rule binary64_eq[where k = "- 51" and m = "6755399441055744"]) (simp_all add: pow2_def)
  show "binary64 (- 3) = Fin (- 3)"
    by (rule binary64_eq[where k = "- 51" and m = "- 6755399441055744"]) (simp_all add: pow2_def)
  show "binary64 6 = Fin 6"
    by (rule binary64_eq[where k = "- 50" and m = "6755399441055744"]) (simp_all add: pow2_def)
  show "binary64 9 = Fin 9"
    by (rule binary64_eq[where k = "- 49" and m = "5066549580791808"]) (simp_all add: pow2_def)
  show "binary64 (1 / 100000000000000000000) = Fin (6646139978924579 / 664613997892457936451903530140172288)"
    by (rule binary64_eq[where k = "- 119" and m = "6646139978924579"]) (simp_all add: pow2_def)
  show "binary64 (sqrt 2) = Fin (6369051672525773 / 4503599627370496)"
    by (rule binary64_sqrt_eq[where k = "- 52" and m = "6369051672525773"]) (simp_all add: pow2_def power2_eq_square)
qed

lemma mat1_E5:
  "mat1 binary64 [- 1, 0, 1] = [[Fin 2, Fin 0], [Fin 0, Fin 3]]"
  by (simp add: mat1_def Let_def transpose_m_def matmul_def upt_2 column_def
      add_constant_def dot_def np_sum_def binary64_zero b64_E5)

lemma zero_pivot_E5: "\<not> zero_pivot binary64 (mat1 binary64 [- 1, 0, 1])"
  by (simp add: mat1_E5 zero_pivot_def lu_singular_def np_sub_def binary64_zero b64_E5)

lemma rhs_E5:
  "rhs binary64 [- 1, 0, 1] [3, 3, 3] = [Fin 0, Fin 9]"
  by (simp add: rhs_def dot_def np_sum_def binary64_zero b64_E5)

lemma slope_E5:
  "fit_slope binary64 [- 1, 0, 1] [3, 3, 3] = Fin 0"
  by (simp add: fit_slope_def mat1_E5 rhs_E5 gesv_x1_def lu_x1_def lu_x2_def np_sub_def
      binary64_zero b64_E5)

lemma intercept_E5:
  "fit_intercept binary64 [- 1, 0, 1] [3, 3, 3] = Fin 3"
  by (simp add: fit_intercept_def mat1_E5 rhs_E5 gesv_x2_def lu_x2_def np_sub_def
      binary64_zero b64_E5)

lemma xm_x_E5:
  "xm binary64 [- 1, 0, 1] = [Fin (- 1), Fin 0, Fin 1]"
  by (simp add: xm_def Let_def mean_def np_sum_def np_sub_def binary64_zero b64_E5)

lemma xm_c_E5:
  "xm binary64 [3, 3, 3] = [Fin 0, Fin 0, Fin 0]"
  by (simp add: xm_def Let_def mean_def np_sum_def np_sub_def binary64_zero b64_E5)

lemma r_E5:
  "fit_r binary64 [- 1, 0, 1] [3, 3, 3] = NaN"
  by (simp add: fit_r_def xm_x_E5 xm_c_E5 dot_def ss_def np_sum_def signed_inf_def
      binary64_zero b64_E5)

lemma t_E5:
  "fit_t binary64 [- 1, 0, 1] [3, 3, 3] = NaN"
  by (simp add: fit_t_def r_E5 tval_def TINY_def np_sub_def signed_inf_def binary64_zero b64_E5)

lemma stderr_E5:
  "fit_stderr binary64 [- 1, 0, 1] [3, 3, 3] = Fin 0"
  by (simp add: fit_stderr_def fit_se_def slope_E5 xm_x_E5 xm_c_E5 ss_def np_sum_def
      np_sub_def signed_inf_def binary64_zero b64_E5)

lemma fit_E5:
  "fit binary64 sf [- 1, 0, 1]
     \<lparr>shape1 = 1, data = [[3], [3], [3]]\<rparr> =
   Inr [[Fin 0], [Fin 3],
        [NaN], [NaN],
        [Fin 0]]"
  using fit_single_column[of "[3, 3, 3]" "[- 1, 0, 1]" binary64 sf]
  by (simp add: zero_pivot_E5 slope_E5 intercept_E5 r_E5 stderr_E5 fit_p_def t_E5 pval_def
      t_sf_def)

text \<open>The input \<open>x = [3602879701896397 / 36028797018963968]\<close> with the column \<open>[1]\<close>.\<close>

lemma b64_E6:
  "binary64 (12980742146337070512478121581609 / 1298074214633706907132624082305024) = Fin (1441151880758559 / 144115188075855872)"
  "binary64 (1441151880758559 / 144115188075855872) = Fin (1441151880758559 / 144115188075855872)"
  "binary64 (3602879701896397 / 36028797018963968) = Fin (3602879701896397 / 36028797018963968)"
  "binary64 1 = Fin 1"
  "binary64 (1441151880758559 / 14411518807585588) = Fin (7205759403792795 / 72057594037927936)"
  "binary64 (7205759403792795 / 72057594037927936) = Fin (7205759403792795 / 72057594037927936)"
  "binary64 (- (1 / 72057594037927936)) = Fin (- (1 / 72057594037927936))"
  "binary64 (1 / 100000000000000000000) = Fin (6646139978924579 / 664613997892457936451903530140172288)"
  "binary64 (- 1) = Fin (- 1)"
proof -
  show "binary64 (12980742146337070512478121581609 / 1298074214633706907132624082305024) = Fin (1441151880758559 / 144115188075855872)"
    by (rule binary64_eq[where k = "- 59" and m = "5764607523034236"]) (simp_all add: pow2_def)
  show "binary64 (1441151880758559 / 144115188075855872) = Fin (1441151880758559 / 144115188075855872)"
    by (rule binary64_eq[where k = "- 59" and m = "5764607523034236"]) (simp_all add: pow2_def)
  show "binary64 (3602879701896397 / 36028797018963968) = Fin (3602879701896397 / 36028797018963968)"
    by (rule binary64_eq[where k = "- 56" and m = "7205759403792794"]) (simp_all add: pow2_def)
  show "binary64 1 = Fin 1"
    by (rule binary64_eq[where k = "- 52" and m = "4503599627370496"]) (simp_all add: pow2_def)
  show "binary64 (1441151880758559 / 14411518807585588) = Fin (7205759403792795 / 72057594037927936)"
    by (rule binary64_eq[where k = "- 56" and m = "7205759403792795"]) (simp_all add: pow2_def)
  show "binary64 (7205759403792795 / 72057594037927936) = Fin (7205759403792795 / 72057594037927936)"
    by (rule binary64_eq[where k = "- 56" and m = "7205759403792795"]) (simp_all add: pow2_def)
  show "binary64 (- (1 / 72057594037927936)) = Fin (- (1 / 72057594037927936))"
    by (rule binary64_eq[where k = "- 108" and m = "- 4503599627370496"]) (simp_all add: pow2_def)
  show "binary64 (1 / 100000000000000000000) = Fin (6646139978924579 / 664613997892457936451903530140172288)"
    by (rule binary64_eq[where k = "- 119" and m = "6646139978924579"]) (simp_all add: pow2_def)
  show "binary64 (- 1) = Fin (- 1)"
    by (rule binary64_eq[where k = "- 52" and m = "- 4503599627370496"]) (simp_all add: pow2_def)
qed

lemma mat1_E6:
  "mat1 binary64 [3602879701896397 / 36028797018963968] = [[Fin (1441151880758559 / 144115188075855872), Fin (3602879701896397 / 36028797018963968)], [Fin (3602879701896397 / 36028797018963968), Fin 1]]"
  by (simp add: mat1_def Let_def transpose_m_def matmul_def upt_2 column_def
      add_constant_def dot_def np_sum_def binary64_zero b64_E6)

lemma zero_pivot_E6: "\<not> zero_pivot binary64 (mat1 binary64 [3602879701896397 / 36028797018963968])"
  by (simp add: mat1_E6 zero_pivot_def lu_singular_def np_sub_def binary64_zero b64_E6)

lemma rhs_E6:
  "rhs binary64 [3602879701896397 / 36028797018963968] [1] = [Fin (3602879701896397 / 36028797018963968), Fin 1]"
  by (simp add: rhs_def dot_def np_sum_def binary64_zero b64_E6)

lemma slope_E6:
  "fit_slope binary64 [3602879701896397 / 36028797018963968] [1] = Fin 0"
  by (simp add: fit_slope_def mat1_E6 rhs_E6 gesv_x1_def lu_x1_def lu_x2_def np_sub_def
      binary64_zero b64_E6)

lemma intercept_E6:
  "fit_intercept binary64 [3602879701896397 / 36028797018963968] [1] = Fin 1"
  by (simp add: fit_intercept_def mat1_E6 rhs_E6 gesv_x2_def lu_x2_def np_sub_def
      binary64_zero b64_E6)

lemma xm_x_E6:
  "xm binary64 [3602879701896397 / 36028797018963968] = [Fin 0]"
  by (simp add: xm_def Let_def mean_def np_sum_def np_sub_def binary64_zero b64_E6)

lemma xm_c_E6:
  "xm binary64 [1] = [Fin 0]"
  by (simp add: xm_def Let_def mean_def np_sum_def np_sub_def binary64_zero b64_E6)

lemma r_E6:
  "fit_r binary64 [3602879701896397 / 36028797018963968] [1] = NaN"
  by (simp add: fit_r_def xm_x_E6 xm_c_E6 dot_def ss_def np_sum_def signed_inf_def
      binary64_zero b64_E6)

lemma t_E6:
  "fit_t binary64 [3602879701896397 / 36028797018963968] [1] = NaN"
  by (simp add: fit_t_def r_E6 tval_def TINY_def np_sub_def signed_inf_def binary64_zero b64_E6)

lemma stderr_E6:
  "fit_stderr binary64 [3602879701896397 / 36028797018963968] [1] = NaN"
  by (simp add: fit_stderr_def fit_se_def slope_E6 xm_x_E6 xm_c_E6 ss_def np_sum_def
      np_sub_def signed_inf_def binary64_zero b64_E6)

lemma fit_E6:
  "fit binary64 sf [3602879701896397 / 36028797018963968]
     \<lparr>shape1 = 1, data = [[1]]\<rparr> =
   Inr [[Fin 0], [Fin 1],
        [NaN], [NaN],
        [NaN]]"
  using fit_single_column[of "[1]" "[3602879701896397 / 36028797018963968]" binary64 sf]
  by (simp add: zero_pivot_E6 slope_E6 intercept_E6 r_E6 stderr_E6 fit_p_def t_E6 pval_def
      t_sf_def)

text \<open>The input \<open>x = [1, 2, 3]\<close> with the column \<open>[3602879701896397 / 36028797018963968, 3602879701896397 / 36028797018963968, 3602879701896397 / 36028797018963968]\<close>.\<close>

lemma b64_E7:
  "binary64 1 = Fin 1"
  "binary64 4 = Fin 4"
  "binary64 9 = Fin 9"
  "binary64 5 = Fin 5"
  "binary64 14 = Fin 14"
  "binary64 2 = Fin 2"
  "binary64 3 = Fin 3"
  "binary64 6 = Fin 6"
  "binary64 (3 / 7) = Fin (7720456504063707 / 18014398509481984)"
  "binary64 (23161369512191121 / 9007199254740992) = Fin (1447585594511945 / 562949953421312)"
  "binary64 (241264265751991 / 562949953421312) = Fin (241264265751991 / 562949953421312)"
  "binary64 (- 1) = Fin (- 1)"
  "binary64 (3602879701896397 / 36028797018963968) = Fin (3602879701896397 / 36028797018963968)"
  "binary64 (3602879701896397 / 18014398509481984) = Fin (3602879701896397 / 18014398509481984)"
  "binary64 (10808639105689191 / 36028797018963968) = Fin (1351079888211149 / 4503599627370496)"
  "binary64 (1351079888211149 / 13510798882111488) = Fin (7205759403792795 / 72057594037927936)"
  "binary64 (- (1 / 72057594037927936)) = Fin (- (1 / 72057594037927936))"
  "binary64 (1 / 72057594037927936) = Fin (1 / 72057594037927936)"
  "binary64 (1 / 5192296858534827628530496329220096) = Fin (1 / 5192296858534827628530496329220096)"
  "binary64 (1 / 2596148429267413814265248164610048) = Fin (1 / 2596148429267413814265248164610048)"
  "binary64 (3 / 5192296858534827628530496329220096) = Fin (3 / 5192296858534827628530496329220096)"
  "binary64 (3 / 2596148429267413814265248164610048) = Fin (3 / 2596148429267413814265248164610048)"
  "binary64 (sqrt (3 / 2596148429267413814265248164610048)) = Fin (2757880273211543 / 81129638414606681695789005144064)"
  "binary64 (1 / 100000000000000000000) = Fin (6646139978924579 / 664613997892457936451903530140172288)"
  "binary64 (664613997892457936458549670119096867 / 664613997892457936451903530140172288) = Fin 1"
proof -
  show "binary64 1 = Fin 1"
    by (rule binary64_eq[where k = "- 52" and m = "4503599627370496"]) (simp_all add: pow2_def)
  show "binary64 4 = Fin 4"
    by (rule binary64_eq[where k = "- 50" and m = "4503599627370496"]) (simp_all add: pow2_def)
  show "binary64 9 = Fin 9"
    by (rule binary64_eq[where k = "- 49" and m = "5066549580791808"]) (simp_all add: pow2_def)
  show "binary64 5 = Fin 5"
    by (rule binary64_eq[where k = "- 50" and m = "5629499534213120"]) (simp_all add: pow2_def)
  show "binary64 14 = Fin 14"
    by (rule binary64_eq[where k = "- 49" and m = "7881299347898368"]) (simp_all add: pow2_def)
  show "binary64 2 = Fin 2"
    by (rule binary64_eq[where k = "- 51" and m = "4503599627370496"]) (simp_all add: pow2_def)
  show "binary64 3 = Fin 3"
    by (rule binary64_eq[where k = "- 51" and m = "6755399441055744"]) (simp_all add: pow2_def)
  show "binary64 6 = Fin 6"
    by (rule binary64_eq[where k = "- 50" and m = "6755399441055744"]) (simp_all add: pow2_def)
  show "binary64 (3 / 7) = Fin (7720456504063707 / 18014398509481984)"
    by (rule binary64_eq[where k = "- 54" and m = "7720456504063707"]) (simp_all add: pow2_def)
  show "binary64 (23161369512191121 / 9007199254740992) = Fin (1447585594511945 / 562949953421312)"
    by (rule binary64_eq[where k = "- 51" and m = "5790342378047780"]) (simp_all add: pow2_def)
  show "binary64 (241264265751991 / 562949953421312) = Fin (241264265751991 / 562949953421312)"
    by (rule binary64_eq[where k = "- 54" and m = "7720456504063712"]) (simp_all add: pow2_def)
  show "binary64 (- 1) = Fin (- 1)"
    by (rule binary64_eq[where k = "- 52" and m = "- 4503599627370496"]) (simp_all add: pow2_def)
  show "binary64 (3602879701896397 / 36028797018963968) = Fin (3602879701896397 / 36028797018963968)"
    by (rule binary64_eq[where k = "- 56" and m = "7205759403792794"]) (simp_all add: pow2_def)
  show "binary64 (3602879701896397 / 18014398509481984) = Fin (3602879701896397 / 18014398509481984)"
    by (rule binary64_eq[where k = "- 55" and m = "7205759403792794"]) (simp_all add: pow2_def)
  show "binary64 (10808639105689191 / 36028797018963968) = Fin (1351079888211149 / 4503599627370496)"
    by (rule binary64_tie[where k = "- 54" and f = "5404319552844595"]) (simp_all add: pow2_def)
  show "binary64 (1351079888211149 / 13510798882111488) = Fin (7205759403792795 / 72057594037927936)"
    by (rule binary64_eq[where k = "- 56" and m = "7205759403792795"]) (simp_all add: pow2_def)
  show "binary64 (- (1 / 72057594037927936)) = Fin (- (1 / 72057594037927936))"
    by (rule binary64_eq[where k = "- 108" and m = "- 4503599627370496"]) (simp_all add: pow2_def)
  show "binary64 (1 / 72057594037927936) = Fin (1 / 72057594037927936)"
    by (rule binary64_eq[where k = "- 108" and m = "4503599627370496"]) (simp_all add: pow2_def)
  show "binary64 (1 / 5192296858534827628530496329220096) = Fin (1 / 5192296858534827628530496329220096)"
    by (rule binary64_eq[where k = "- 164" and m = "4503599627370496"]) (simp_all add: pow2_def)
  show "binary64 (1 / 2596148429267413814265248164610048) = Fin (1 / 2596148429267413814265248164610048)"
    by (rule binary64_eq[where k = "- 163" and m = "4503599627370496"]) (simp_all add: pow2_def)
  show "binary64 (3 / 5192296858534827628530496329220096) = Fin (3 / 5192296858534827628530496329220096)"
    by (rule binary64_eq[where k = "- 163" and m = "6755399441055744"]) (simp_all add: pow2_def)
  show "binary64 (3 / 2596148429267413814265248164610048) = Fin (3 / 2596148429267413814265248164610048)"
    by (rule binary64_eq[where k = "- 162" and m = "6755399441055744"]) (simp_all add: pow2_def)
  show "binary64 (sqrt (3 / 2596148429267413814265248164610048)) = Fin (2757880273211543 / 81129638414606681695789005144064)"
    by (rule binary64_sqrt_eq[where k = "- 107" and m = "5515760546423086"]) (simp_all add: pow2_def power2_eq_square)
  show "binary64 (1 / 100000000000000000000) = Fin (6646139978924579 / 664613997892457936451903530140172288)"
    by (rule binary64_eq[where k = "- 119" and m = "6646139978924579"]) (simp_all add: pow2_def)
  show "binary64 (664613997892457936458549670119096867 / 664613997892457936451903530140172288) = Fin 1"
    by (rule binary64_eq[where k = "- 52" and m = "4503599627370496"]) (simp_all add: pow2_def)
qed

lemma mat1_E7:
  "mat1 binary64 [1, 2, 3] = [[Fin 14, Fin 6], [Fin 6, Fin 3]]"
  by (simp add: mat1_def Let_def transpose_m_def matmul_def upt_2 column_def
      add_constant_def dot_def np_sum_def binary64_zero b64_E7)

lemma zero_pivot_E7: "\<not> zero_pivot binary64 (mat1 binary64 [1, 2, 3])"
  by (simp add: mat1_E7 zero_pivot_def lu_singular_def np_sub_def binary64_zero b64_E7)

lemma xm_x_E7:
  "xm binary64 [1, 2, 3] = [Fin (- 1), Fin 0, Fin 1]"
  by (simp add: xm_def Let_def mean_def np_sum_def np_sub_def binary64_zero b64_E7)

lemma xm_c_E7:
  "xm binary64 [3602879701896397 / 36028797018963968, 3602879701896397 / 36028797018963968, 3602879701896397 / 36028797018963968] = [Fin (- (1 / 72057594037927936)), Fin (- (1 / 72057594037927936)), Fin (- (1 / 72057594037927936))]"
  by (simp add: xm_def Let_def mean_def np_sum_def np_sub_def binary64_zero b64_E7)

lemma r_E7:
  "fit_r binary64 [1, 2, 3] [3602879701896397 / 36028797018963968, 3602879701896397 / 36028797018963968, 3602879701896397 / 36028797018963968] = Fin 0"
  by (simp add: fit_r_def xm_x_E7 xm_c_E7 dot_def ss_def np_sum_def signed_inf_def
      binary64_zero b64_E7)

lemma t_E7:
  "fit_t binary64 [1, 2, 3] [3602879701896397 / 36028797018963968, 3602879701896397 / 36028797018963968, 3602879701896397 / 36028797018963968] = Fin 0"
  by (simp add: fit_t_def r_E7 tval_def TINY_def np_sub_def signed_inf_def binary64_zero b64_E7)

lemma fit_r_row_E7:
  "map_sum id (\<lambda>out. out ! 2) (fit binary64 sf [1, 2, 3]
     \<lparr>shape1 = 1, data = [[3602879701896397 / 36028797018963968], [3602879701896397 / 36028797018963968], [3602879701896397 / 36028797018963968]]\<rparr>) =
   Inr [Fin 0]"
  using fit_single_column[of "[3602879701896397 / 36028797018963968, 3602879701896397 / 36028797018963968, 3602879701896397 / 36028797018963968]" "[1, 2, 3]" binary64 sf]
  by (simp add: zero_pivot_E7 r_E7)

text \<open>The input \<open>x = [3602879701896397 / 36028797018963968, 3602879701896397 / 36028797018963968]\<close>.\<close>

lemma b64_E8:
  "binary64 (12980742146337070512478121581609 / 1298074214633706907132624082305024) = Fin (1441151880758559 / 144115188075855872)"
  "binary64 (1441151880758559 / 144115188075855872) = Fin (1441151880758559 / 144115188075855872)"
  "binary64 (1441151880758559 / 72057594037927936) = Fin (1441151880758559 / 72057594037927936)"
  "binary64 (3602879701896397 / 36028797018963968) = Fin (3602879701896397 / 36028797018963968)"
  "binary64 (3602879701896397 / 18014398509481984) = Fin (3602879701896397 / 18014398509481984)"
  "binary64 1 = Fin 1"
  "binary64 2 = Fin 2"
  "binary64 (1441151880758559 / 14411518807585588) = Fin (7205759403792795 / 72057594037927936)"
  "binary64 (7205759403792795 / 36028797018963968) = Fin (7205759403792795 / 36028797018963968)"
  "binary64 (- (1 / 36028797018963968)) = Fin (- (1 / 36028797018963968))"
proof -
  show "binary64 (12980742146337070512478121581609 / 1298074214633706907132624082305024) = Fin (1441151880758559 / 144115188075855872)"
    by (rule binary64_eq[where k = "- 59" and m = "5764607523034236"]) (simp_all add: pow2_def)
  show "binary64 (1441151880758559 / 144115188075855872) = Fin (1441151880758559 / 144115188075855872)"
    by (rule binary64_eq[where k = "- 59" and m = "5764607523034236"]) (simp_all add: pow2_def)
  show "binary64 (1441151880758559 / 72057594037927936) = Fin (1441151880758559 / 72057594037927936)"
    by (rule binary64_eq[where k = "- 58" and m = "5764607523034236"]) (simp_all add: pow2_def)
  show "binary64 (3602879701896397 / 36028797018963968) = Fin (3602879701896397 / 36028797018963968)"
    by (rule binary64_eq[where k = "- 56" and m = "7205759403792794"]) (simp_all add: pow2_def)
  show "binary64 (3602879701896397 / 18014398509481984) = Fin (3602879701896397 / 18014398509481984)"
    by (rule binary64_eq[where k = "- 55" and m = "7205759403792794"]) (simp_all add: pow2_def)
  show "binary64 1 = Fin 1"
    by (rule binary64_eq[where k = "- 52" and m = "4503599627370496"]) (simp_all add: pow2_def)
  show "binary64 2 = Fin 2"
    by (rule binary64_eq[where k = "- 51" and m = "4503599627370496"]) (simp_all add: pow2_def)
  show "binary64 (1441151880758559 / 14411518807585588) = Fin (7205759403792795 / 72057594037927936)"
    by (rule binary64_eq[where k = "- 56" and m = "7205759403792795"]) (simp_all add: pow2_def)
  show "binary64 (7205759403792795 / 36028797018963968) = Fin (7205759403792795 / 36028797018963968)"
    by (rule binary64_eq[where k = "- 55" and m = "7205759403792795"]) (simp_all add: pow2_def)
  show "binary64 (- (1 / 36028797018963968)) = Fin (- (1 / 36028797018963968))"
    by (rule binary64_eq[where k = "- 107" and m = "- 4503599627370496"]) (simp_all add: pow2_def)
qed

lemma mat1_E8:
  "mat1 binary64 [3602879701896397 / 36028797018963968, 3602879701896397 / 36028797018963968] = [[Fin (1441151880758559 / 72057594037927936), Fin (3602879701896397 / 18014398509481984)], [Fin (3602879701896397 / 18014398509481984), Fin 2]]"
  by (simp add: mat1_def Let_def transpose_m_def matmul_def upt_2 column_def
      add_constant_def dot_def np_sum_def binary64_zero b64_E8)

lemma zero_pivot_E8: "\<not> zero_pivot binary64 (mat1 binary64 [3602879701896397 / 36028797018963968, 3602879701896397 / 36028797018963968])"
  by (simp add: mat1_E8 zero_pivot_def lu_singular_def np_sub_def binary64_zero b64_E8)













text \<open>The input \<open>x = [134217727, 134217728, 134217729]\<close>.\<close>

lemma b64_E10:
  "binary64 18014398241046529 = Fin 18014398241046528"
  "binary64 18014398509481984 = Fin 18014398509481984"
  "binary64 18014398777917441 = Fin 18014398777917440"
  "binary64 18014398241046528 = Fin 18014398241046528"
  "binary64 36028796750528512 = Fin 36028796750528512"
  "binary64 54043195528445952 = Fin 54043195528445952"
  "binary64 134217727 = Fin 134217727"
  "binary64 134217728 = Fin 134217728"
  "binary64 134217729 = Fin 134217729"
  "binary64 268435455 = Fin 268435455"
  "binary64 402653184 = Fin 402653184"
  "binary64 1 = Fin 1"
  "binary64 2 = Fin 2"
  "binary64 3 = Fin 3"
  "binary64 (1 / 134217728) = Fin (1 / 134217728)"
proof -
  show "binary64 18014398241046529 = Fin 18014398241046528"
    by (rule binary64_tie[where k = "1" and f = "9007199120523264"]) (simp_all add: pow2_def)
  show "binary64 18014398509481984 = Fin 18014398509481984"
    by (rule binary64_eq[where k = "2" and m = "4503599627370496"]) (simp_all add: pow2_def)
  show "binary64 18014398777917441 = Fin 18014398777917440"
    by (rule binary64_eq[where k = "2" and m = "4503599694479360"]) (simp_all add: pow2_def)
  show "binary64 18014398241046528 = Fin 18014398241046528"
    by (rule binary64_eq[where k = "1" and m = "9007199120523264"]) (simp_all add: pow2_def)
  show "binary64 36028796750528512 = Fin 36028796750528512"
    by (rule binary64_eq[where k = "2" and m = "9007199187632128"]) (simp_all add: pow2_def)
  show "binary64 54043195528445952 = Fin 54043195528445952"
    by (rule binary64_eq[where k = "3" and m = "6755399441055744"]) (simp_all add: pow2_def)
  show "binary64 134217727 = Fin 134217727"
    by (rule binary64_eq[where k = "- 26" and m = "9007199187632128"]) (simp_all add: pow2_def)
  show "binary64 134217728 = Fin 134217728"
    by (rule binary64_eq[where k = "- 25" and m = "4503599627370496"]) (simp_all add: pow2_def)
  show "binary64 134217729 = Fin 134217729"
    by (rule binary64_eq[where k = "- 25" and m = "4503599660924928"]) (simp_all add: pow2_def)
  show "binary64 268435455 = Fin 268435455"
    by (rule binary64_eq[where k = "- 25" and m = "9007199221186560"]) (simp_all add: pow2_def)
  show "binary64 402653184 = Fin 402653184"
    by (rule binary64_eq[where k = "- 24" and m = "6755399441055744"]) (simp_all add: pow2_def)
  show "binary64 1 = Fin 1"
    by (rule binary64_eq[where k = "- 52" and m = "4503599627370496"]) (simp_all add: pow2_def)
  show "binary64 2 = Fin 2"
    by (rule binary64_eq[where k = "- 51" and m = "4503599627370496"]) (simp_all add: pow2_def)
  show "binary64 3 = Fin 3"
    by (rule binary64_eq[where k = "- 51" and m = "6755399441055744"]) (simp_all add: pow2_def)
  show "binary64 (1 / 134217728) = Fin (1 / 134217728)"
    by (rule binary64_eq[where k = "- 79" and m = "4503599627370496"]) (simp_all add: pow2_def)
qed

lemma mat1_E10:
  "mat1 binary64 [134217727, 134217728, 134217729] = [[Fin 54043195528445952, Fin 402653184], [Fin 402653184, Fin 3]]"
  by (simp add: mat1_def Let_def transpose_m_def matmul_def upt_2 column_def
      add_constant_def dot_def np_sum_def binary64_zero b64_E10)

lemma zero_pivot_E10: "zero_pivot binary64 (mat1 binary64 [134217727, 134217728, 134217729])"
  by (simp add: mat1_E10 zero_pivot_def lu_singular_def np_sub_def binary64_zero b64_E10)

text \<open>
  A vector \<open>x\<close> of zero variance need not make the solve fail in binary64. The single
  point \<open>x = [0.1]\<close> gives a result with NaN entries, and the two points \<open>x = [0.1, 0.1]\<close>
  pass the solve and fail at the division by \<^verbatim>\<open>df\<close>.
\<close>

lemma zero_variance_binary64:
  "variance [3602879701896397 / 36028797018963968] = 0"
  "fit binary64 sf [3602879701896397 / 36028797018963968] \<lparr>shape1 = 1, data = [[1]]\<rparr>
     = Inr [[Fin 0], [Fin 1], [NaN], [NaN], [NaN]]"
  "variance [3602879701896397 / 36028797018963968, 3602879701896397 / 36028797018963968] = 0"
  "fit binary64 sf [3602879701896397 / 36028797018963968, 3602879701896397 / 36028797018963968]
     \<lparr>shape1 = 1, data = [[1], [2]]\<rparr> = Inl ZeroDivisionError"
proof -
  show "variance [3602879701896397 / 36028797018963968] = 0"
    by (simp add: variance_def centre_def average_def sumsq_def)
  show "fit binary64 sf [3602879701896397 / 36028797018963968] \<lparr>shape1 = 1, data = [[1]]\<rparr>
     = Inr [[Fin 0], [Fin 1], [NaN], [NaN], [NaN]]"
    by (rule fit_E6)
  show "variance [3602879701896397 / 36028797018963968, 3602879701896397 / 36028797018963968] = 0"
    by (simp add: variance_def centre_def average_def sumsq_def)
  show "fit binary64 sf [3602879701896397 / 36028797018963968, 3602879701896397 / 36028797018963968]
     \<lparr>shape1 = 1, data = [[1], [2]]\<rparr> = Inl ZeroDivisionError"
    using fit_single_column[of "[1, 2]"
        "[3602879701896397 / 36028797018963968, 3602879701896397 / 36028797018963968]" binary64 sf]
    by (simp add: zero_pivot_E8)
qed

text \<open>
  And a vector of non-zero variance can make it fail: the squares of
  \<open>x = [2\<^sup>2\<^sup>7 - 1, 2\<^sup>2\<^sup>7, 2\<^sup>2\<^sup>7 + 1]\<close> sum to \<open>3 * 2\<^sup>5\<^sup>4 + 2\<close>, which is rounded to \<open>3 * 2\<^sup>5\<^sup>4\<close>,
  and the matrix of the normal equations is singular in binary64.
\<close>

lemma nonzero_variance_binary64:
  "variance [134217727, 134217728, 134217729] \<noteq> 0"
  "fit binary64 sf [134217727, 134217728, 134217729] \<lparr>shape1 = 1, data = [[1], [2], [3]]\<rparr>
     = Inl LinAlgError"
proof -
  show "variance [134217727, 134217728, 134217729] \<noteq> 0"
    by (simp add: variance_def centre_def average_def sumsq_def)
  show "fit binary64 sf [134217727, 134217728, 134217729] \<lparr>shape1 = 1, data = [[1], [2], [3]]\<rparr>
     = Inl LinAlgError"
    using fit_single_column[of "[1, 2, 3]" "[134217727, 134217728, 134217729]" binary64 sf]
    by (simp add: zero_pivot_E10)
qed

section \<open>The claims\<close>

subsection \<open>Claim C1\<close>




subsection \<open>Claim C2\<close>

text \<open>
  Claim C2 as stated does not hold. It says that \<open>fit\<close> returns a \<open>5 \<times> m\<close> array for
  every \<open>x\<close> and \<open>Y\<close>. With three equal values of \<open>x\<close> the matrix of the normal equations
  is \<open>[[3, 3], [3, 3]]\<close> in binary64 as over the reals, the second pivot is exactly zero
  and the solve raises.
\<close>

theorem fit_shape_counterexample:
  "fit binary64 student_t_sf [1, 1, 1] \<lparr>shape1 = 1, data = [[1], [2], [3]]\<rparr> = Inl LinAlgError"
  using fit_single_column[of "[1, 2, 3]" "[1, 1, 1]" binary64 student_t_sf]
  by (simp add: zero_pivot_E4a)

text \<open>
  Claim C2, amended. Whenever \<open>fit\<close> returns, in binary64 as in any other arithmetic, the
  result has five rows of \<open>m\<close> entries: slope, intercept, Pearson's r, two-sided p-value
  and standard error of the slope. Entry \<open>j\<close> of each row is computed from \<open>x\<close> and column
  \<open>j\<close> of \<open>Y\<close> alone: column \<open>j\<close> of the result is the result of \<open>fit\<close> on that one column.
  It can raise instead of returning (claim C4); in exact arithmetic it returns for every
  \<open>x\<close> of length \<open>n \<ge> 3\<close> with non-zero variance, in binary64 not for all of them (lemma
  \<open>nonzero_variance_binary64\<close>).
\<close>

theorem fit_shape_and_rows:
  assumes "wf_ndarray Y" "shape0 Y = length x" "fit rnd sf x Y = Inr out"
  shows "length out = 5 \<and> (\<forall>row\<in>set out. length row = shape1 Y) \<and>
         (\<forall>j<shape1 Y.
            out ! 0 ! j = fit_slope rnd x (column j (data Y)) \<and>
            out ! 1 ! j = fit_intercept rnd x (column j (data Y)) \<and>
            out ! 2 ! j = fit_r rnd x (column j (data Y)) \<and>
            out ! 3 ! j = fit_p rnd sf x (column j (data Y)) \<and>
            out ! 4 ! j = fit_stderr rnd x (column j (data Y)) \<and>
            fit rnd sf x \<lparr>shape1 = 1, data = map (\<lambda>v. [v]) (column j (data Y))\<rparr>
              = Inr (map (\<lambda>row. [row ! j]) out)) \<and>
         (3 \<le> length x \<and> variance x \<noteq> 0 \<longrightarrow> (\<exists>res. fit exact sf x Y = Inr res))"
proof -
  have ret: "3 \<le> length x \<and> variance x \<noteq> 0 \<longrightarrow> (\<exists>res. fit exact sf x Y = Inr res)"
    using assms(1,2) by (simp add: fit_cols)
  have out: "out = [map (fit_slope rnd x) (columns_of Y),
                map (fit_intercept rnd x) (columns_of Y),
                map (fit_r rnd x) (columns_of Y),
                map (fit_p rnd sf x) (columns_of Y),
                map (fit_stderr rnd x) (columns_of Y)]"
    and nz: "shape1 Y \<noteq> 0 \<longrightarrow> \<not> zero_pivot rnd (mat1 rnd x)" and n2: "length x \<noteq> 2"
    using assms by (auto simp: fit_columns split: if_splits)
  have one: "fit rnd sf x \<lparr>shape1 = 1, data = map (\<lambda>v. [v]) (column j (data Y))\<rparr>
              = Inr (map (\<lambda>row. [row ! j]) out)" if "j < shape1 Y" for j
  proof -
    have len: "length (column j (data Y)) = length x" using assms(2) by (simp add: shape0_def)
    show ?thesis unfolding fit_single_column[OF len] using that nz n2
      by (simp add: out nth_columns_of)
  qed
  show ?thesis using ret one by (simp add: out nth_columns_of)
qed

text \<open>
  In binary64: the two constant columns \<open>[3, 3, 3]\<close> and \<open>[5, 5, 5]\<close> on \<open>x = [-1, 0, 1]\<close>,
  where every operation is exact.
\<close>

theorem fit_shape_and_rows_witness:
  "wf_ndarray \<lparr>shape1 = 1, data = [[3], [3], [3]]\<rparr> \<and>
   shape0 \<lparr>shape1 = 1, data = [[3], [3], [3]]\<rparr> = length [- 1, 0, 1 :: real] \<and>
   fit binary64 student_t_sf [- 1, 0, 1] \<lparr>shape1 = 1, data = [[3], [3], [3]]\<rparr>
     = Inr [[Fin 0], [Fin 3], [NaN], [NaN], [Fin 0]] \<and>
   length [[Fin 0], [Fin 3], [NaN], [NaN], [Fin 0]] = 5 \<and>
   fit_slope binary64 [- 1, 0, 1] [3, 3, 3] = Fin 0 \<and>
   fit_intercept binary64 [- 1, 0, 1] [3, 3, 3] = Fin 3 \<and>
   fit_r binary64 [- 1, 0, 1] [3, 3, 3] = NaN \<and>
   fit_p binary64 student_t_sf [- 1, 0, 1] [3, 3, 3] = NaN \<and>
   fit_stderr binary64 [- 1, 0, 1] [3, 3, 3] = Fin 0 \<and>
   3 \<le> length [- 1, 0, 1 :: real] \<and> variance [- 1, 0, 1] \<noteq> 0 \<and>
   (\<exists>res. fit exact student_t_sf [- 1, 0, 1] \<lparr>shape1 = 1, data = [[3], [3], [3]]\<rparr> = Inr res)"
proof -
  let ?Y = "\<lparr>shape1 = 1, data = [[3], [3], [3]]\<rparr>"
  let ?x = "[- 1, 0, 1 :: real]"
  let ?out = "[[Fin 0], [Fin 3], [NaN], [NaN], [Fin 0]]"
  have h1: "wf_ndarray ?Y" by (simp add: wf_ndarray_def)
  have h2: "shape0 ?Y = length ?x" by (simp add: shape0_def)
  have h3: "fit binary64 student_t_sf ?x ?Y = Inr ?out" by (rule fit_E5)
  have h4: "3 \<le> length ?x" by simp
  have h5: "variance ?x \<noteq> 0" by (simp add: variance_def centre_def average_def sumsq_def)
  note t = fit_shape_and_rows[OF h1 h2 h3]
  have z: "0 < shape1 ?Y" by simp
  have a: "\<forall>j<shape1 ?Y. ?out ! 0 ! j = fit_slope binary64 ?x (column j (data ?Y)) \<and>
        ?out ! 1 ! j = fit_intercept binary64 ?x (column j (data ?Y)) \<and>
        ?out ! 2 ! j = fit_r binary64 ?x (column j (data ?Y)) \<and>
        ?out ! 3 ! j = fit_p binary64 student_t_sf ?x (column j (data ?Y)) \<and>
        ?out ! 4 ! j = fit_stderr binary64 ?x (column j (data ?Y))"
    using t by blast
  have b: "?out ! 0 ! 0 = fit_slope binary64 ?x (column 0 (data ?Y))"
    "?out ! 1 ! 0 = fit_intercept binary64 ?x (column 0 (data ?Y))"
    "?out ! 2 ! 0 = fit_r binary64 ?x (column 0 (data ?Y))"
    "?out ! 3 ! 0 = fit_p binary64 student_t_sf ?x (column 0 (data ?Y))"
    "?out ! 4 ! 0 = fit_stderr binary64 ?x (column 0 (data ?Y))"
    using a z by blast+
  have v: "fit_slope binary64 ?x [3, 3, 3] = Fin 0" "fit_intercept binary64 ?x [3, 3, 3] = Fin 3"
    "fit_r binary64 ?x [3, 3, 3] = NaN" "fit_p binary64 student_t_sf ?x [3, 3, 3] = NaN"
    "fit_stderr binary64 ?x [3, 3, 3] = Fin 0"
    using b(1)[symmetric] b(2)[symmetric] b(3)[symmetric] b(4)[symmetric] b(5)[symmetric]
    by (simp_all add: column_def)
  have e: "\<exists>res. fit exact student_t_sf ?x ?Y = Inr res" using t h4 h5 by blast
  have l: "length ?out = 5" using t by blast
  from h1 h2 h3 h4 h5 v e l show ?thesis by blast
qed

subsection \<open>Claim C3\<close>




subsection \<open>Claim C4\<close>

text \<open>
  Claim C4 as stated does not hold. It says that a degenerate input (zero variance
  of \<open>x\<close>, or \<open>n < 3\<close>) gives NaN or infinite entries and no exception. With two points
  \<^verbatim>\<open>df\<close> is the Python integer 0 and \<^verbatim>\<open>1. / df\<close> raises; with \<open>x = [2, 2, 2]\<close> the second
  pivot is exactly zero, in binary64 as over the reals, and the solve raises.
\<close>

theorem fit_degenerate_counterexample:
  "fit binary64 student_t_sf [0, 1] \<lparr>shape1 = 1, data = [[0], [1]]\<rparr> = Inl ZeroDivisionError \<and>
   fit binary64 student_t_sf [2, 2, 2] \<lparr>shape1 = 1, data = [[1], [2], [4]]\<rparr> = Inl LinAlgError"
  using fit_single_column[of "[0, 1]" "[0, 1]" binary64 student_t_sf]
    fit_single_column[of "[1, 2, 4]" "[2, 2, 2]" binary64 student_t_sf]
  by (simp add: zero_pivot_E4b zero_pivot_E4c)

text \<open>
  Claim C4, amended. For an input with at least one column, in binary64 as in any other
  arithmetic: \<open>fit\<close> raises \<^verbatim>\<open>LinAlgError\<close> exactly when the factorisation of the matrix of
  the normal equations meets a pivot that is exactly zero; with \<open>n = 2\<close> it never returns,
  raising \<^verbatim>\<open>ZeroDivisionError\<close> at \<^verbatim>\<open>1. / df\<close> if the solve passed; in every other case it
  returns. In exact arithmetic a pivot is zero exactly when \<open>x\<close> has zero variance (which
  includes \<open>n \<le> 1\<close>). In binary64 a zero-variance \<open>x\<close> whose sums are rounded can pass
  the solve (lemma \<open>zero_variance_binary64\<close>), and an \<open>x\<close> of non-zero variance can fail it
  (lemma \<open>nonzero_variance_binary64\<close>).
\<close>

theorem fit_degenerate_raises:
  assumes "wf_ndarray Y" "shape0 Y = length x" "0 < shape1 Y"
  shows "(fit rnd sf x Y = Inl LinAlgError \<longleftrightarrow> zero_pivot rnd (mat1 rnd x)) \<and>
         (length x = 2 \<longrightarrow>
            fit rnd sf x Y = (if zero_pivot rnd (mat1 rnd x) then Inl LinAlgError
                              else Inl ZeroDivisionError)) \<and>
         (length x \<noteq> 2 \<and> \<not> zero_pivot rnd (mat1 rnd x) \<longrightarrow> (\<exists>out. fit rnd sf x Y = Inr out)) \<and>
         (zero_pivot exact (mat1 exact x) \<longleftrightarrow> variance x = 0)"
  using assms by (simp add: fit_columns zero_pivot_mat1_exact)

text \<open>One input for each case, in binary64.\<close>

theorem fit_degenerate_raises_witness:
  "wf_ndarray \<lparr>shape1 = 1, data = [[1], [2], [4]]\<rparr> \<and>
   shape0 \<lparr>shape1 = 1, data = [[1], [2], [4]]\<rparr> = length [2, 2, 2 :: real] \<and>
   (0 :: nat) < shape1 \<lparr>shape1 = 1, data = [[1], [2], [4 :: real]]\<rparr> \<and>
   zero_pivot binary64 (mat1 binary64 [2, 2, 2]) \<and> variance [2, 2, 2] = 0 \<and>
   zero_pivot exact (mat1 exact [2, 2, 2]) \<and>
   fit binary64 student_t_sf [2, 2, 2] \<lparr>shape1 = 1, data = [[1], [2], [4]]\<rparr> = Inl LinAlgError \<and>
   wf_ndarray \<lparr>shape1 = 1, data = [[0], [1]]\<rparr> \<and>
   shape0 \<lparr>shape1 = 1, data = [[0], [1]]\<rparr> = length [0, 1 :: real] \<and>
   length [0, 1 :: real] = 2 \<and>
   fit binary64 student_t_sf [0, 1] \<lparr>shape1 = 1, data = [[0], [1]]\<rparr> = Inl ZeroDivisionError \<and>
   wf_ndarray \<lparr>shape1 = 1, data = [[3], [3], [3]]\<rparr> \<and>
   shape0 \<lparr>shape1 = 1, data = [[3], [3], [3]]\<rparr> = length [- 1, 0, 1 :: real] \<and>
   length [- 1, 0, 1 :: real] \<noteq> 2 \<and> \<not> zero_pivot binary64 (mat1 binary64 [- 1, 0, 1]) \<and>
   (\<exists>out. fit binary64 student_t_sf [- 1, 0, 1] \<lparr>shape1 = 1, data = [[3], [3], [3]]\<rparr> = Inr out)"
proof -
  let ?Y = "\<lparr>shape1 = 1, data = [[1], [2], [4]]\<rparr>" and ?Z = "\<lparr>shape1 = 1, data = [[0], [1]]\<rparr>"
    and ?W = "\<lparr>shape1 = 1, data = [[3], [3], [3]]\<rparr>"
  have wY: "wf_ndarray ?Y" and wZ: "wf_ndarray ?Z" and wW: "wf_ndarray ?W"
    by (simp_all add: wf_ndarray_def)
  have sY: "shape0 ?Y = length [2, 2, 2 :: real]" and sZ: "shape0 ?Z = length [0, 1 :: real]"
    and sW: "shape0 ?W = length [- 1, 0, 1 :: real]"
    by (simp_all add: shape0_def)
  have mY: "0 < shape1 ?Y" and mZ: "0 < shape1 ?Z" and mW: "0 < shape1 ?W" by simp_all
  have v: "variance [2, 2, 2] = 0"
    by (simp add: variance_def centre_def average_def sumsq_def)
  have n: "length [0, 1 :: real] = 2" "length [- 1, 0, 1 :: real] \<noteq> 2" by simp_all
  note tY = fit_degenerate_raises[OF wY sY mY, of binary64 student_t_sf]
  note tZ = fit_degenerate_raises[OF wZ sZ mZ, of binary64 student_t_sf]
  note tW = fit_degenerate_raises[OF wW sW mW, of binary64 student_t_sf]
  have a: "fit binary64 student_t_sf [2, 2, 2] ?Y = Inl LinAlgError"
    using tY zero_pivot_E4b by blast
  have e: "zero_pivot exact (mat1 exact [2, 2, 2])" using tY v by blast
  have b: "fit binary64 student_t_sf [0, 1] ?Z = Inl ZeroDivisionError"
    using tZ n(1) zero_pivot_E4c by simp
  have c: "\<exists>out. fit binary64 student_t_sf [- 1, 0, 1] ?W = Inr out"
    using tW n(2) zero_pivot_E5 by blast
  from wY wZ wW sY sZ sW mY v n a e b c zero_pivot_E4b zero_pivot_E5 show ?thesis by blast
qed

subsection \<open>Claim C5\<close>

text \<open>
  Claim C5 as stated does not hold. It says that a constant column of \<open>Y\<close> gives NaN
  for r while t and p are defined. The NaN of r goes through the product and the
  square root of line 52 and through the survival function: t and p are NaN too. For
  \<open>x = [-1, 0, 1]\<close> and the column \<open>[3, 3, 3]\<close>, where every operation is exact in
  binary64, the program returns \<open>[[0], [3], [NaN], [NaN], [0]]\<close>. Nor is r always NaN on
  a constant column: the mean of \<open>[0.1, 0.1, 0.1]\<close> is rounded to a float above \<open>0.1\<close>, the
  centred column is not zero, and on \<open>x = [1, 2, 3]\<close> the program returns \<open>r = 0\<close>.
\<close>

theorem constant_column_counterexample:
  "variance [- 1, 0, 1] \<noteq> 0 \<and> variance [3, 3, 3] = 0 \<and>
   fit binary64 student_t_sf [- 1, 0, 1] \<lparr>shape1 = 1, data = [[3], [3], [3]]\<rparr>
     = Inr [[Fin 0], [Fin 3], [NaN], [NaN], [Fin 0]] \<and>
   fit_t binary64 [- 1, 0, 1] [3, 3, 3] = NaN \<and>
   variance [1, 2, 3] \<noteq> 0 \<and>
   variance [3602879701896397 / 36028797018963968, 3602879701896397 / 36028797018963968,
             3602879701896397 / 36028797018963968] = 0 \<and>
   map_sum id (\<lambda>out. out ! 2)
     (fit binary64 student_t_sf [1, 2, 3]
        \<lparr>shape1 = 1, data = [[3602879701896397 / 36028797018963968],
                              [3602879701896397 / 36028797018963968],
                              [3602879701896397 / 36028797018963968]]\<rparr>) = Inr [Fin 0]"
proof -
  have v: "variance [- 1, 0, 1] \<noteq> 0" "variance [3, 3, 3] = 0" "variance [1, 2, 3] \<noteq> 0"
    "variance [3602879701896397 / 36028797018963968, 3602879701896397 / 36028797018963968,
               3602879701896397 / 36028797018963968] = 0"
    by (simp_all add: variance_def centre_def average_def sumsq_def)
  show ?thesis using v fit_E5[of student_t_sf] t_E5 fit_r_row_E7[of student_t_sf] by blast
qed

text \<open>
  Claim C5, amended. The small number is an argument of the t statistic only (\<open>tval\<close>);
  the division of \<open>pearson_r\<close> has no guard. Whenever \<open>fit\<close> returns NaN for \<open>r\<^sub>j\<close>, in
  binary64 as in any other arithmetic, the NaN propagates: \<open>t\<^sub>j\<close> and \<open>p\<^sub>j\<close> are NaN as
  well. It returns NaN for \<open>r\<^sub>j\<close> on a constant column whose mean is computed without
  rounding error. In exact arithmetic that is every column of zero variance: for \<open>x\<close> of
  non-zero variance and \<open>n \<ge> 3\<close> the result has slope 0, NaN for r and p, and standard
  error 0. In binary64 a constant column whose mean is rounded has a finite r.
\<close>

theorem constant_column_nan:
  assumes "wf_ndarray Y" "shape0 Y = length x" "j < shape1 Y" "fit rnd sf x Y = Inr out"
  shows "(out ! 2 ! j = NaN \<longrightarrow>
            tval rnd (TINY rnd) (int (length x) - 2) (out ! 2 ! j) = NaN \<and> out ! 3 ! j = NaN) \<and>
         (rnd 0 = Fin 0 \<and> (\<forall>v\<in>set (column j (data Y)). v = a) \<and>
          mean rnd (map Fin (column j (data Y))) = Fin a \<longrightarrow>
            out ! 2 ! j = NaN \<and> out ! 3 ! j = NaN) \<and>
         (3 \<le> length x \<and> variance x \<noteq> 0 \<and> variance (column j (data Y)) = 0 \<longrightarrow>
            (\<exists>res. fit exact sf x Y = Inr res \<and> res ! 0 ! j = Fin 0 \<and> res ! 2 ! j = NaN \<and>
                   res ! 3 ! j = NaN \<and> res ! 4 ! j = Fin 0))"
proof -
  let ?y = "column j (data Y)"
  have out: "out = [map (fit_slope rnd x) (columns_of Y),
                map (fit_intercept rnd x) (columns_of Y),
                map (fit_r rnd x) (columns_of Y),
                map (fit_p rnd sf x) (columns_of Y),
                map (fit_stderr rnd x) (columns_of Y)]"
    using assms by (auto simp: fit_columns split: if_splits)
  have r: "out ! 2 ! j = fit_r rnd x ?y" and p: "out ! 3 ! j = fit_p rnd sf x ?y"
    using assms(3) by (simp_all add: out nth_columns_of)
  have 1: "tval rnd (TINY rnd) (int (length x) - 2) (out ! 2 ! j) = NaN \<and> out ! 3 ! j = NaN"
    if "out ! 2 ! j = NaN"
    using that fit_p_nan[of rnd x ?y sf] by (simp add: r p tval_nan)
  have 2: "out ! 2 ! j = NaN \<and> out ! 3 ! j = NaN"
    if "rnd 0 = Fin 0 \<and> (\<forall>v\<in>set ?y. v = a) \<and> mean rnd (map Fin ?y) = Fin a"
  proof -
    have "\<forall>v\<in>set (xm rnd ?y). v = Fin 0"
      using that by (intro xm_constant[where a = a]) simp_all
    then have "fit_r rnd x ?y = NaN"
      using that by (intro fit_r_zero_column) simp_all
    then show ?thesis using fit_p_nan[of rnd x ?y sf] by (simp add: r p)
  qed
  have 3: "\<exists>res. fit exact sf x Y = Inr res \<and> res ! 0 ! j = Fin 0 \<and> res ! 2 ! j = NaN \<and>
                   res ! 3 ! j = NaN \<and> res ! 4 ! j = Fin 0"
    if h: "3 \<le> length x \<and> variance x \<noteq> 0 \<and> variance ?y = 0"
  proof -
    have len: "length ?y = length x" using assms(2) by (simp add: shape0_def)
    have "0 < length ?y" using len h by linarith
    then have "?y \<noteq> []" by (auto simp: column_def)
    then have ssy: "sumsq (centre ?y) = 0" using h by (auto simp: variance_def column_def)
    have ssx: "0 < sumsq (centre x)" using h by (simp add: variance_nonzero)
    have cr: "col_pearson x ?y = NaN" by (rule col_pearson_nan[OF len ssy])
    have cp: "col_pval sf x ?y = NaN" by (simp add: col_pval_def col_tval_def cr tval_nan pval_nan)
    note st = constant_column_stats[OF len ssy ssx]
    show ?thesis
      using assms(1-3) h cr cp st by (simp add: fit_cols nth_columns_of)
  qed
  from 1 2 3 show ?thesis by blast
qed

text \<open>In binary64: the column \<open>[3, 3, 3]\<close> on \<open>x = [-1, 0, 1]\<close>.\<close>

theorem constant_column_nan_witness:
  "wf_ndarray \<lparr>shape1 = 1, data = [[3], [3], [3]]\<rparr> \<and>
   shape0 \<lparr>shape1 = 1, data = [[3], [3], [3]]\<rparr> = length [- 1, 0, 1 :: real] \<and>
   (0 :: nat) < shape1 \<lparr>shape1 = 1, data = [[3], [3], [3 :: real]]\<rparr> \<and>
   fit binary64 student_t_sf [- 1, 0, 1] \<lparr>shape1 = 1, data = [[3], [3], [3]]\<rparr>
     = Inr [[Fin 0], [Fin 3], [NaN], [NaN], [Fin 0]] \<and>
   [[Fin 0], [Fin 3], [NaN], [NaN], [Fin 0]] ! 2 ! 0 = NaN \<and>
   binary64 0 = Fin 0 \<and> set (column 0 (data \<lparr>shape1 = 1, data = [[3], [3], [3 :: real]]\<rparr>)) = {3} \<and>
   mean binary64 (map Fin (column 0 (data \<lparr>shape1 = 1, data = [[3], [3], [3]]\<rparr>))) = Fin 3 \<and>
   3 \<le> length [- 1, 0, 1 :: real] \<and> variance [- 1, 0, 1] \<noteq> 0 \<and>
   variance (column 0 (data \<lparr>shape1 = 1, data = [[3], [3], [3]]\<rparr>)) = 0 \<and>
   tval binary64 (TINY binary64) (int (length [- 1, 0, 1 :: real]) - 2) NaN = NaN \<and>
   (\<exists>res. fit exact student_t_sf [- 1, 0, 1] \<lparr>shape1 = 1, data = [[3], [3], [3]]\<rparr> = Inr res \<and>
      res ! 0 ! 0 = Fin 0 \<and> res ! 2 ! 0 = NaN \<and> res ! 3 ! 0 = NaN \<and> res ! 4 ! 0 = Fin 0)"
proof -
  let ?Y = "\<lparr>shape1 = 1, data = [[3], [3], [3]]\<rparr>"
  let ?x = "[- 1, 0, 1 :: real]"
  let ?out = "[[Fin 0], [Fin 3], [NaN], [NaN], [Fin 0]]"
  have h1: "wf_ndarray ?Y" by (simp add: wf_ndarray_def)
  have h2: "shape0 ?Y = length ?x" by (simp add: shape0_def)
  have h3: "0 < shape1 ?Y" by simp
  have h4: "fit binary64 student_t_sf ?x ?Y = Inr ?out" by (rule fit_E5)
  have h5: "?out ! 2 ! 0 = NaN" by simp
  have h6: "binary64 0 = Fin 0" by (rule binary64_zero)
  have h7: "set (column 0 (data ?Y)) = {3}" by (simp add: column_def)
  have h8: "mean binary64 (map Fin (column 0 (data ?Y))) = Fin 3"
    by (simp add: column_def mean_def np_sum_def binary64_zero b64_E5)
  have h9: "3 \<le> length ?x" by simp
  have h10: "variance ?x \<noteq> 0" "variance (column 0 (data ?Y)) = 0"
    by (simp_all add: column_def variance_def centre_def average_def sumsq_def)
  note t = constant_column_nan[OF h1 h2 h3 h4, of 3]
  have a: "tval binary64 (TINY binary64) (int (length ?x) - 2) NaN = NaN"
    using t h5 by simp
  have b: "\<exists>res. fit exact student_t_sf ?x ?Y = Inr res \<and>
      res ! 0 ! 0 = Fin 0 \<and> res ! 2 ! 0 = NaN \<and> res ! 3 ! 0 = NaN \<and> res ! 4 ! 0 = Fin 0"
    using t h9 h10 by blast
  from h1 h2 h3 h4 h5 h6 h7 h8 h9 h10 a b show ?thesis by blast
qed

subsection \<open>Claim C6\<close>

text \<open>
  Claim C6. Column \<open>j\<close> of the result depends only on \<open>x\<close> and on column \<open>j\<close> of \<open>Y\<close>: two
  inputs that agree on column \<open>k\<close> give the same column \<open>k\<close> of the result (or the same
  exception), and a permutation \<open>p\<close> of the columns of \<open>Y\<close> permutes the columns of the
  result in the same way. This holds for every rounding of the arithmetic, binary64
  among them.
\<close>

theorem column_independence:
  assumes "wf_ndarray Y" "shape0 Y = length x" "wf_ndarray Y'" "shape0 Y' = length x"
  shows "(k < shape1 Y \<and> k < shape1 Y' \<and> column k (data Y) = column k (data Y') \<longrightarrow>
            map_sum id (column k) (fit rnd sf x Y) = map_sum id (column k) (fit rnd sf x Y')) \<and>
         (mset p = mset [0..<shape1 Y] \<longrightarrow>
            fit rnd sf x \<lparr>shape1 = length p, data = take_columns p (data Y)\<rparr>
              = map_sum id (take_columns p) (fit rnd sf x Y))"
proof (rule conjI; rule impI)
  assume a: "k < shape1 Y \<and> k < shape1 Y' \<and> column k (data Y) = column k (data Y')"
  then have k: "k < shape1 Y" "k < shape1 Y'" and e: "column k (data Y') = column k (data Y)"
    by simp_all
  have p: "set [k] \<subseteq> {..<shape1 Y}" "set [k] \<subseteq> {..<shape1 Y'}" using k by simp_all
  have n: "[k] = [] \<longleftrightarrow> shape1 Y = 0" "[k] = [] \<longleftrightarrow> shape1 Y' = 0" using k by simp_all
  have tc: "take_columns [k] A = map (\<lambda>v. [v]) (column k A)" for A :: "real list list"
    by (simp add: take_columns_def take_idx_def column_def)
  have t: "take_columns [k] (data Y') = take_columns [k] (data Y)"
    by (simp only: tc e)
  have L: "fit rnd sf x \<lparr>shape1 = length [k], data = take_columns [k] (data Y)\<rparr>
           = map_sum id (take_columns [k]) (fit rnd sf x Y)"
    by (rule fit_take_columns[OF assms(1,2) p(1) n(1)])
  have L': "fit rnd sf x \<lparr>shape1 = length [k], data = take_columns [k] (data Y')\<rparr>
           = map_sum id (take_columns [k]) (fit rnd sf x Y')"
    by (rule fit_take_columns[OF assms(3,4) p(2) n(2)])
  have eq: "map_sum id (take_columns [k]) (fit rnd sf x Y)
            = map_sum id (take_columns [k]) (fit rnd sf x Y')"
    by (simp only: L[symmetric] L'[symmetric] t)
  have c: "map_sum id (column k) r = map_sum id (map hd) (map_sum id (take_columns [k]) r)"
    for r :: "error + npfloat list list"
    by (cases r) (simp_all add: column_def take_columns_def take_idx_def comp_def)
  show "map_sum id (column k) (fit rnd sf x Y) = map_sum id (column k) (fit rnd sf x Y')"
    by (simp only: c eq)
next
  assume "mset p = mset [0..<shape1 Y]"
  note ix = perm_indices[OF this]
  have e: "p = [] \<longleftrightarrow> shape1 Y = 0" using ix(1) by (cases p) simp_all
  have s: "set p \<subseteq> {..<shape1 Y}" by (simp only: ix(2) subset_refl)
  show "fit rnd sf x \<lparr>shape1 = length p, data = take_columns p (data Y)\<rparr>
              = map_sum id (take_columns p) (fit rnd sf x Y)"
    by (rule fit_take_columns[OF assms(1,2) s e])
qed

text \<open>
  Two arrays with the same first column, and the two columns of one swapped, in binary64
  arithmetic.
\<close>

theorem column_independence_witness:
  "wf_ndarray \<lparr>shape1 = 2, data = [[1, 0], [3, 1], [5, 5]]\<rparr> \<and>
   shape0 \<lparr>shape1 = 2, data = [[1, 0], [3, 1], [5, 5]]\<rparr> = length [0, 1, 2 :: real] \<and>
   wf_ndarray \<lparr>shape1 = 3, data = [[1, 7, 2], [3, 1, 2], [5, 2, 2]]\<rparr> \<and>
   shape0 \<lparr>shape1 = 3, data = [[1, 7, 2], [3, 1, 2], [5, 2, 2]]\<rparr> = length [0, 1, 2 :: real] \<and>
   column 0 (data \<lparr>shape1 = 2, data = [[1, 0], [3, 1], [5, 5]]\<rparr>)
     = column 0 (data \<lparr>shape1 = 3, data = [[1, 7, 2], [3, 1, 2], [5, 2, 2]]\<rparr>) \<and>
   mset [1, 0] = mset [0..<shape1 \<lparr>shape1 = 2, data = [[1, 0], [3, 1], [5, 5 :: real]]\<rparr>] \<and>
   map_sum id (column 0)
       (fit binary64 student_t_sf [0, 1, 2] \<lparr>shape1 = 2, data = [[1, 0], [3, 1], [5, 5]]\<rparr>)
     = map_sum id (column 0)
         (fit binary64 student_t_sf [0, 1, 2]
            \<lparr>shape1 = 3, data = [[1, 7, 2], [3, 1, 2], [5, 2, 2]]\<rparr>) \<and>
   fit binary64 student_t_sf [0, 1, 2] \<lparr>shape1 = 2, data = [[0, 1], [1, 3], [5, 5]]\<rparr>
     = map_sum id (take_columns [1, 0])
         (fit binary64 student_t_sf [0, 1, 2] \<lparr>shape1 = 2, data = [[1, 0], [3, 1], [5, 5]]\<rparr>)"
proof -
  let ?Y = "\<lparr>shape1 = 2, data = [[1, 0], [3, 1], [5, 5 :: real]]\<rparr>"
  let ?Y' = "\<lparr>shape1 = 3, data = [[1, 7, 2], [3, 1, 2], [5, 2, 2 :: real]]\<rparr>"
  let ?x = "[0, 1, 2 :: real]"
  let ?f = "fit binary64 student_t_sf ?x"
  have h1: "wf_ndarray ?Y" and h3: "wf_ndarray ?Y'" by (simp_all add: wf_ndarray_def)
  have h2: "shape0 ?Y = length ?x" and h4: "shape0 ?Y' = length ?x" by (simp_all add: shape0_def)
  have c: "column 0 (data ?Y) = column 0 (data ?Y')" by (simp add: column_def)
  have m: "mset [1, 0] = mset [0..<shape1 ?Y]" by (simp add: upt_rec)
  note t = column_independence[OF h1 h2 h3 h4, of 0 binary64 student_t_sf "[1, 0]"]
  have a: "map_sum id (column 0) (?f ?Y) = map_sum id (column 0) (?f ?Y')"
    using t c by simp
  have "?f \<lparr>shape1 = length [1, 0 :: nat], data = take_columns [1, 0] (data ?Y)\<rparr>
        = map_sum id (take_columns [1, 0]) (?f ?Y)"
    using t m by blast
  then have b: "?f \<lparr>shape1 = 2, data = [[0, 1], [1, 3], [5, 5]]\<rparr>
        = map_sum id (take_columns [1, 0]) (?f ?Y)"
    by (simp add: take_columns_def take_idx_def numeral_2_eq_2)
  from h1 h2 h3 h4 c m a b show ?thesis by blast
qed

subsection \<open>Claim C7\<close>




subsection \<open>Claim C8\<close>

text \<open>
  Claim C8 as stated does not hold of the program. It says that for \<open>n \<ge> 3\<close> and non-zero
  variances the p-value lies in \<open>[0, 1]\<close>. For \<open>x = [1, 2, 3]\<close> and the column
  \<open>[0.2, 0.7, 1.2]\<close> the program computes \<open>r = 1 + 2\<^sup>-\<^sup>5\<^sup>2\<close>; then \<open>1 - r + 1e-20\<close> is
  negative, the square root of line 52 is NaN, and the p-value is NaN.
\<close>

theorem pval_counterexample:
  "3 \<le> length [1, 2, 3 :: real] \<and> variance [1, 2, 3] \<noteq> 0 \<and>
   variance [3602879701896397 / 18014398509481984, 3152519739159347 / 4503599627370496, 5404319552844595 / 4503599627370496] \<noteq> 0 \<and>
   map_sum id (\<lambda>out. out ! 3)
     (fit binary64 student_t_sf [1, 2, 3]
        \<lparr>shape1 = 1, data = [[3602879701896397 / 18014398509481984], [3152519739159347 / 4503599627370496], [5404319552844595 / 4503599627370496]]\<rparr>)
     = Inr [NaN]"
proof -
  have v: "variance [1, 2, 3] \<noteq> 0"
    "variance [3602879701896397 / 18014398509481984, 3152519739159347 / 4503599627370496, 5404319552844595 / 4503599627370496] \<noteq> 0"
    by (simp_all add: variance_def centre_def average_def sumsq_def)
  have c: "map_sum id (\<lambda>out. out ! 3)
     (fit binary64 student_t_sf [1, 2, 3]
        \<lparr>shape1 = 1, data = [[3602879701896397 / 18014398509481984], [3152519739159347 / 4503599627370496], [5404319552844595 / 4503599627370496]]\<rparr>)
     = Inr [NaN]"
    by (subst fit_E2) simp
  show ?thesis using v c by simp
qed

text \<open>
  Claim C8, amended. For \<open>n \<ge> 3\<close>, every p-value that the program returns, in binary64,
  is NaN or lies in \<open>[0, 1]\<close>. In exact arithmetic, for \<open>x\<close> of non-zero variance and a
  column \<open>j\<close> of non-zero variance, it is not NaN and lies in \<open>[0, 1]\<close>. The code passes
  \<open>|t|\<close> and \<open>df > 0\<close> to the survival function; what is assumed of the library is that its
  survival function lies between 0 and one half at non-negative arguments, as that of a
  distribution symmetric about 0 does (\<open>student_t_sf_range\<close>).
\<close>

theorem pval_in_unit_interval:
  assumes "wf_ndarray Y" "shape0 Y = length x" "3 \<le> length x" "j < shape1 Y"
    and sf: "\<forall>t\<ge>0. 0 \<le> sf t (int (length x) - 2) \<and> sf t (int (length x) - 2) \<le> 1 / 2"
  shows "(\<forall>out. fit binary64 sf x Y = Inr out \<longrightarrow>
            out ! 3 ! j = NaN \<or> (\<exists>p. out ! 3 ! j = Fin p \<and> 0 \<le> p \<and> p \<le> 1)) \<and>
         (variance x \<noteq> 0 \<and> variance (column j (data Y)) \<noteq> 0 \<longrightarrow>
            (\<exists>out p. fit exact sf x Y = Inr out \<and> out ! 3 ! j = Fin p \<and> 0 \<le> p \<and> p \<le> 1))"
proof -
  let ?y = "column j (data Y)" and ?df = "int (length x) - 2"
  have df: "0 < ?df" using assms(3) by simp
  have 1: "out ! 3 ! j = NaN \<or> (\<exists>p. out ! 3 ! j = Fin p \<and> 0 \<le> p \<and> p \<le> 1)"
    if "fit binary64 sf x Y = Inr out" for out
  proof -
    have "out = [map (fit_slope binary64 x) (columns_of Y),
                map (fit_intercept binary64 x) (columns_of Y),
                map (fit_r binary64 x) (columns_of Y),
                map (fit_p binary64 sf x) (columns_of Y),
                map (fit_stderr binary64 x) (columns_of Y)]"
      using assms(1,2) that by (auto simp: fit_columns split: if_splits)
    then have "out ! 3 ! j = pval binary64 sf ?df (fit_t binary64 x ?y)"
      using assms(4) by (simp add: nth_columns_of fit_p_def)
    moreover have "\<And>t. 0 \<le> t \<Longrightarrow> 0 \<le> sf t ?df \<and> sf t ?df \<le> 1 / 2" using sf by simp
    ultimately show ?thesis using pval_binary64_range[OF df, of sf "fit_t binary64 x ?y"] by simp
  qed
  have 2: "\<exists>out p. fit exact sf x Y = Inr out \<and> out ! 3 ! j = Fin p \<and> 0 \<le> p \<and> p \<le> 1"
    if h: "variance x \<noteq> 0 \<and> variance ?y \<noteq> 0"
  proof -
    have vy: "variance ?y \<noteq> 0" and vx: "variance x \<noteq> 0" using h by simp_all
    note cf = column_facts[OF assms(2) vy]
    have ssx: "0 < sumsq (centre x)" using vx by (simp add: variance_nonzero)
    have r: "col_pearson x ?y = Fin (pearson x ?y)" by (rule col_pearson_fin[OF ssx cf(2)])
    have b: "\<bar>pearson x ?y\<bar> \<le> 1" by (rule pearson_bounds[OF cf(1) ssx cf(2)])
    define t where "t = pearson x ?y *
       sqrt (of_int ?df / ((1 - pearson x ?y + EPS) * (1 + pearson x ?y + EPS)))"
    have tv: "col_tval x ?y = Fin t"
      unfolding col_tval_def r t_def using b df by (intro tval_EPS_fin) simp_all
    have pv: "col_pval sf x ?y = Fin (sf \<bar>t\<bar> ?df * 2)"
      unfolding col_pval_def tv by (rule pval_fin[OF df])
    have "0 \<le> sf \<bar>t\<bar> ?df \<and> sf \<bar>t\<bar> ?df \<le> 1 / 2" using sf by simp
    then have rng: "0 \<le> sf \<bar>t\<bar> ?df * 2 \<and> sf \<bar>t\<bar> ?df * 2 \<le> 1" by simp
    have "\<exists>out. fit exact sf x Y = Inr out \<and> out ! 3 ! j = Fin (sf \<bar>t\<bar> ?df * 2)"
      using assms(1-4) vx pv by (simp add: fit_cols nth_columns_of)
    with rng show ?thesis by blast
  qed
  from 1 2 show ?thesis by blast
qed

text \<open>
  Three points, one degree of freedom, Student's t for the library; its range is
  \<open>student_t_sf_range\<close>. In binary64 the p-value of \<open>x = [0, 3, 6]\<close> and the column
  \<open>[1, 4, 7]\<close> is a number in \<open>[0, 1]\<close>.
\<close>

theorem pval_in_unit_interval_witness:
  "wf_ndarray \<lparr>shape1 = 1, data = [[1], [4], [7]]\<rparr> \<and>
   shape0 \<lparr>shape1 = 1, data = [[1], [4], [7]]\<rparr> = length [0, 3, 6 :: real] \<and>
   3 \<le> length [0, 3, 6 :: real] \<and>
   (0 :: nat) < shape1 \<lparr>shape1 = 1, data = [[1], [4], [7 :: real]]\<rparr> \<and>
   variance [0, 3, 6] \<noteq> 0 \<and>
   variance (column 0 (data \<lparr>shape1 = 1, data = [[1], [4], [7]]\<rparr>)) \<noteq> 0 \<and>
   (\<exists>out p. fit binary64 student_t_sf [0, 3, 6] \<lparr>shape1 = 1, data = [[1], [4], [7]]\<rparr> = Inr out \<and>
      out ! 3 ! 0 = Fin p \<and> 0 \<le> p \<and> p \<le> 1) \<and>
   (\<exists>out p. fit exact student_t_sf [0, 3, 6] \<lparr>shape1 = 1, data = [[1], [4], [7]]\<rparr> = Inr out \<and>
      out ! 3 ! 0 = Fin p \<and> 0 \<le> p \<and> p \<le> 1)"
proof -
  let ?Y = "\<lparr>shape1 = 1, data = [[1], [4], [7]]\<rparr>"
  let ?x = "[0, 3, 6 :: real]"
  let ?T = "7414552001894653 / 1048576 :: real"
  have h1: "wf_ndarray ?Y" by (simp add: wf_ndarray_def)
  have h2: "shape0 ?Y = length ?x" by (simp add: shape0_def)
  have h3: "3 \<le> length ?x" by simp
  have h4: "0 < shape1 ?Y" by simp
  have h5: "variance ?x \<noteq> 0" by (simp add: variance_def centre_def average_def sumsq_def)
  have h6: "variance (column 0 (data ?Y)) \<noteq> 0"
    by (simp add: column_def variance_def centre_def average_def sumsq_def)
  have h7: "\<forall>t\<ge>0. 0 \<le> student_t_sf t (int (length ?x) - 2) \<and>
                   student_t_sf t (int (length ?x) - 2) \<le> 1 / 2"
    using student_t_sf_range[of "int (length ?x) - 2"] by simp
  note t = pval_in_unit_interval[where sf = student_t_sf and j = 0, OF h1 h2 h3 h4 h7]
  define out where "out = [[Fin (4503599627370497 / 4503599627370496)],
     [Fin (9007199254740987 / 9007199254740992)], [Fin 1],
     [binary64 (student_t_sf ?T 1 * 2)], [NaN]]"
  have o: "fit binary64 student_t_sf ?x ?Y = Inr out"
    "out ! 3 ! 0 = binary64 (student_t_sf ?T 1 * 2)"
    unfolding out_def by (rule fit_E1) simp
  have "0 \<le> student_t_sf ?T 1 * 2" "student_t_sf ?T 1 * 2 \<le> 1"
    using student_t_sf_range[of 1 ?T] by simp_all
  then obtain w where "binary64 (student_t_sf ?T 1 * 2) = Fin w" using binary64_unit by blast
  then have "out ! 3 ! 0 \<noteq> NaN" using o(2) by simp
  moreover have "out ! 3 ! 0 = NaN \<or> (\<exists>p. out ! 3 ! 0 = Fin p \<and> 0 \<le> p \<and> p \<le> 1)"
    using t o(1) by blast
  ultimately have a: "\<exists>out p. fit binary64 student_t_sf ?x ?Y = Inr out \<and>
      out ! 3 ! 0 = Fin p \<and> 0 \<le> p \<and> p \<le> 1"
    using o(1) by blast
  have b: "\<exists>out p. fit exact student_t_sf ?x ?Y = Inr out \<and>
      out ! 3 ! 0 = Fin p \<and> 0 \<le> p \<and> p \<le> 1"
    using t h5 h6 by blast
  from h1 h2 h3 h4 h5 h6 a b show ?thesis by blast
qed

subsection \<open>Claim C9\<close>




subsection \<open>Claim C10\<close>




end
